theory Spec2Isabelle
  imports Main "HOL-Library.Word"
begin

section \<open>The TF-M crypto client API: request encoding over psa_call\<close>

text \<open>
  This theory embeds \<^verbatim>\<open>secure_fw/partitions/crypto/tfm_crypto_secure_api.c\<close>.
  Every API function of that file builds a request envelope
  (\<^verbatim>\<open>struct tfm_crypto_pack_iovec\<close>), an array of input descriptors and an array of
  output descriptors, hands them to the channel (\<^verbatim>\<open>psa_call\<close>, or a veneer in a build
  without \<^verbatim>\<open>TFM_PSA_API\<close>), and copies descriptor lengths back to the caller.

  The preprocessor conditionals of the file are kept: the state of every macro the file
  tests is a field of \<open>build_config\<close>, and each function branches on it where the source
  has \<^verbatim>\<open>#ifdef\<close> or \<^verbatim>\<open>#if\<close>.
\<close>

subsection \<open>Scalar types and constants\<close>

type_synonym uint8_t = "8 word"
type_synonym uint16_t = "16 word"
type_synonym uint32_t = "32 word"

text \<open>\<^verbatim>\<open>int32_t\<close> is a 32-bit word read in two's complement (\<open>sint\<close>).\<close>

type_synonym int32_t = "32 word"

text \<open>TF-M targets 32-bit Arm M-profile cores: \<^verbatim>\<open>size_t\<close> is an unsigned 32-bit integer.\<close>

type_synonym size_t = "32 word"
type_synonym psa_status_t = int32_t
type_synonym psa_key_id_t = uint32_t
type_synonym psa_algorithm_t = uint32_t
type_synonym psa_key_derivation_step_t = uint16_t

text \<open>
  The status codes the file returns by itself. Their values are those of
  \<^verbatim>\<open>psa/error.h\<close>; the file only ever compares and returns them.
\<close>

definition PSA_SUCCESS :: psa_status_t where
  "PSA_SUCCESS = 0"

definition PSA_ERROR_NOT_SUPPORTED :: psa_status_t where
  "PSA_ERROR_NOT_SUPPORTED = - 134"

definition PSA_ERROR_INVALID_ARGUMENT :: psa_status_t where
  "PSA_ERROR_INVALID_ARGUMENT = - 135"

definition PSA_ERROR_BAD_STATE :: psa_status_t where
  "PSA_ERROR_BAD_STATE = - 137"

definition sizeof_uint32_t :: size_t where
  "sizeof_uint32_t = 4"

definition sizeof_size_t :: size_t where
  "sizeof_size_t = 4"

definition sizeof_psa_key_id_t :: size_t where
  "sizeof_psa_key_id_t = 4"

subsection \<open>Build configuration\<close>

text \<open>
  A preprocessor macro is either undefined or defined with a value. \<^verbatim>\<open>#ifdef M\<close>
  asks whether it is defined; \<^verbatim>\<open>#if (M != 0)\<close> reads an undefined macro as 0.
\<close>

type_synonym macro = "int option"

definition defined :: "macro \<Rightarrow> bool" where
  "defined m = (m \<noteq> None)"

definition macro_nonzero :: "macro \<Rightarrow> bool" where
  "macro_nonzero m = (case m of None \<Rightarrow> False | Some v \<Rightarrow> v \<noteq> 0)"

text \<open>
  The macros the file tests, and the constants and object sizes it takes from headers
  outside this file (\<^verbatim>\<open>tfm_crypto_defs.h\<close>, \<^verbatim>\<open>psa/crypto.h\<close>).
\<close>

record build_config =
  TFM_PSA_API :: macro
  TFM_CRYPTO_KEY_MODULE_DISABLED :: macro
  TFM_CRYPTO_CIPHER_MODULE_DISABLED :: macro
  TFM_CRYPTO_HASH_MODULE_DISABLED :: macro
  TFM_CRYPTO_MAC_MODULE_DISABLED :: macro
  TFM_CRYPTO_AEAD_MODULE_DISABLED :: macro
  TFM_CRYPTO_ASYM_SIGN_MODULE_DISABLED :: macro
  TFM_CRYPTO_ASYM_ENCRYPT_MODULE_DISABLED :: macro
  TFM_CRYPTO_KEY_DERIVATION_MODULE_DISABLED :: macro
  TFM_CRYPTO_RNG_MODULE_DISABLED :: macro
  TFM_CRYPTO_MAX_NONCE_LENGTH :: size_t
  sizeof_tfm_crypto_pack_iovec :: size_t
  sizeof_psa_key_attributes_t :: size_t
  sizeof_psa_hash_operation_t :: size_t

subsection \<open>The request envelope\<close>

text \<open>
  The service identifiers the file stores in \<^verbatim>\<open>iov.srv_id\<close>, one per API function
  that dispatches. Their numbers are in \<^verbatim>\<open>tfm_crypto_defs.h\<close>, outside this file; an
  identifier is kept by its name.
\<close>

datatype tfm_crypto_sid = SID string

definition TFM_CRYPTO_OPEN_KEY_SID :: tfm_crypto_sid where
  "TFM_CRYPTO_OPEN_KEY_SID = SID ''TFM_CRYPTO_OPEN_KEY_SID''"

definition TFM_CRYPTO_CLOSE_KEY_SID :: tfm_crypto_sid where
  "TFM_CRYPTO_CLOSE_KEY_SID = SID ''TFM_CRYPTO_CLOSE_KEY_SID''"

definition TFM_CRYPTO_IMPORT_KEY_SID :: tfm_crypto_sid where
  "TFM_CRYPTO_IMPORT_KEY_SID = SID ''TFM_CRYPTO_IMPORT_KEY_SID''"

definition TFM_CRYPTO_DESTROY_KEY_SID :: tfm_crypto_sid where
  "TFM_CRYPTO_DESTROY_KEY_SID = SID ''TFM_CRYPTO_DESTROY_KEY_SID''"

definition TFM_CRYPTO_GET_KEY_ATTRIBUTES_SID :: tfm_crypto_sid where
  "TFM_CRYPTO_GET_KEY_ATTRIBUTES_SID = SID ''TFM_CRYPTO_GET_KEY_ATTRIBUTES_SID''"

definition TFM_CRYPTO_RESET_KEY_ATTRIBUTES_SID :: tfm_crypto_sid where
  "TFM_CRYPTO_RESET_KEY_ATTRIBUTES_SID = SID ''TFM_CRYPTO_RESET_KEY_ATTRIBUTES_SID''"

definition TFM_CRYPTO_EXPORT_KEY_SID :: tfm_crypto_sid where
  "TFM_CRYPTO_EXPORT_KEY_SID = SID ''TFM_CRYPTO_EXPORT_KEY_SID''"

definition TFM_CRYPTO_EXPORT_PUBLIC_KEY_SID :: tfm_crypto_sid where
  "TFM_CRYPTO_EXPORT_PUBLIC_KEY_SID = SID ''TFM_CRYPTO_EXPORT_PUBLIC_KEY_SID''"

definition TFM_CRYPTO_PURGE_KEY_SID :: tfm_crypto_sid where
  "TFM_CRYPTO_PURGE_KEY_SID = SID ''TFM_CRYPTO_PURGE_KEY_SID''"

definition TFM_CRYPTO_COPY_KEY_SID :: tfm_crypto_sid where
  "TFM_CRYPTO_COPY_KEY_SID = SID ''TFM_CRYPTO_COPY_KEY_SID''"

definition TFM_CRYPTO_CIPHER_GENERATE_IV_SID :: tfm_crypto_sid where
  "TFM_CRYPTO_CIPHER_GENERATE_IV_SID = SID ''TFM_CRYPTO_CIPHER_GENERATE_IV_SID''"

definition TFM_CRYPTO_CIPHER_SET_IV_SID :: tfm_crypto_sid where
  "TFM_CRYPTO_CIPHER_SET_IV_SID = SID ''TFM_CRYPTO_CIPHER_SET_IV_SID''"

definition TFM_CRYPTO_CIPHER_ENCRYPT_SETUP_SID :: tfm_crypto_sid where
  "TFM_CRYPTO_CIPHER_ENCRYPT_SETUP_SID = SID ''TFM_CRYPTO_CIPHER_ENCRYPT_SETUP_SID''"

definition TFM_CRYPTO_CIPHER_DECRYPT_SETUP_SID :: tfm_crypto_sid where
  "TFM_CRYPTO_CIPHER_DECRYPT_SETUP_SID = SID ''TFM_CRYPTO_CIPHER_DECRYPT_SETUP_SID''"

definition TFM_CRYPTO_CIPHER_UPDATE_SID :: tfm_crypto_sid where
  "TFM_CRYPTO_CIPHER_UPDATE_SID = SID ''TFM_CRYPTO_CIPHER_UPDATE_SID''"

definition TFM_CRYPTO_CIPHER_ABORT_SID :: tfm_crypto_sid where
  "TFM_CRYPTO_CIPHER_ABORT_SID = SID ''TFM_CRYPTO_CIPHER_ABORT_SID''"

definition TFM_CRYPTO_CIPHER_FINISH_SID :: tfm_crypto_sid where
  "TFM_CRYPTO_CIPHER_FINISH_SID = SID ''TFM_CRYPTO_CIPHER_FINISH_SID''"

definition TFM_CRYPTO_HASH_SETUP_SID :: tfm_crypto_sid where
  "TFM_CRYPTO_HASH_SETUP_SID = SID ''TFM_CRYPTO_HASH_SETUP_SID''"

definition TFM_CRYPTO_HASH_UPDATE_SID :: tfm_crypto_sid where
  "TFM_CRYPTO_HASH_UPDATE_SID = SID ''TFM_CRYPTO_HASH_UPDATE_SID''"

definition TFM_CRYPTO_HASH_FINISH_SID :: tfm_crypto_sid where
  "TFM_CRYPTO_HASH_FINISH_SID = SID ''TFM_CRYPTO_HASH_FINISH_SID''"

definition TFM_CRYPTO_HASH_VERIFY_SID :: tfm_crypto_sid where
  "TFM_CRYPTO_HASH_VERIFY_SID = SID ''TFM_CRYPTO_HASH_VERIFY_SID''"

definition TFM_CRYPTO_HASH_ABORT_SID :: tfm_crypto_sid where
  "TFM_CRYPTO_HASH_ABORT_SID = SID ''TFM_CRYPTO_HASH_ABORT_SID''"

definition TFM_CRYPTO_HASH_CLONE_SID :: tfm_crypto_sid where
  "TFM_CRYPTO_HASH_CLONE_SID = SID ''TFM_CRYPTO_HASH_CLONE_SID''"

definition TFM_CRYPTO_HASH_COMPUTE_SID :: tfm_crypto_sid where
  "TFM_CRYPTO_HASH_COMPUTE_SID = SID ''TFM_CRYPTO_HASH_COMPUTE_SID''"

definition TFM_CRYPTO_HASH_COMPARE_SID :: tfm_crypto_sid where
  "TFM_CRYPTO_HASH_COMPARE_SID = SID ''TFM_CRYPTO_HASH_COMPARE_SID''"

definition TFM_CRYPTO_MAC_SIGN_SETUP_SID :: tfm_crypto_sid where
  "TFM_CRYPTO_MAC_SIGN_SETUP_SID = SID ''TFM_CRYPTO_MAC_SIGN_SETUP_SID''"

definition TFM_CRYPTO_MAC_VERIFY_SETUP_SID :: tfm_crypto_sid where
  "TFM_CRYPTO_MAC_VERIFY_SETUP_SID = SID ''TFM_CRYPTO_MAC_VERIFY_SETUP_SID''"

definition TFM_CRYPTO_MAC_UPDATE_SID :: tfm_crypto_sid where
  "TFM_CRYPTO_MAC_UPDATE_SID = SID ''TFM_CRYPTO_MAC_UPDATE_SID''"

definition TFM_CRYPTO_MAC_SIGN_FINISH_SID :: tfm_crypto_sid where
  "TFM_CRYPTO_MAC_SIGN_FINISH_SID = SID ''TFM_CRYPTO_MAC_SIGN_FINISH_SID''"

definition TFM_CRYPTO_MAC_VERIFY_FINISH_SID :: tfm_crypto_sid where
  "TFM_CRYPTO_MAC_VERIFY_FINISH_SID = SID ''TFM_CRYPTO_MAC_VERIFY_FINISH_SID''"

definition TFM_CRYPTO_MAC_ABORT_SID :: tfm_crypto_sid where
  "TFM_CRYPTO_MAC_ABORT_SID = SID ''TFM_CRYPTO_MAC_ABORT_SID''"

definition TFM_CRYPTO_AEAD_ENCRYPT_SID :: tfm_crypto_sid where
  "TFM_CRYPTO_AEAD_ENCRYPT_SID = SID ''TFM_CRYPTO_AEAD_ENCRYPT_SID''"

definition TFM_CRYPTO_AEAD_DECRYPT_SID :: tfm_crypto_sid where
  "TFM_CRYPTO_AEAD_DECRYPT_SID = SID ''TFM_CRYPTO_AEAD_DECRYPT_SID''"

definition TFM_CRYPTO_AEAD_ENCRYPT_SETUP_SID :: tfm_crypto_sid where
  "TFM_CRYPTO_AEAD_ENCRYPT_SETUP_SID = SID ''TFM_CRYPTO_AEAD_ENCRYPT_SETUP_SID''"

definition TFM_CRYPTO_AEAD_DECRYPT_SETUP_SID :: tfm_crypto_sid where
  "TFM_CRYPTO_AEAD_DECRYPT_SETUP_SID = SID ''TFM_CRYPTO_AEAD_DECRYPT_SETUP_SID''"

definition TFM_CRYPTO_AEAD_GENERATE_NONCE_SID :: tfm_crypto_sid where
  "TFM_CRYPTO_AEAD_GENERATE_NONCE_SID = SID ''TFM_CRYPTO_AEAD_GENERATE_NONCE_SID''"

definition TFM_CRYPTO_AEAD_SET_NONCE_SID :: tfm_crypto_sid where
  "TFM_CRYPTO_AEAD_SET_NONCE_SID = SID ''TFM_CRYPTO_AEAD_SET_NONCE_SID''"

definition TFM_CRYPTO_AEAD_SET_LENGTHS_SID :: tfm_crypto_sid where
  "TFM_CRYPTO_AEAD_SET_LENGTHS_SID = SID ''TFM_CRYPTO_AEAD_SET_LENGTHS_SID''"

definition TFM_CRYPTO_AEAD_UPDATE_AD_SID :: tfm_crypto_sid where
  "TFM_CRYPTO_AEAD_UPDATE_AD_SID = SID ''TFM_CRYPTO_AEAD_UPDATE_AD_SID''"

definition TFM_CRYPTO_AEAD_UPDATE_SID :: tfm_crypto_sid where
  "TFM_CRYPTO_AEAD_UPDATE_SID = SID ''TFM_CRYPTO_AEAD_UPDATE_SID''"

definition TFM_CRYPTO_AEAD_FINISH_SID :: tfm_crypto_sid where
  "TFM_CRYPTO_AEAD_FINISH_SID = SID ''TFM_CRYPTO_AEAD_FINISH_SID''"

definition TFM_CRYPTO_AEAD_VERIFY_SID :: tfm_crypto_sid where
  "TFM_CRYPTO_AEAD_VERIFY_SID = SID ''TFM_CRYPTO_AEAD_VERIFY_SID''"

definition TFM_CRYPTO_AEAD_ABORT_SID :: tfm_crypto_sid where
  "TFM_CRYPTO_AEAD_ABORT_SID = SID ''TFM_CRYPTO_AEAD_ABORT_SID''"

definition TFM_CRYPTO_SIGN_MESSAGE_SID :: tfm_crypto_sid where
  "TFM_CRYPTO_SIGN_MESSAGE_SID = SID ''TFM_CRYPTO_SIGN_MESSAGE_SID''"

definition TFM_CRYPTO_VERIFY_MESSAGE_SID :: tfm_crypto_sid where
  "TFM_CRYPTO_VERIFY_MESSAGE_SID = SID ''TFM_CRYPTO_VERIFY_MESSAGE_SID''"

definition TFM_CRYPTO_SIGN_HASH_SID :: tfm_crypto_sid where
  "TFM_CRYPTO_SIGN_HASH_SID = SID ''TFM_CRYPTO_SIGN_HASH_SID''"

definition TFM_CRYPTO_VERIFY_HASH_SID :: tfm_crypto_sid where
  "TFM_CRYPTO_VERIFY_HASH_SID = SID ''TFM_CRYPTO_VERIFY_HASH_SID''"

definition TFM_CRYPTO_ASYMMETRIC_ENCRYPT_SID :: tfm_crypto_sid where
  "TFM_CRYPTO_ASYMMETRIC_ENCRYPT_SID = SID ''TFM_CRYPTO_ASYMMETRIC_ENCRYPT_SID''"

definition TFM_CRYPTO_ASYMMETRIC_DECRYPT_SID :: tfm_crypto_sid where
  "TFM_CRYPTO_ASYMMETRIC_DECRYPT_SID = SID ''TFM_CRYPTO_ASYMMETRIC_DECRYPT_SID''"

definition TFM_CRYPTO_KEY_DERIVATION_GET_CAPACITY_SID :: tfm_crypto_sid where
  "TFM_CRYPTO_KEY_DERIVATION_GET_CAPACITY_SID = SID ''TFM_CRYPTO_KEY_DERIVATION_GET_CAPACITY_SID''"

definition TFM_CRYPTO_KEY_DERIVATION_OUTPUT_BYTES_SID :: tfm_crypto_sid where
  "TFM_CRYPTO_KEY_DERIVATION_OUTPUT_BYTES_SID = SID ''TFM_CRYPTO_KEY_DERIVATION_OUTPUT_BYTES_SID''"

definition TFM_CRYPTO_KEY_DERIVATION_INPUT_KEY_SID :: tfm_crypto_sid where
  "TFM_CRYPTO_KEY_DERIVATION_INPUT_KEY_SID = SID ''TFM_CRYPTO_KEY_DERIVATION_INPUT_KEY_SID''"

definition TFM_CRYPTO_KEY_DERIVATION_ABORT_SID :: tfm_crypto_sid where
  "TFM_CRYPTO_KEY_DERIVATION_ABORT_SID = SID ''TFM_CRYPTO_KEY_DERIVATION_ABORT_SID''"

definition TFM_CRYPTO_KEY_DERIVATION_KEY_AGREEMENT_SID :: tfm_crypto_sid where
  "TFM_CRYPTO_KEY_DERIVATION_KEY_AGREEMENT_SID = SID ''TFM_CRYPTO_KEY_DERIVATION_KEY_AGREEMENT_SID''"

definition TFM_CRYPTO_GENERATE_RANDOM_SID :: tfm_crypto_sid where
  "TFM_CRYPTO_GENERATE_RANDOM_SID = SID ''TFM_CRYPTO_GENERATE_RANDOM_SID''"

definition TFM_CRYPTO_GENERATE_KEY_SID :: tfm_crypto_sid where
  "TFM_CRYPTO_GENERATE_KEY_SID = SID ''TFM_CRYPTO_GENERATE_KEY_SID''"

definition TFM_CRYPTO_MAC_COMPUTE_SID :: tfm_crypto_sid where
  "TFM_CRYPTO_MAC_COMPUTE_SID = SID ''TFM_CRYPTO_MAC_COMPUTE_SID''"

definition TFM_CRYPTO_MAC_VERIFY_SID :: tfm_crypto_sid where
  "TFM_CRYPTO_MAC_VERIFY_SID = SID ''TFM_CRYPTO_MAC_VERIFY_SID''"

definition TFM_CRYPTO_CIPHER_ENCRYPT_SID :: tfm_crypto_sid where
  "TFM_CRYPTO_CIPHER_ENCRYPT_SID = SID ''TFM_CRYPTO_CIPHER_ENCRYPT_SID''"

definition TFM_CRYPTO_CIPHER_DECRYPT_SID :: tfm_crypto_sid where
  "TFM_CRYPTO_CIPHER_DECRYPT_SID = SID ''TFM_CRYPTO_CIPHER_DECRYPT_SID''"

definition TFM_CRYPTO_RAW_KEY_AGREEMENT_SID :: tfm_crypto_sid where
  "TFM_CRYPTO_RAW_KEY_AGREEMENT_SID = SID ''TFM_CRYPTO_RAW_KEY_AGREEMENT_SID''"

definition TFM_CRYPTO_KEY_DERIVATION_SETUP_SID :: tfm_crypto_sid where
  "TFM_CRYPTO_KEY_DERIVATION_SETUP_SID = SID ''TFM_CRYPTO_KEY_DERIVATION_SETUP_SID''"

definition TFM_CRYPTO_KEY_DERIVATION_SET_CAPACITY_SID :: tfm_crypto_sid where
  "TFM_CRYPTO_KEY_DERIVATION_SET_CAPACITY_SID = SID ''TFM_CRYPTO_KEY_DERIVATION_SET_CAPACITY_SID''"

definition TFM_CRYPTO_KEY_DERIVATION_INPUT_BYTES_SID :: tfm_crypto_sid where
  "TFM_CRYPTO_KEY_DERIVATION_INPUT_BYTES_SID = SID ''TFM_CRYPTO_KEY_DERIVATION_INPUT_BYTES_SID''"

definition TFM_CRYPTO_KEY_DERIVATION_OUTPUT_KEY_SID :: tfm_crypto_sid where
  "TFM_CRYPTO_KEY_DERIVATION_OUTPUT_KEY_SID = SID ''TFM_CRYPTO_KEY_DERIVATION_OUTPUT_KEY_SID''"

text \<open>
  \<^verbatim>\<open>struct tfm_crypto_aead_pack_input\<close>: the inline nonce, an array of
  \<^verbatim>\<open>TFM_CRYPTO_MAX_NONCE_LENGTH\<close> bytes, and its length. The members of the two
  envelope structures carry the suffix \<open>_C\<close>, since the API parameters use the same
  names.
\<close>

record tfm_crypto_aead_pack_input =
  nonce_C :: "uint8_t list"
  nonce_length_C :: uint32_t

text \<open>
  \<^verbatim>\<open>struct tfm_crypto_pack_iovec\<close>, with the members the file assigns.
\<close>

record tfm_crypto_pack_iovec =
  srv_id_C :: tfm_crypto_sid
  step_C :: uint16_t
  key_id_C :: psa_key_id_t
  alg_C :: psa_algorithm_t
  op_handle_C :: uint32_t
  capacity_C :: size_t
  ad_length_C :: size_t
  plaintext_length_C :: size_t
  aead_in_C :: tfm_crypto_aead_pack_input

text \<open>
  A designated initialiser \<^verbatim>\<open>{ .srv_id = sid, ... }\<close> sets every member it does not
  name to zero. \<open>iov_init cfg sid\<close> is the envelope with only \<^verbatim>\<open>srv_id\<close> named; the
  other named members are record updates of it.
\<close>

definition iov_init :: "build_config \<Rightarrow> tfm_crypto_sid \<Rightarrow> tfm_crypto_pack_iovec" where
  "iov_init cfg sid =
     \<lparr>srv_id_C = sid, step_C = 0, key_id_C = 0, alg_C = 0, op_handle_C = 0, capacity_C = 0,
      ad_length_C = 0, plaintext_length_C = 0,
      aead_in_C = \<lparr>nonce_C = replicate (unat (TFM_CRYPTO_MAX_NONCE_LENGTH cfg)) 0,
                 nonce_length_C = 0\<rparr>\<rparr>"

subsection \<open>Pointers, descriptors and memory\<close>

type_synonym addr = nat

text \<open>
  A pointer is null, an address in the caller's memory, or the address of an object in
  the stack frame of the running API function (\<^verbatim>\<open>&iov\<close>, and \<^verbatim>\<open>&id\<close> in
  \<^verbatim>\<open>psa_open_key\<close>). A frame object lives for one call and the source never changes
  it after taking its address, so its pointer is kept together with the object's value:
  this is what the service reads through the descriptor.
\<close>

datatype ptr =
    NULL
  | Ptr addr
  | Stack_iov tfm_crypto_pack_iovec
  | Stack_id psa_key_id_t

text \<open>
  \<^verbatim>\<open>psa_invec\<close> and \<^verbatim>\<open>psa_outvec\<close> have the same two members.
\<close>

record psa_vec =
  base :: ptr
  len :: size_t

type_synonym psa_invec = psa_vec
type_synonym psa_outvec = psa_vec

text \<open>
  The caller's memory, split by the type of the object read or written: the
  \<^verbatim>\<open>handle\<close> member of the operation object at an address (the only member the file
  touches), \<^verbatim>\<open>size_t\<close> objects (the \<^verbatim>\<open>*_length\<close> out-parameters) and bytes.
\<close>

record memory =
  handle_of :: "addr \<Rightarrow> uint32_t"
  size_at :: "addr \<Rightarrow> size_t"
  byte_at :: "addr \<Rightarrow> uint8_t"

subsection \<open>The channel\<close>

text \<open>
  The service behind \<^verbatim>\<open>psa_call\<close> is not part of this file. It is a parameter: given
  its own state, the descriptors and the caller's memory, it answers with a status, the
  number of bytes written for each output descriptor, the memory as it left it, and its
  new state.
\<close>

record 's reply =
  r_status :: psa_status_t
  r_lens :: "size_t list"
  r_mem :: memory
  r_srv :: 's

type_synonym 's channel = "'s \<Rightarrow> psa_invec list \<Rightarrow> psa_outvec list \<Rightarrow> memory \<Rightarrow> 's reply"

datatype binding = Via_psa_call | Via_veneer

text \<open>
  One entry of the dispatch log: how the channel was entered, the descriptors it was
  given (only the counted ones), and what it answered: the status, the output
  descriptors with their lengths overwritten, and the memory.
\<close>

record dispatch =
  via :: binding
  in_vecs :: "psa_invec list"
  out_vecs :: "psa_outvec list"
  ret_status :: psa_status_t
  ret_out_vecs :: "psa_outvec list"
  ret_mem :: memory

record 's world =
  mem :: memory
  srv :: 's
  trace :: "dispatch list"

text \<open>The channel overwrites \<^verbatim>\<open>len\<close> of the output descriptors it was given, in place.\<close>

fun write_lens :: "size_t list \<Rightarrow> psa_outvec list \<Rightarrow> psa_outvec list" where
  "write_lens (l # ls) (v # vs) = v\<lparr>len := l\<rparr> # write_lens ls vs"
| "write_lens ls vs = vs"

text \<open>
  A call through the channel with \<open>in_len\<close> input and \<open>out_len\<close> output descriptors:
  \<^verbatim>\<open>psa_call(TFM_CRYPTO_HANDLE, PSA_IPC_CALL, in_vec, in_len, out_vec, out_len)\<close>, or
  \<^verbatim>\<open>srv_name##_veneer(in_vec, in_len, out_vec, out_len)\<close>. It returns the status and
  the caller's output array, and logs the dispatch.
\<close>

definition channel_call ::
  "binding \<Rightarrow> 's channel \<Rightarrow> psa_invec list \<Rightarrow> nat \<Rightarrow> psa_outvec list \<Rightarrow> nat \<Rightarrow> 's world
   \<Rightarrow> psa_status_t \<times> psa_outvec list \<times> 's world" where
  "channel_call b chan in_vec in_len out_vec out_len w =
     (let ins = take in_len in_vec;
          outs = take out_len out_vec;
          r = chan (srv w) ins outs (mem w);
          out_vec' = write_lens (take out_len (r_lens r)) out_vec
      in (r_status r, out_vec',
          w\<lparr>mem := r_mem r, srv := r_srv r,
            trace := trace w @
              [\<lparr>via = b, in_vecs = ins, out_vecs = outs, ret_status = r_status r,
                ret_out_vecs = take out_len out_vec', ret_mem = r_mem r\<rparr>]\<rparr>))"

definition psa_call ::
  "'s channel \<Rightarrow> psa_invec list \<Rightarrow> nat \<Rightarrow> psa_outvec list \<Rightarrow> nat \<Rightarrow> 's world
   \<Rightarrow> psa_status_t \<times> psa_outvec list \<times> 's world" where
  "psa_call = channel_call Via_psa_call"

definition veneer ::
  "'s channel \<Rightarrow> psa_invec list \<Rightarrow> nat \<Rightarrow> psa_outvec list \<Rightarrow> nat \<Rightarrow> 's world
   \<Rightarrow> psa_status_t \<times> psa_outvec list \<times> 's world" where
  "veneer = channel_call Via_veneer"

text \<open>\<^verbatim>\<open>ARRAY_SIZE\<close> of a local array is its number of elements.\<close>

definition ARRAY_SIZE :: "'a list \<Rightarrow> nat" where
  "ARRAY_SIZE xs = length xs"

text \<open>
  The two dispatch macros at the head of the file. \<^verbatim>\<open>API_DISPATCH_NO_OUTVEC\<close> passes
  a null output array of length 0.
\<close>

definition API_DISPATCH ::
  "build_config \<Rightarrow> 's channel \<Rightarrow> psa_invec list \<Rightarrow> psa_outvec list \<Rightarrow> 's world
   \<Rightarrow> psa_status_t \<times> psa_outvec list \<times> 's world" where
  "API_DISPATCH cfg chan in_vec out_vec w =
     (if defined (TFM_PSA_API cfg)
      then psa_call chan in_vec (ARRAY_SIZE in_vec) out_vec (ARRAY_SIZE out_vec) w
      else veneer chan in_vec (ARRAY_SIZE in_vec) out_vec (ARRAY_SIZE out_vec) w)"

definition API_DISPATCH_NO_OUTVEC ::
  "build_config \<Rightarrow> 's channel \<Rightarrow> psa_invec list \<Rightarrow> 's world \<Rightarrow> psa_status_t \<times> 's world" where
  "API_DISPATCH_NO_OUTVEC cfg chan in_vec w =
     (let (status, out_vec, w) =
            (if defined (TFM_PSA_API cfg)
             then psa_call chan in_vec (ARRAY_SIZE in_vec) [] 0 w
             else veneer chan in_vec (ARRAY_SIZE in_vec) [] 0 w)
      in (status, w))"

text \<open>\<^verbatim>\<open>*p = v\<close> for a \<^verbatim>\<open>size_t *p\<close> that is not null.\<close>

definition store_size :: "addr \<Rightarrow> size_t \<Rightarrow> 's world \<Rightarrow> 's world" where
  "store_size p v w = w\<lparr>mem := (mem w)\<lparr>size_at := (size_at (mem w))(p := v)\<rparr>\<rparr>"

text \<open>
  Reads and writes through a pointer that may be null. \<open>handle_at\<close> is
  \<^verbatim>\<open>p->handle\<close>; the source only evaluates it behind a test that \<open>p\<close> is not null.
  \<open>store_size_ptr\<close> is \<^verbatim>\<open>*p = v\<close> where the source has not established that \<open>p\<close>
  is not null: a store through a null pointer has no successor state.
\<close>

definition handle_at :: "memory \<Rightarrow> ptr \<Rightarrow> uint32_t" where
  "handle_at m p = (case p of Ptr a \<Rightarrow> handle_of m a | _ \<Rightarrow> 0)"

definition load_byte :: "memory \<Rightarrow> ptr \<Rightarrow> nat \<Rightarrow> uint8_t" where
  "load_byte m p i = (case p of Ptr a \<Rightarrow> byte_at m (a + i) | _ \<Rightarrow> 0)"

definition store_size_ptr :: "ptr \<Rightarrow> size_t \<Rightarrow> 's world \<Rightarrow> 's world option" where
  "store_size_ptr p v w = (case p of Ptr a \<Rightarrow> Some (store_size a v w) | _ \<Rightarrow> None)"

text \<open>
  The nonce copy of the one-shot AEAD functions:
  \<^verbatim>\<open>for (size_t idx = 0; idx < nonce_length; idx++) iov.aead_in.nonce[idx] = nonce[idx];\<close>
  It runs only after \<^verbatim>\<open>nonce_length\<close> has been checked against the array size, so
  every index it writes is inside the array.
\<close>

function nonce_copy_loop :: "memory \<Rightarrow> ptr \<Rightarrow> nat \<Rightarrow> nat \<Rightarrow> uint8_t list \<Rightarrow> uint8_t list" where
  "nonce_copy_loop m nonce idx n arr =
     (if idx < n
      then nonce_copy_loop m nonce (idx + 1) n (arr[idx := load_byte m nonce idx])
      else arr)"
  by pat_completeness auto
termination
  by (relation "measure (\<lambda>(m, nonce, idx, n, arr). n - idx)") auto

declare nonce_copy_loop.simps [simp del]

subsection \<open>The API functions\<close>

text \<open>
  What a call of an API function hands back: a status, nothing (a \<^verbatim>\<open>void\<close>
  function), or no return at all because the function stored through a null pointer.

  A parameter the source dereferences without a test (\<^verbatim>\<open>operation->handle\<close>,
  \<^verbatim>\<open>*hash_length = ...\<close>) is an address; a parameter it tests against null or only
  passes on as a descriptor base is a pointer. The handle is the first member of an
  operation object, so \<^verbatim>\<open>&(operation->handle)\<close> is the pointer \<open>Ptr operation\<close>. The
  functions follow in the order of the file.
\<close>

datatype outcome = Returned psa_status_t | Returned_void | Null_deref

definition psa_crypto_init :: "'s world \<Rightarrow> outcome \<times> 's world" where
  "psa_crypto_init w = (Returned PSA_SUCCESS, w)"

definition psa_open_key ::
  "build_config \<Rightarrow> 's channel \<Rightarrow> psa_key_id_t \<Rightarrow> ptr \<Rightarrow> 's world
   \<Rightarrow> outcome \<times> 's world" where
  "psa_open_key cfg chan id' key_id w =
     (if defined (TFM_CRYPTO_KEY_MODULE_DISABLED cfg) then (Returned PSA_ERROR_NOT_SUPPORTED, w)
      else
        let iov = iov_init cfg TFM_CRYPTO_OPEN_KEY_SID;
            in_vec = [\<lparr>base = Stack_iov iov, len = sizeof_tfm_crypto_pack_iovec cfg\<rparr>,
                      \<lparr>base = Stack_id id', len = sizeof_psa_key_id_t\<rparr>];
            out_vec = [\<lparr>base = key_id, len = sizeof_psa_key_id_t\<rparr>];
            (status, out_vec, w) = API_DISPATCH cfg chan in_vec out_vec w
        in (Returned status, w))"

definition psa_close_key ::
  "build_config \<Rightarrow> 's channel \<Rightarrow> psa_key_id_t \<Rightarrow> 's world
   \<Rightarrow> outcome \<times> 's world" where
  "psa_close_key cfg chan key_id w =
     (if defined (TFM_CRYPTO_KEY_MODULE_DISABLED cfg) then (Returned PSA_ERROR_NOT_SUPPORTED, w)
      else
        let iov = (iov_init cfg TFM_CRYPTO_CLOSE_KEY_SID)
                  \<lparr>key_id_C := key_id\<rparr>;
            in_vec = [\<lparr>base = Stack_iov iov, len = sizeof_tfm_crypto_pack_iovec cfg\<rparr>];
            (status, w) = API_DISPATCH_NO_OUTVEC cfg chan in_vec w
        in (Returned status, w))"

definition psa_import_key ::
  "build_config \<Rightarrow> 's channel \<Rightarrow> ptr \<Rightarrow> ptr \<Rightarrow> size_t \<Rightarrow> ptr \<Rightarrow> 's world
   \<Rightarrow> outcome \<times> 's world" where
  "psa_import_key cfg chan attributes data data_length key_id w =
     (if defined (TFM_CRYPTO_KEY_MODULE_DISABLED cfg) then (Returned PSA_ERROR_NOT_SUPPORTED, w)
      else
        let iov = iov_init cfg TFM_CRYPTO_IMPORT_KEY_SID;
            in_vec = [\<lparr>base = Stack_iov iov, len = sizeof_tfm_crypto_pack_iovec cfg\<rparr>,
                      \<lparr>base = attributes, len = sizeof_psa_key_attributes_t cfg\<rparr>,
                      \<lparr>base = data, len = data_length\<rparr>];
            out_vec = [\<lparr>base = key_id, len = sizeof_psa_key_id_t\<rparr>];
            (status, out_vec, w) = API_DISPATCH cfg chan in_vec out_vec w
        in (Returned status, w))"

definition psa_destroy_key ::
  "build_config \<Rightarrow> 's channel \<Rightarrow> psa_key_id_t \<Rightarrow> 's world
   \<Rightarrow> outcome \<times> 's world" where
  "psa_destroy_key cfg chan key_id w =
     (if defined (TFM_CRYPTO_KEY_MODULE_DISABLED cfg) then (Returned PSA_ERROR_NOT_SUPPORTED, w)
      else
        let iov = (iov_init cfg TFM_CRYPTO_DESTROY_KEY_SID)
                  \<lparr>key_id_C := key_id\<rparr>;
            in_vec = [\<lparr>base = Stack_iov iov, len = sizeof_tfm_crypto_pack_iovec cfg\<rparr>];
            (status, w) = API_DISPATCH_NO_OUTVEC cfg chan in_vec w
        in (Returned status, w))"

definition psa_get_key_attributes ::
  "build_config \<Rightarrow> 's channel \<Rightarrow> psa_key_id_t \<Rightarrow> ptr \<Rightarrow> 's world
   \<Rightarrow> outcome \<times> 's world" where
  "psa_get_key_attributes cfg chan key_id attributes w =
     (if defined (TFM_CRYPTO_KEY_MODULE_DISABLED cfg) then (Returned PSA_ERROR_NOT_SUPPORTED, w)
      else
        let iov = (iov_init cfg TFM_CRYPTO_GET_KEY_ATTRIBUTES_SID)
                  \<lparr>key_id_C := key_id\<rparr>;
            in_vec = [\<lparr>base = Stack_iov iov, len = sizeof_tfm_crypto_pack_iovec cfg\<rparr>];
            out_vec = [\<lparr>base = attributes, len = sizeof_psa_key_attributes_t cfg\<rparr>];
            (status, out_vec, w) = API_DISPATCH cfg chan in_vec out_vec w
        in (Returned status, w))"

text \<open>
  \<^verbatim>\<open>psa_reset_key_attributes\<close> returns \<^verbatim>\<open>void\<close>: the status of the dispatch is
  discarded, and the \<^verbatim>\<open>return PSA_ERROR_NOT_SUPPORTED\<close> of the disabled branch hands
  nothing to the caller.
\<close>

definition psa_reset_key_attributes ::
  "build_config \<Rightarrow> 's channel \<Rightarrow> ptr \<Rightarrow> 's world
   \<Rightarrow> outcome \<times> 's world" where
  "psa_reset_key_attributes cfg chan attributes w =
     (if defined (TFM_CRYPTO_KEY_MODULE_DISABLED cfg) then (Returned_void, w)
      else
        let iov = iov_init cfg TFM_CRYPTO_RESET_KEY_ATTRIBUTES_SID;
            in_vec = [\<lparr>base = Stack_iov iov, len = sizeof_tfm_crypto_pack_iovec cfg\<rparr>];
            out_vec = [\<lparr>base = attributes, len = sizeof_psa_key_attributes_t cfg\<rparr>];
            (status, out_vec, w) = API_DISPATCH cfg chan in_vec out_vec w
        in (Returned_void, w))"

definition psa_export_key ::
  "build_config \<Rightarrow> 's channel \<Rightarrow> psa_key_id_t \<Rightarrow> ptr \<Rightarrow> size_t \<Rightarrow> addr \<Rightarrow> 's world
   \<Rightarrow> outcome \<times> 's world" where
  "psa_export_key cfg chan key_id data data_size data_length w =
     (if defined (TFM_CRYPTO_KEY_MODULE_DISABLED cfg) then (Returned PSA_ERROR_NOT_SUPPORTED, w)
      else
        let iov = (iov_init cfg TFM_CRYPTO_EXPORT_KEY_SID)
                  \<lparr>key_id_C := key_id\<rparr>;
            in_vec = [\<lparr>base = Stack_iov iov, len = sizeof_tfm_crypto_pack_iovec cfg\<rparr>];
            out_vec = [\<lparr>base = data, len = data_size\<rparr>];
            (status, out_vec, w) = API_DISPATCH cfg chan in_vec out_vec w;
            w = store_size data_length (len (out_vec ! 0)) w
        in (Returned status, w))"

definition psa_export_public_key ::
  "build_config \<Rightarrow> 's channel \<Rightarrow> psa_key_id_t \<Rightarrow> ptr \<Rightarrow> size_t \<Rightarrow> addr \<Rightarrow> 's world
   \<Rightarrow> outcome \<times> 's world" where
  "psa_export_public_key cfg chan key_id data data_size data_length w =
     (if defined (TFM_CRYPTO_KEY_MODULE_DISABLED cfg) then (Returned PSA_ERROR_NOT_SUPPORTED, w)
      else
        let iov = (iov_init cfg TFM_CRYPTO_EXPORT_PUBLIC_KEY_SID)
                  \<lparr>key_id_C := key_id\<rparr>;
            in_vec = [\<lparr>base = Stack_iov iov, len = sizeof_tfm_crypto_pack_iovec cfg\<rparr>];
            out_vec = [\<lparr>base = data, len = data_size\<rparr>];
            (status, out_vec, w) = API_DISPATCH cfg chan in_vec out_vec w;
            w = store_size data_length (len (out_vec ! 0)) w
        in (Returned status, w))"

definition psa_purge_key ::
  "build_config \<Rightarrow> 's channel \<Rightarrow> psa_key_id_t \<Rightarrow> 's world
   \<Rightarrow> outcome \<times> 's world" where
  "psa_purge_key cfg chan key_id w =
     (if defined (TFM_CRYPTO_KEY_MODULE_DISABLED cfg) then (Returned PSA_ERROR_NOT_SUPPORTED, w)
      else
        let iov = (iov_init cfg TFM_CRYPTO_PURGE_KEY_SID)
                  \<lparr>key_id_C := key_id\<rparr>;
            in_vec = [\<lparr>base = Stack_iov iov, len = sizeof_tfm_crypto_pack_iovec cfg\<rparr>];
            (status, w) = API_DISPATCH_NO_OUTVEC cfg chan in_vec w
        in (Returned status, w))"

definition psa_copy_key ::
  "build_config \<Rightarrow> 's channel \<Rightarrow> psa_key_id_t \<Rightarrow> ptr \<Rightarrow> ptr \<Rightarrow> 's world
   \<Rightarrow> outcome \<times> 's world" where
  "psa_copy_key cfg chan source_key_id attributes target_key_id w =
     (if defined (TFM_CRYPTO_KEY_MODULE_DISABLED cfg) then (Returned PSA_ERROR_NOT_SUPPORTED, w)
      else
        let iov = (iov_init cfg TFM_CRYPTO_COPY_KEY_SID)
                  \<lparr>key_id_C := source_key_id\<rparr>;
            in_vec = [\<lparr>base = Stack_iov iov, len = sizeof_tfm_crypto_pack_iovec cfg\<rparr>,
                      \<lparr>base = attributes, len = sizeof_psa_key_attributes_t cfg\<rparr>];
            out_vec = [\<lparr>base = target_key_id, len = sizeof_psa_key_id_t\<rparr>];
            (status, out_vec, w) = API_DISPATCH cfg chan in_vec out_vec w
        in (Returned status, w))"

definition psa_cipher_generate_iv ::
  "build_config \<Rightarrow> 's channel \<Rightarrow> addr \<Rightarrow> ptr \<Rightarrow> size_t \<Rightarrow> addr \<Rightarrow> 's world
   \<Rightarrow> outcome \<times> 's world" where
  "psa_cipher_generate_iv cfg chan operation iv iv_size iv_length w =
     (if defined (TFM_CRYPTO_CIPHER_MODULE_DISABLED cfg) then (Returned PSA_ERROR_NOT_SUPPORTED, w)
      else
        let iov = (iov_init cfg TFM_CRYPTO_CIPHER_GENERATE_IV_SID)
                  \<lparr>op_handle_C := handle_of (mem w) operation\<rparr>;
            in_vec = [\<lparr>base = Stack_iov iov, len = sizeof_tfm_crypto_pack_iovec cfg\<rparr>];
            out_vec = [\<lparr>base = Ptr operation, len = sizeof_uint32_t\<rparr>,
                       \<lparr>base = iv, len = iv_size\<rparr>];
            (status, out_vec, w) = API_DISPATCH cfg chan in_vec out_vec w;
            w = store_size iv_length (len (out_vec ! 1)) w
        in (Returned status, w))"

definition psa_cipher_set_iv ::
  "build_config \<Rightarrow> 's channel \<Rightarrow> addr \<Rightarrow> ptr \<Rightarrow> size_t \<Rightarrow> 's world
   \<Rightarrow> outcome \<times> 's world" where
  "psa_cipher_set_iv cfg chan operation iv iv_length w =
     (if defined (TFM_CRYPTO_CIPHER_MODULE_DISABLED cfg) then (Returned PSA_ERROR_NOT_SUPPORTED, w)
      else
        let iov = (iov_init cfg TFM_CRYPTO_CIPHER_SET_IV_SID)
                  \<lparr>op_handle_C := handle_of (mem w) operation\<rparr>;
            in_vec = [\<lparr>base = Stack_iov iov, len = sizeof_tfm_crypto_pack_iovec cfg\<rparr>,
                      \<lparr>base = iv, len = iv_length\<rparr>];
            out_vec = [\<lparr>base = Ptr operation, len = sizeof_uint32_t\<rparr>];
            (status, out_vec, w) = API_DISPATCH cfg chan in_vec out_vec w
        in (Returned status, w))"

definition psa_cipher_encrypt_setup ::
  "build_config \<Rightarrow> 's channel \<Rightarrow> addr \<Rightarrow> psa_key_id_t \<Rightarrow> psa_algorithm_t \<Rightarrow> 's world
   \<Rightarrow> outcome \<times> 's world" where
  "psa_cipher_encrypt_setup cfg chan operation key_id alg w =
     (if defined (TFM_CRYPTO_CIPHER_MODULE_DISABLED cfg) then (Returned PSA_ERROR_NOT_SUPPORTED, w)
      else
        let iov = (iov_init cfg TFM_CRYPTO_CIPHER_ENCRYPT_SETUP_SID)
                  \<lparr>key_id_C := key_id, alg_C := alg, op_handle_C := handle_of (mem w) operation\<rparr>;
            in_vec = [\<lparr>base = Stack_iov iov, len = sizeof_tfm_crypto_pack_iovec cfg\<rparr>];
            out_vec = [\<lparr>base = Ptr operation, len = sizeof_uint32_t\<rparr>];
            (status, out_vec, w) = API_DISPATCH cfg chan in_vec out_vec w
        in (Returned status, w))"

definition psa_cipher_decrypt_setup ::
  "build_config \<Rightarrow> 's channel \<Rightarrow> addr \<Rightarrow> psa_key_id_t \<Rightarrow> psa_algorithm_t \<Rightarrow> 's world
   \<Rightarrow> outcome \<times> 's world" where
  "psa_cipher_decrypt_setup cfg chan operation key_id alg w =
     (if defined (TFM_CRYPTO_CIPHER_MODULE_DISABLED cfg) then (Returned PSA_ERROR_NOT_SUPPORTED, w)
      else
        let iov = (iov_init cfg TFM_CRYPTO_CIPHER_DECRYPT_SETUP_SID)
                  \<lparr>key_id_C := key_id, alg_C := alg, op_handle_C := handle_of (mem w) operation\<rparr>;
            in_vec = [\<lparr>base = Stack_iov iov, len = sizeof_tfm_crypto_pack_iovec cfg\<rparr>];
            out_vec = [\<lparr>base = Ptr operation, len = sizeof_uint32_t\<rparr>];
            (status, out_vec, w) = API_DISPATCH cfg chan in_vec out_vec w
        in (Returned status, w))"

definition psa_cipher_update ::
  "build_config \<Rightarrow> 's channel \<Rightarrow> addr \<Rightarrow> ptr \<Rightarrow> size_t \<Rightarrow> ptr \<Rightarrow> size_t \<Rightarrow> addr \<Rightarrow> 's world
   \<Rightarrow> outcome \<times> 's world" where
  "psa_cipher_update cfg chan operation input input_length output output_size output_length w =
     (if defined (TFM_CRYPTO_CIPHER_MODULE_DISABLED cfg) then (Returned PSA_ERROR_NOT_SUPPORTED, w)
      else
        let iov = (iov_init cfg TFM_CRYPTO_CIPHER_UPDATE_SID)
                  \<lparr>op_handle_C := handle_of (mem w) operation\<rparr>;
            in_vec = [\<lparr>base = Stack_iov iov, len = sizeof_tfm_crypto_pack_iovec cfg\<rparr>,
                      \<lparr>base = input, len = input_length\<rparr>];
            out_vec = [\<lparr>base = Ptr operation, len = sizeof_uint32_t\<rparr>,
                       \<lparr>base = output, len = output_size\<rparr>];
            (status, out_vec, w) = API_DISPATCH cfg chan in_vec out_vec w;
            w = store_size output_length (len (out_vec ! 1)) w
        in (Returned status, w))"

definition psa_cipher_abort ::
  "build_config \<Rightarrow> 's channel \<Rightarrow> addr \<Rightarrow> 's world
   \<Rightarrow> outcome \<times> 's world" where
  "psa_cipher_abort cfg chan operation w =
     (if defined (TFM_CRYPTO_CIPHER_MODULE_DISABLED cfg) then (Returned PSA_ERROR_NOT_SUPPORTED, w)
      else
        let iov = (iov_init cfg TFM_CRYPTO_CIPHER_ABORT_SID)
                  \<lparr>op_handle_C := handle_of (mem w) operation\<rparr>;
            in_vec = [\<lparr>base = Stack_iov iov, len = sizeof_tfm_crypto_pack_iovec cfg\<rparr>];
            out_vec = [\<lparr>base = Ptr operation, len = sizeof_uint32_t\<rparr>];
            (status, out_vec, w) = API_DISPATCH cfg chan in_vec out_vec w
        in (Returned status, w))"

definition psa_cipher_finish ::
  "build_config \<Rightarrow> 's channel \<Rightarrow> addr \<Rightarrow> ptr \<Rightarrow> size_t \<Rightarrow> addr \<Rightarrow> 's world
   \<Rightarrow> outcome \<times> 's world" where
  "psa_cipher_finish cfg chan operation output output_size output_length w =
     (if defined (TFM_CRYPTO_CIPHER_MODULE_DISABLED cfg) then (Returned PSA_ERROR_NOT_SUPPORTED, w)
      else
        let iov = (iov_init cfg TFM_CRYPTO_CIPHER_FINISH_SID)
                  \<lparr>op_handle_C := handle_of (mem w) operation\<rparr>;
            in_vec = [\<lparr>base = Stack_iov iov, len = sizeof_tfm_crypto_pack_iovec cfg\<rparr>];
            out_vec = [\<lparr>base = Ptr operation, len = sizeof_uint32_t\<rparr>,
                       \<lparr>base = output, len = output_size\<rparr>];
            (status, out_vec, w) = API_DISPATCH cfg chan in_vec out_vec w;
            w = store_size output_length (len (out_vec ! 1)) w
        in (Returned status, w))"

definition psa_hash_setup ::
  "build_config \<Rightarrow> 's channel \<Rightarrow> addr \<Rightarrow> psa_algorithm_t \<Rightarrow> 's world
   \<Rightarrow> outcome \<times> 's world" where
  "psa_hash_setup cfg chan operation alg w =
     (if defined (TFM_CRYPTO_HASH_MODULE_DISABLED cfg) then (Returned PSA_ERROR_NOT_SUPPORTED, w)
      else
        let iov = (iov_init cfg TFM_CRYPTO_HASH_SETUP_SID)
                  \<lparr>alg_C := alg, op_handle_C := handle_of (mem w) operation\<rparr>;
            in_vec = [\<lparr>base = Stack_iov iov, len = sizeof_tfm_crypto_pack_iovec cfg\<rparr>];
            out_vec = [\<lparr>base = Ptr operation, len = sizeof_uint32_t\<rparr>];
            (status, out_vec, w) = API_DISPATCH cfg chan in_vec out_vec w
        in (Returned status, w))"

definition psa_hash_update ::
  "build_config \<Rightarrow> 's channel \<Rightarrow> addr \<Rightarrow> ptr \<Rightarrow> size_t \<Rightarrow> 's world
   \<Rightarrow> outcome \<times> 's world" where
  "psa_hash_update cfg chan operation input input_length w =
     (if defined (TFM_CRYPTO_HASH_MODULE_DISABLED cfg) then (Returned PSA_ERROR_NOT_SUPPORTED, w)
      else
        let iov = (iov_init cfg TFM_CRYPTO_HASH_UPDATE_SID)
                  \<lparr>op_handle_C := handle_of (mem w) operation\<rparr>;
            in_vec = [\<lparr>base = Stack_iov iov, len = sizeof_tfm_crypto_pack_iovec cfg\<rparr>,
                      \<lparr>base = input, len = input_length\<rparr>];
            out_vec = [\<lparr>base = Ptr operation, len = sizeof_uint32_t\<rparr>];
            (status, out_vec, w) = API_DISPATCH cfg chan in_vec out_vec w
        in (Returned status, w))"

definition psa_hash_finish ::
  "build_config \<Rightarrow> 's channel \<Rightarrow> addr \<Rightarrow> ptr \<Rightarrow> size_t \<Rightarrow> addr \<Rightarrow> 's world
   \<Rightarrow> outcome \<times> 's world" where
  "psa_hash_finish cfg chan operation hash hash_size hash_length w =
     (if defined (TFM_CRYPTO_HASH_MODULE_DISABLED cfg) then (Returned PSA_ERROR_NOT_SUPPORTED, w)
      else
        let iov = (iov_init cfg TFM_CRYPTO_HASH_FINISH_SID)
                  \<lparr>op_handle_C := handle_of (mem w) operation\<rparr>;
            in_vec = [\<lparr>base = Stack_iov iov, len = sizeof_tfm_crypto_pack_iovec cfg\<rparr>];
            out_vec = [\<lparr>base = Ptr operation, len = sizeof_uint32_t\<rparr>,
                       \<lparr>base = hash, len = hash_size\<rparr>];
            (status, out_vec, w) = API_DISPATCH cfg chan in_vec out_vec w;
            w = store_size hash_length (len (out_vec ! 1)) w
        in (Returned status, w))"

definition psa_hash_verify ::
  "build_config \<Rightarrow> 's channel \<Rightarrow> addr \<Rightarrow> ptr \<Rightarrow> size_t \<Rightarrow> 's world
   \<Rightarrow> outcome \<times> 's world" where
  "psa_hash_verify cfg chan operation hash hash_length w =
     (if defined (TFM_CRYPTO_HASH_MODULE_DISABLED cfg) then (Returned PSA_ERROR_NOT_SUPPORTED, w)
      else
        let iov = (iov_init cfg TFM_CRYPTO_HASH_VERIFY_SID)
                  \<lparr>op_handle_C := handle_of (mem w) operation\<rparr>;
            in_vec = [\<lparr>base = Stack_iov iov, len = sizeof_tfm_crypto_pack_iovec cfg\<rparr>,
                      \<lparr>base = hash, len = hash_length\<rparr>];
            out_vec = [\<lparr>base = Ptr operation, len = sizeof_uint32_t\<rparr>];
            (status, out_vec, w) = API_DISPATCH cfg chan in_vec out_vec w
        in (Returned status, w))"

definition psa_hash_abort ::
  "build_config \<Rightarrow> 's channel \<Rightarrow> addr \<Rightarrow> 's world
   \<Rightarrow> outcome \<times> 's world" where
  "psa_hash_abort cfg chan operation w =
     (if defined (TFM_CRYPTO_HASH_MODULE_DISABLED cfg) then (Returned PSA_ERROR_NOT_SUPPORTED, w)
      else
        let iov = (iov_init cfg TFM_CRYPTO_HASH_ABORT_SID)
                  \<lparr>op_handle_C := handle_of (mem w) operation\<rparr>;
            in_vec = [\<lparr>base = Stack_iov iov, len = sizeof_tfm_crypto_pack_iovec cfg\<rparr>];
            out_vec = [\<lparr>base = Ptr operation, len = sizeof_uint32_t\<rparr>];
            (status, out_vec, w) = API_DISPATCH cfg chan in_vec out_vec w
        in (Returned status, w))"

text \<open>
  \<^verbatim>\<open>psa_hash_clone\<close> tests \<^verbatim>\<open>target_operation\<close> against null before reading its
  handle, so the target is a pointer that may be null; the output descriptor is the
  whole target object.
\<close>

definition psa_hash_clone ::
  "build_config \<Rightarrow> 's channel \<Rightarrow> addr \<Rightarrow> ptr \<Rightarrow> 's world
   \<Rightarrow> outcome \<times> 's world" where
  "psa_hash_clone cfg chan source_operation target_operation w =
     (if defined (TFM_CRYPTO_HASH_MODULE_DISABLED cfg) then (Returned PSA_ERROR_NOT_SUPPORTED, w)
      else
        let iov = (iov_init cfg TFM_CRYPTO_HASH_CLONE_SID)
                  \<lparr>op_handle_C := handle_of (mem w) source_operation\<rparr>;
            in_vec = [\<lparr>base = Stack_iov iov, len = sizeof_tfm_crypto_pack_iovec cfg\<rparr>];
            out_vec = [\<lparr>base = target_operation, len = sizeof_psa_hash_operation_t cfg\<rparr>]
        in if target_operation \<noteq> NULL \<and> handle_at (mem w) target_operation \<noteq> 0
           then (Returned PSA_ERROR_BAD_STATE, w)
           else
             let (status, out_vec, w) = API_DISPATCH cfg chan in_vec out_vec w
             in (Returned status, w))"

definition psa_hash_compute ::
  "build_config \<Rightarrow> 's channel \<Rightarrow> psa_algorithm_t \<Rightarrow> ptr \<Rightarrow> size_t \<Rightarrow> ptr \<Rightarrow> size_t \<Rightarrow> addr \<Rightarrow> 's world
   \<Rightarrow> outcome \<times> 's world" where
  "psa_hash_compute cfg chan alg input input_length hash hash_size hash_length w =
     (if macro_nonzero (TFM_CRYPTO_HASH_MODULE_DISABLED cfg) then (Returned PSA_ERROR_NOT_SUPPORTED, w)
      else
        let iov = (iov_init cfg TFM_CRYPTO_HASH_COMPUTE_SID)
                  \<lparr>alg_C := alg\<rparr>;
            in_vec = [\<lparr>base = Stack_iov iov, len = sizeof_tfm_crypto_pack_iovec cfg\<rparr>,
                      \<lparr>base = input, len = input_length\<rparr>];
            out_vec = [\<lparr>base = hash, len = hash_size\<rparr>];
            (status, out_vec, w) = API_DISPATCH cfg chan in_vec out_vec w;
            w = store_size hash_length (len (out_vec ! 0)) w
        in (Returned status, w))"

definition psa_hash_compare ::
  "build_config \<Rightarrow> 's channel \<Rightarrow> psa_algorithm_t \<Rightarrow> ptr \<Rightarrow> size_t \<Rightarrow> ptr \<Rightarrow> size_t \<Rightarrow> 's world
   \<Rightarrow> outcome \<times> 's world" where
  "psa_hash_compare cfg chan alg input input_length hash hash_length w =
     (if macro_nonzero (TFM_CRYPTO_HASH_MODULE_DISABLED cfg) then (Returned PSA_ERROR_NOT_SUPPORTED, w)
      else
        let iov = (iov_init cfg TFM_CRYPTO_HASH_COMPARE_SID)
                  \<lparr>alg_C := alg\<rparr>;
            in_vec = [\<lparr>base = Stack_iov iov, len = sizeof_tfm_crypto_pack_iovec cfg\<rparr>,
                      \<lparr>base = input, len = input_length\<rparr>,
                      \<lparr>base = hash, len = hash_length\<rparr>];
            (status, w) = API_DISPATCH_NO_OUTVEC cfg chan in_vec w
        in (Returned status, w))"

definition psa_mac_sign_setup ::
  "build_config \<Rightarrow> 's channel \<Rightarrow> addr \<Rightarrow> psa_key_id_t \<Rightarrow> psa_algorithm_t \<Rightarrow> 's world
   \<Rightarrow> outcome \<times> 's world" where
  "psa_mac_sign_setup cfg chan operation key_id alg w =
     (if defined (TFM_CRYPTO_MAC_MODULE_DISABLED cfg) then (Returned PSA_ERROR_NOT_SUPPORTED, w)
      else
        let iov = (iov_init cfg TFM_CRYPTO_MAC_SIGN_SETUP_SID)
                  \<lparr>key_id_C := key_id, alg_C := alg, op_handle_C := handle_of (mem w) operation\<rparr>;
            in_vec = [\<lparr>base = Stack_iov iov, len = sizeof_tfm_crypto_pack_iovec cfg\<rparr>];
            out_vec = [\<lparr>base = Ptr operation, len = sizeof_uint32_t\<rparr>];
            (status, out_vec, w) = API_DISPATCH cfg chan in_vec out_vec w
        in (Returned status, w))"

definition psa_mac_verify_setup ::
  "build_config \<Rightarrow> 's channel \<Rightarrow> addr \<Rightarrow> psa_key_id_t \<Rightarrow> psa_algorithm_t \<Rightarrow> 's world
   \<Rightarrow> outcome \<times> 's world" where
  "psa_mac_verify_setup cfg chan operation key_id alg w =
     (if defined (TFM_CRYPTO_MAC_MODULE_DISABLED cfg) then (Returned PSA_ERROR_NOT_SUPPORTED, w)
      else
        let iov = (iov_init cfg TFM_CRYPTO_MAC_VERIFY_SETUP_SID)
                  \<lparr>key_id_C := key_id, alg_C := alg, op_handle_C := handle_of (mem w) operation\<rparr>;
            in_vec = [\<lparr>base = Stack_iov iov, len = sizeof_tfm_crypto_pack_iovec cfg\<rparr>];
            out_vec = [\<lparr>base = Ptr operation, len = sizeof_uint32_t\<rparr>];
            (status, out_vec, w) = API_DISPATCH cfg chan in_vec out_vec w
        in (Returned status, w))"

definition psa_mac_update ::
  "build_config \<Rightarrow> 's channel \<Rightarrow> addr \<Rightarrow> ptr \<Rightarrow> size_t \<Rightarrow> 's world
   \<Rightarrow> outcome \<times> 's world" where
  "psa_mac_update cfg chan operation input input_length w =
     (if defined (TFM_CRYPTO_MAC_MODULE_DISABLED cfg) then (Returned PSA_ERROR_NOT_SUPPORTED, w)
      else
        let iov = (iov_init cfg TFM_CRYPTO_MAC_UPDATE_SID)
                  \<lparr>op_handle_C := handle_of (mem w) operation\<rparr>;
            in_vec = [\<lparr>base = Stack_iov iov, len = sizeof_tfm_crypto_pack_iovec cfg\<rparr>,
                      \<lparr>base = input, len = input_length\<rparr>];
            out_vec = [\<lparr>base = Ptr operation, len = sizeof_uint32_t\<rparr>];
            (status, out_vec, w) = API_DISPATCH cfg chan in_vec out_vec w
        in (Returned status, w))"

definition psa_mac_sign_finish ::
  "build_config \<Rightarrow> 's channel \<Rightarrow> addr \<Rightarrow> ptr \<Rightarrow> size_t \<Rightarrow> addr \<Rightarrow> 's world
   \<Rightarrow> outcome \<times> 's world" where
  "psa_mac_sign_finish cfg chan operation mac mac_size mac_length w =
     (if defined (TFM_CRYPTO_MAC_MODULE_DISABLED cfg) then (Returned PSA_ERROR_NOT_SUPPORTED, w)
      else
        let iov = (iov_init cfg TFM_CRYPTO_MAC_SIGN_FINISH_SID)
                  \<lparr>op_handle_C := handle_of (mem w) operation\<rparr>;
            in_vec = [\<lparr>base = Stack_iov iov, len = sizeof_tfm_crypto_pack_iovec cfg\<rparr>];
            out_vec = [\<lparr>base = Ptr operation, len = sizeof_uint32_t\<rparr>,
                       \<lparr>base = mac, len = mac_size\<rparr>];
            (status, out_vec, w) = API_DISPATCH cfg chan in_vec out_vec w;
            w = store_size mac_length (len (out_vec ! 1)) w
        in (Returned status, w))"

definition psa_mac_verify_finish ::
  "build_config \<Rightarrow> 's channel \<Rightarrow> addr \<Rightarrow> ptr \<Rightarrow> size_t \<Rightarrow> 's world
   \<Rightarrow> outcome \<times> 's world" where
  "psa_mac_verify_finish cfg chan operation mac mac_length w =
     (if defined (TFM_CRYPTO_MAC_MODULE_DISABLED cfg) then (Returned PSA_ERROR_NOT_SUPPORTED, w)
      else
        let iov = (iov_init cfg TFM_CRYPTO_MAC_VERIFY_FINISH_SID)
                  \<lparr>op_handle_C := handle_of (mem w) operation\<rparr>;
            in_vec = [\<lparr>base = Stack_iov iov, len = sizeof_tfm_crypto_pack_iovec cfg\<rparr>,
                      \<lparr>base = mac, len = mac_length\<rparr>];
            out_vec = [\<lparr>base = Ptr operation, len = sizeof_uint32_t\<rparr>];
            (status, out_vec, w) = API_DISPATCH cfg chan in_vec out_vec w
        in (Returned status, w))"

definition psa_mac_abort ::
  "build_config \<Rightarrow> 's channel \<Rightarrow> addr \<Rightarrow> 's world
   \<Rightarrow> outcome \<times> 's world" where
  "psa_mac_abort cfg chan operation w =
     (if defined (TFM_CRYPTO_MAC_MODULE_DISABLED cfg) then (Returned PSA_ERROR_NOT_SUPPORTED, w)
      else
        let iov = (iov_init cfg TFM_CRYPTO_MAC_ABORT_SID)
                  \<lparr>op_handle_C := handle_of (mem w) operation\<rparr>;
            in_vec = [\<lparr>base = Stack_iov iov, len = sizeof_tfm_crypto_pack_iovec cfg\<rparr>];
            out_vec = [\<lparr>base = Ptr operation, len = sizeof_uint32_t\<rparr>];
            (status, out_vec, w) = API_DISPATCH cfg chan in_vec out_vec w
        in (Returned status, w))"

text \<open>
  The one-shot AEAD functions check the optional additional data, then the nonce length,
  copy the nonce into the envelope, and only then point \<^verbatim>\<open>in_vec[0]\<close> at the envelope.
  With \<^verbatim>\<open>TFM_PSA_API\<close> the input count drops by one when \<^verbatim>\<open>additional_data\<close> is null.
\<close>

definition psa_aead_encrypt ::
  "build_config \<Rightarrow> 's channel \<Rightarrow> psa_key_id_t \<Rightarrow> psa_algorithm_t \<Rightarrow> ptr \<Rightarrow> size_t \<Rightarrow> ptr \<Rightarrow> size_t
   \<Rightarrow> ptr \<Rightarrow> size_t \<Rightarrow> ptr \<Rightarrow> size_t \<Rightarrow> addr \<Rightarrow> 's world
   \<Rightarrow> outcome \<times> 's world" where
  "psa_aead_encrypt cfg chan key_id alg nonce nonce_length additional_data additional_data_length
     plaintext plaintext_length ciphertext ciphertext_size ciphertext_length w =
     (if defined (TFM_CRYPTO_AEAD_MODULE_DISABLED cfg) then (Returned PSA_ERROR_NOT_SUPPORTED, w)
      else
        let iov = (iov_init cfg TFM_CRYPTO_AEAD_ENCRYPT_SID)
                  \<lparr>key_id_C := key_id, alg_C := alg,
                   aead_in_C := \<lparr>nonce_C = replicate (unat (TFM_CRYPTO_MAX_NONCE_LENGTH cfg)) 0,
                                 nonce_length_C = 0\<rparr>\<rparr>
        in if additional_data = NULL \<and> additional_data_length \<noteq> 0
           then (Returned PSA_ERROR_INVALID_ARGUMENT, w)
           else
             let in_vec = [\<lparr>base = NULL, len = 0\<rparr>,
                           \<lparr>base = plaintext, len = plaintext_length\<rparr>,
                           \<lparr>base = additional_data, len = additional_data_length\<rparr>];
                 out_vec = [\<lparr>base = ciphertext, len = ciphertext_size\<rparr>]
             in if nonce_length > TFM_CRYPTO_MAX_NONCE_LENGTH cfg
                then (Returned PSA_ERROR_INVALID_ARGUMENT, w)
                else
                  let iov = (if nonce \<noteq> NULL
                             then iov\<lparr>aead_in_C :=
                                    \<lparr>nonce_C = nonce_copy_loop (mem w) nonce 0 (unat nonce_length)
                                                 (nonce_C (aead_in_C iov)),
                                     nonce_length_C = nonce_length\<rparr>\<rparr>
                             else iov);
                      in_vec = in_vec[0 := \<lparr>base = Stack_iov iov,
                                             len = sizeof_tfm_crypto_pack_iovec cfg\<rparr>];
                      (status, out_vec, w) =
                        (if defined (TFM_PSA_API cfg)
                         then
                           let in_len = ARRAY_SIZE in_vec;
                               in_len = (if additional_data = NULL then in_len - 1 else in_len)
                           in psa_call chan in_vec in_len out_vec (ARRAY_SIZE out_vec) w
                         else API_DISPATCH cfg chan in_vec out_vec w);
                      w = store_size ciphertext_length (len (out_vec ! 0)) w
                  in (Returned status, w))"

definition psa_aead_decrypt ::
  "build_config \<Rightarrow> 's channel \<Rightarrow> psa_key_id_t \<Rightarrow> psa_algorithm_t \<Rightarrow> ptr \<Rightarrow> size_t \<Rightarrow> ptr \<Rightarrow> size_t
   \<Rightarrow> ptr \<Rightarrow> size_t \<Rightarrow> ptr \<Rightarrow> size_t \<Rightarrow> addr \<Rightarrow> 's world
   \<Rightarrow> outcome \<times> 's world" where
  "psa_aead_decrypt cfg chan key_id alg nonce nonce_length additional_data additional_data_length
     ciphertext ciphertext_length plaintext plaintext_size plaintext_length w =
     (if defined (TFM_CRYPTO_AEAD_MODULE_DISABLED cfg) then (Returned PSA_ERROR_NOT_SUPPORTED, w)
      else
        let iov = (iov_init cfg TFM_CRYPTO_AEAD_DECRYPT_SID)
                  \<lparr>key_id_C := key_id, alg_C := alg,
                   aead_in_C := \<lparr>nonce_C = replicate (unat (TFM_CRYPTO_MAX_NONCE_LENGTH cfg)) 0,
                                 nonce_length_C = 0\<rparr>\<rparr>
        in if additional_data = NULL \<and> additional_data_length \<noteq> 0
           then (Returned PSA_ERROR_INVALID_ARGUMENT, w)
           else
             let in_vec = [\<lparr>base = NULL, len = 0\<rparr>,
                           \<lparr>base = ciphertext, len = ciphertext_length\<rparr>,
                           \<lparr>base = additional_data, len = additional_data_length\<rparr>];
                 out_vec = [\<lparr>base = plaintext, len = plaintext_size\<rparr>]
             in if nonce_length > TFM_CRYPTO_MAX_NONCE_LENGTH cfg
                then (Returned PSA_ERROR_INVALID_ARGUMENT, w)
                else
                  let iov = (if nonce \<noteq> NULL
                             then iov\<lparr>aead_in_C :=
                                    \<lparr>nonce_C = nonce_copy_loop (mem w) nonce 0 (unat nonce_length)
                                                 (nonce_C (aead_in_C iov)),
                                     nonce_length_C = nonce_length\<rparr>\<rparr>
                             else iov);
                      in_vec = in_vec[0 := \<lparr>base = Stack_iov iov,
                                             len = sizeof_tfm_crypto_pack_iovec cfg\<rparr>];
                      (status, out_vec, w) =
                        (if defined (TFM_PSA_API cfg)
                         then
                           let in_len = ARRAY_SIZE in_vec;
                               in_len = (if additional_data = NULL then in_len - 1 else in_len)
                           in psa_call chan in_vec in_len out_vec (ARRAY_SIZE out_vec) w
                         else API_DISPATCH cfg chan in_vec out_vec w);
                      w = store_size plaintext_length (len (out_vec ! 0)) w
                  in (Returned status, w))"

definition psa_aead_encrypt_setup ::
  "build_config \<Rightarrow> 's channel \<Rightarrow> addr \<Rightarrow> psa_key_id_t \<Rightarrow> psa_algorithm_t \<Rightarrow> 's world
   \<Rightarrow> outcome \<times> 's world" where
  "psa_aead_encrypt_setup cfg chan operation key alg w =
     (if defined (TFM_CRYPTO_AEAD_MODULE_DISABLED cfg) then (Returned PSA_ERROR_NOT_SUPPORTED, w)
      else
        let iov = (iov_init cfg TFM_CRYPTO_AEAD_ENCRYPT_SETUP_SID)
                  \<lparr>key_id_C := key, alg_C := alg, op_handle_C := handle_of (mem w) operation\<rparr>;
            in_vec = [\<lparr>base = Stack_iov iov, len = sizeof_tfm_crypto_pack_iovec cfg\<rparr>];
            out_vec = [\<lparr>base = Ptr operation, len = sizeof_uint32_t\<rparr>];
            (status, out_vec, w) = API_DISPATCH cfg chan in_vec out_vec w
        in (Returned status, w))"

definition psa_aead_decrypt_setup ::
  "build_config \<Rightarrow> 's channel \<Rightarrow> addr \<Rightarrow> psa_key_id_t \<Rightarrow> psa_algorithm_t \<Rightarrow> 's world
   \<Rightarrow> outcome \<times> 's world" where
  "psa_aead_decrypt_setup cfg chan operation key alg w =
     (if defined (TFM_CRYPTO_AEAD_MODULE_DISABLED cfg) then (Returned PSA_ERROR_NOT_SUPPORTED, w)
      else
        let iov = (iov_init cfg TFM_CRYPTO_AEAD_DECRYPT_SETUP_SID)
                  \<lparr>key_id_C := key, alg_C := alg, op_handle_C := handle_of (mem w) operation\<rparr>;
            in_vec = [\<lparr>base = Stack_iov iov, len = sizeof_tfm_crypto_pack_iovec cfg\<rparr>];
            out_vec = [\<lparr>base = Ptr operation, len = sizeof_uint32_t\<rparr>];
            (status, out_vec, w) = API_DISPATCH cfg chan in_vec out_vec w
        in (Returned status, w))"

definition psa_aead_generate_nonce ::
  "build_config \<Rightarrow> 's channel \<Rightarrow> addr \<Rightarrow> ptr \<Rightarrow> size_t \<Rightarrow> addr \<Rightarrow> 's world
   \<Rightarrow> outcome \<times> 's world" where
  "psa_aead_generate_nonce cfg chan operation nonce nonce_size nonce_length w =
     (if defined (TFM_CRYPTO_AEAD_MODULE_DISABLED cfg) then (Returned PSA_ERROR_NOT_SUPPORTED, w)
      else
        let iov = (iov_init cfg TFM_CRYPTO_AEAD_GENERATE_NONCE_SID)
                  \<lparr>op_handle_C := handle_of (mem w) operation\<rparr>;
            in_vec = [\<lparr>base = Stack_iov iov, len = sizeof_tfm_crypto_pack_iovec cfg\<rparr>];
            out_vec = [\<lparr>base = Ptr operation, len = sizeof_uint32_t\<rparr>,
                       \<lparr>base = nonce, len = nonce_size\<rparr>];
            (status, out_vec, w) = API_DISPATCH cfg chan in_vec out_vec w;
            w = store_size nonce_length (len (out_vec ! 1)) w
        in (Returned status, w))"

definition psa_aead_set_nonce ::
  "build_config \<Rightarrow> 's channel \<Rightarrow> addr \<Rightarrow> ptr \<Rightarrow> size_t \<Rightarrow> 's world
   \<Rightarrow> outcome \<times> 's world" where
  "psa_aead_set_nonce cfg chan operation nonce nonce_length w =
     (if defined (TFM_CRYPTO_AEAD_MODULE_DISABLED cfg) then (Returned PSA_ERROR_NOT_SUPPORTED, w)
      else
        let iov = (iov_init cfg TFM_CRYPTO_AEAD_SET_NONCE_SID)
                  \<lparr>op_handle_C := handle_of (mem w) operation\<rparr>;
            in_vec = [\<lparr>base = Stack_iov iov, len = sizeof_tfm_crypto_pack_iovec cfg\<rparr>,
                      \<lparr>base = nonce, len = nonce_length\<rparr>];
            out_vec = [\<lparr>base = Ptr operation, len = sizeof_uint32_t\<rparr>];
            (status, out_vec, w) = API_DISPATCH cfg chan in_vec out_vec w
        in (Returned status, w))"

definition psa_aead_set_lengths ::
  "build_config \<Rightarrow> 's channel \<Rightarrow> addr \<Rightarrow> size_t \<Rightarrow> size_t \<Rightarrow> 's world
   \<Rightarrow> outcome \<times> 's world" where
  "psa_aead_set_lengths cfg chan operation ad_length plaintext_length w =
     (if defined (TFM_CRYPTO_AEAD_MODULE_DISABLED cfg) then (Returned PSA_ERROR_NOT_SUPPORTED, w)
      else
        let iov = (iov_init cfg TFM_CRYPTO_AEAD_SET_LENGTHS_SID)
                  \<lparr>ad_length_C := ad_length, plaintext_length_C := plaintext_length, op_handle_C := handle_of (mem w) operation\<rparr>;
            in_vec = [\<lparr>base = Stack_iov iov, len = sizeof_tfm_crypto_pack_iovec cfg\<rparr>];
            out_vec = [\<lparr>base = Ptr operation, len = sizeof_uint32_t\<rparr>];
            (status, out_vec, w) = API_DISPATCH cfg chan in_vec out_vec w
        in (Returned status, w))"

definition psa_aead_update_ad ::
  "build_config \<Rightarrow> 's channel \<Rightarrow> addr \<Rightarrow> ptr \<Rightarrow> size_t \<Rightarrow> 's world
   \<Rightarrow> outcome \<times> 's world" where
  "psa_aead_update_ad cfg chan operation input input_length w =
     (if defined (TFM_CRYPTO_AEAD_MODULE_DISABLED cfg) then (Returned PSA_ERROR_NOT_SUPPORTED, w)
      else
        let iov = (iov_init cfg TFM_CRYPTO_AEAD_UPDATE_AD_SID)
                  \<lparr>op_handle_C := handle_of (mem w) operation\<rparr>
        in if input = NULL \<and> input_length \<noteq> 0
           then (Returned PSA_ERROR_INVALID_ARGUMENT, w)
           else
             let in_vec = [\<lparr>base = Stack_iov iov, len = sizeof_tfm_crypto_pack_iovec cfg\<rparr>,
                           \<lparr>base = input, len = input_length\<rparr>];
                 out_vec = [\<lparr>base = Ptr operation, len = sizeof_uint32_t\<rparr>];
                 (status, out_vec, w) =
                   (if defined (TFM_PSA_API cfg)
                    then
                      let in_len = ARRAY_SIZE in_vec;
                          in_len = (if input = NULL then in_len - 1 else in_len)
                      in psa_call chan in_vec in_len out_vec (ARRAY_SIZE out_vec) w
                    else API_DISPATCH cfg chan in_vec out_vec w)
             in (Returned status, w))"

definition psa_aead_update ::
  "build_config \<Rightarrow> 's channel \<Rightarrow> addr \<Rightarrow> ptr \<Rightarrow> size_t \<Rightarrow> ptr \<Rightarrow> size_t \<Rightarrow> addr \<Rightarrow> 's world
   \<Rightarrow> outcome \<times> 's world" where
  "psa_aead_update cfg chan operation input input_length output output_size output_length w =
     (if defined (TFM_CRYPTO_AEAD_MODULE_DISABLED cfg) then (Returned PSA_ERROR_NOT_SUPPORTED, w)
      else
        let iov = (iov_init cfg TFM_CRYPTO_AEAD_UPDATE_SID)
                  \<lparr>op_handle_C := handle_of (mem w) operation\<rparr>
        in if input = NULL \<and> input_length \<noteq> 0
           then (Returned PSA_ERROR_INVALID_ARGUMENT, w)
           else
             let in_vec = [\<lparr>base = Stack_iov iov, len = sizeof_tfm_crypto_pack_iovec cfg\<rparr>,
                           \<lparr>base = input, len = input_length\<rparr>];
                 out_vec = [\<lparr>base = Ptr operation, len = sizeof_uint32_t\<rparr>,
                            \<lparr>base = output, len = output_size\<rparr>];
                 (status, out_vec, w) =
                   (if defined (TFM_PSA_API cfg)
                    then
                      let in_len = ARRAY_SIZE in_vec;
                          in_len = (if input = NULL then in_len - 1 else in_len)
                      in psa_call chan in_vec in_len out_vec (ARRAY_SIZE out_vec) w
                    else API_DISPATCH cfg chan in_vec out_vec w);
                 w = store_size output_length (len (out_vec ! 1)) w
             in (Returned status, w))"

text \<open>
  \<^verbatim>\<open>psa_aead_finish\<close> and \<^verbatim>\<open>psa_aead_verify\<close> test the length out-parameter of their
  optional output against null, so it is a pointer that may be null, and the stores
  through it go through \<open>store_size_ptr\<close>.
\<close>

definition psa_aead_finish ::
  "build_config \<Rightarrow> 's channel \<Rightarrow> addr \<Rightarrow> ptr \<Rightarrow> size_t \<Rightarrow> ptr \<Rightarrow> ptr \<Rightarrow> size_t \<Rightarrow> addr \<Rightarrow> 's world
   \<Rightarrow> outcome \<times> 's world" where
  "psa_aead_finish cfg chan operation ciphertext ciphertext_size ciphertext_length
     tag tag_size tag_length w =
     (if defined (TFM_CRYPTO_AEAD_MODULE_DISABLED cfg) then (Returned PSA_ERROR_NOT_SUPPORTED, w)
      else
        let iov = (iov_init cfg TFM_CRYPTO_AEAD_FINISH_SID)
                  \<lparr>op_handle_C := handle_of (mem w) operation\<rparr>
        in if ciphertext = NULL \<and> ciphertext_size \<noteq> 0
           then (Returned PSA_ERROR_INVALID_ARGUMENT, w)
           else
             let in_vec = [\<lparr>base = Stack_iov iov, len = sizeof_tfm_crypto_pack_iovec cfg\<rparr>];
                 out_vec = [\<lparr>base = Ptr operation, len = sizeof_uint32_t\<rparr>,
                            \<lparr>base = tag, len = tag_size\<rparr>,
                            \<lparr>base = ciphertext, len = ciphertext_size\<rparr>]
             in if defined (TFM_PSA_API cfg)
                then
                  let out_len = ARRAY_SIZE out_vec;
                      out_len = (if ciphertext = NULL \<or> ciphertext_size = 0
                                 then out_len - 1 else out_len)
                  in if out_len = 3 \<and> ciphertext_length = NULL
                     then (Returned PSA_ERROR_INVALID_ARGUMENT, w)
                     else
                       let (status, out_vec, w) =
                             psa_call chan in_vec (ARRAY_SIZE in_vec) out_vec out_len w
                       in (case store_size_ptr ciphertext_length
                                  (if out_len = 3 then len (out_vec ! 2) else 0) w of
                             None \<Rightarrow> (Null_deref, w)
                           | Some w \<Rightarrow>
                               (Returned status, store_size tag_length (len (out_vec ! 1)) w))
                else
                  let (status, out_vec, w) = API_DISPATCH cfg chan in_vec out_vec w
                  in (case store_size_ptr ciphertext_length (len (out_vec ! 2)) w of
                        None \<Rightarrow> (Null_deref, w)
                      | Some w \<Rightarrow>
                          (Returned status, store_size tag_length (len (out_vec ! 1)) w)))"

definition psa_aead_verify ::
  "build_config \<Rightarrow> 's channel \<Rightarrow> addr \<Rightarrow> ptr \<Rightarrow> size_t \<Rightarrow> ptr \<Rightarrow> ptr \<Rightarrow> size_t \<Rightarrow> 's world
   \<Rightarrow> outcome \<times> 's world" where
  "psa_aead_verify cfg chan operation plaintext plaintext_size plaintext_length tag tag_length w =
     (if defined (TFM_CRYPTO_AEAD_MODULE_DISABLED cfg) then (Returned PSA_ERROR_NOT_SUPPORTED, w)
      else
        let iov = (iov_init cfg TFM_CRYPTO_AEAD_VERIFY_SID)
                  \<lparr>op_handle_C := handle_of (mem w) operation\<rparr>
        in if plaintext = NULL \<and> plaintext_size \<noteq> 0
           then (Returned PSA_ERROR_INVALID_ARGUMENT, w)
           else
             let in_vec = [\<lparr>base = Stack_iov iov, len = sizeof_tfm_crypto_pack_iovec cfg\<rparr>,
                           \<lparr>base = tag, len = tag_length\<rparr>];
                 out_vec = [\<lparr>base = Ptr operation, len = sizeof_uint32_t\<rparr>,
                            \<lparr>base = plaintext, len = plaintext_size\<rparr>]
             in if defined (TFM_PSA_API cfg)
                then
                  let out_len = ARRAY_SIZE out_vec;
                      out_len = (if plaintext = NULL \<or> plaintext_size = 0
                                 then out_len - 1 else out_len)
                  in if out_len = 2 \<and> plaintext_length = NULL
                     then (Returned PSA_ERROR_INVALID_ARGUMENT, w)
                     else
                       let (status, out_vec, w) =
                             psa_call chan in_vec (ARRAY_SIZE in_vec) out_vec out_len w
                       in (case store_size_ptr plaintext_length
                                  (if out_len = 2 then len (out_vec ! 1) else 0) w of
                             None \<Rightarrow> (Null_deref, w)
                           | Some w \<Rightarrow> (Returned status, w))
                else
                  let (status, out_vec, w) = API_DISPATCH cfg chan in_vec out_vec w
                  in (case store_size_ptr plaintext_length (len (out_vec ! 1)) w of
                        None \<Rightarrow> (Null_deref, w)
                      | Some w \<Rightarrow> (Returned status, w)))"

definition psa_aead_abort ::
  "build_config \<Rightarrow> 's channel \<Rightarrow> addr \<Rightarrow> 's world
   \<Rightarrow> outcome \<times> 's world" where
  "psa_aead_abort cfg chan operation w =
     (if defined (TFM_CRYPTO_AEAD_MODULE_DISABLED cfg) then (Returned PSA_ERROR_NOT_SUPPORTED, w)
      else
        let iov = (iov_init cfg TFM_CRYPTO_AEAD_ABORT_SID)
                  \<lparr>op_handle_C := handle_of (mem w) operation\<rparr>;
            in_vec = [\<lparr>base = Stack_iov iov, len = sizeof_tfm_crypto_pack_iovec cfg\<rparr>];
            out_vec = [\<lparr>base = Ptr operation, len = sizeof_uint32_t\<rparr>];
            (status, out_vec, w) = API_DISPATCH cfg chan in_vec out_vec w
        in (Returned status, w))"

definition psa_sign_message ::
  "build_config \<Rightarrow> 's channel \<Rightarrow> psa_key_id_t \<Rightarrow> psa_algorithm_t \<Rightarrow> ptr \<Rightarrow> size_t \<Rightarrow> ptr \<Rightarrow> size_t \<Rightarrow> addr \<Rightarrow> 's world
   \<Rightarrow> outcome \<times> 's world" where
  "psa_sign_message cfg chan key_id alg input input_length signature signature_size signature_length w =
     (if defined (TFM_CRYPTO_ASYM_SIGN_MODULE_DISABLED cfg) then (Returned PSA_ERROR_NOT_SUPPORTED, w)
      else
        let iov = (iov_init cfg TFM_CRYPTO_SIGN_MESSAGE_SID)
                  \<lparr>key_id_C := key_id, alg_C := alg\<rparr>;
            in_vec = [\<lparr>base = Stack_iov iov, len = sizeof_tfm_crypto_pack_iovec cfg\<rparr>,
                      \<lparr>base = input, len = input_length\<rparr>];
            out_vec = [\<lparr>base = signature, len = signature_size\<rparr>];
            (status, out_vec, w) = API_DISPATCH cfg chan in_vec out_vec w;
            w = store_size signature_length (len (out_vec ! 0)) w
        in (Returned status, w))"

definition psa_verify_message ::
  "build_config \<Rightarrow> 's channel \<Rightarrow> psa_key_id_t \<Rightarrow> psa_algorithm_t \<Rightarrow> ptr \<Rightarrow> size_t \<Rightarrow> ptr \<Rightarrow> size_t \<Rightarrow> 's world
   \<Rightarrow> outcome \<times> 's world" where
  "psa_verify_message cfg chan key_id alg input input_length signature signature_length w =
     (if defined (TFM_CRYPTO_ASYM_SIGN_MODULE_DISABLED cfg) then (Returned PSA_ERROR_NOT_SUPPORTED, w)
      else
        let iov = (iov_init cfg TFM_CRYPTO_VERIFY_MESSAGE_SID)
                  \<lparr>key_id_C := key_id, alg_C := alg\<rparr>;
            in_vec = [\<lparr>base = Stack_iov iov, len = sizeof_tfm_crypto_pack_iovec cfg\<rparr>,
                      \<lparr>base = input, len = input_length\<rparr>,
                      \<lparr>base = signature, len = signature_length\<rparr>];
            (status, w) = API_DISPATCH_NO_OUTVEC cfg chan in_vec w
        in (Returned status, w))"

definition psa_sign_hash ::
  "build_config \<Rightarrow> 's channel \<Rightarrow> psa_key_id_t \<Rightarrow> psa_algorithm_t \<Rightarrow> ptr \<Rightarrow> size_t \<Rightarrow> ptr \<Rightarrow> size_t \<Rightarrow> addr \<Rightarrow> 's world
   \<Rightarrow> outcome \<times> 's world" where
  "psa_sign_hash cfg chan key_id alg hash hash_length signature signature_size signature_length w =
     (if defined (TFM_CRYPTO_ASYM_SIGN_MODULE_DISABLED cfg) then (Returned PSA_ERROR_NOT_SUPPORTED, w)
      else
        let iov = (iov_init cfg TFM_CRYPTO_SIGN_HASH_SID)
                  \<lparr>key_id_C := key_id, alg_C := alg\<rparr>;
            in_vec = [\<lparr>base = Stack_iov iov, len = sizeof_tfm_crypto_pack_iovec cfg\<rparr>,
                      \<lparr>base = hash, len = hash_length\<rparr>];
            out_vec = [\<lparr>base = signature, len = signature_size\<rparr>];
            (status, out_vec, w) = API_DISPATCH cfg chan in_vec out_vec w;
            w = store_size signature_length (len (out_vec ! 0)) w
        in (Returned status, w))"

definition psa_verify_hash ::
  "build_config \<Rightarrow> 's channel \<Rightarrow> psa_key_id_t \<Rightarrow> psa_algorithm_t \<Rightarrow> ptr \<Rightarrow> size_t \<Rightarrow> ptr \<Rightarrow> size_t \<Rightarrow> 's world
   \<Rightarrow> outcome \<times> 's world" where
  "psa_verify_hash cfg chan key_id alg hash hash_length signature signature_length w =
     (if defined (TFM_CRYPTO_ASYM_SIGN_MODULE_DISABLED cfg) then (Returned PSA_ERROR_NOT_SUPPORTED, w)
      else
        let iov = (iov_init cfg TFM_CRYPTO_VERIFY_HASH_SID)
                  \<lparr>key_id_C := key_id, alg_C := alg\<rparr>;
            in_vec = [\<lparr>base = Stack_iov iov, len = sizeof_tfm_crypto_pack_iovec cfg\<rparr>,
                      \<lparr>base = hash, len = hash_length\<rparr>,
                      \<lparr>base = signature, len = signature_length\<rparr>];
            (status, w) = API_DISPATCH_NO_OUTVEC cfg chan in_vec w
        in (Returned status, w))"

definition psa_asymmetric_encrypt ::
  "build_config \<Rightarrow> 's channel \<Rightarrow> psa_key_id_t \<Rightarrow> psa_algorithm_t \<Rightarrow> ptr \<Rightarrow> size_t \<Rightarrow> ptr \<Rightarrow> size_t
   \<Rightarrow> ptr \<Rightarrow> size_t \<Rightarrow> addr \<Rightarrow> 's world
   \<Rightarrow> outcome \<times> 's world" where
  "psa_asymmetric_encrypt cfg chan key_id alg input input_length salt salt_length
     output output_size output_length w =
     (if defined (TFM_CRYPTO_ASYM_ENCRYPT_MODULE_DISABLED cfg)
      then (Returned PSA_ERROR_NOT_SUPPORTED, w)
      else
        let iov = (iov_init cfg TFM_CRYPTO_ASYMMETRIC_ENCRYPT_SID)
                  \<lparr>key_id_C := key_id, alg_C := alg\<rparr>
        in if salt = NULL \<and> salt_length \<noteq> 0
           then (Returned PSA_ERROR_INVALID_ARGUMENT, w)
           else
             let in_vec = [\<lparr>base = Stack_iov iov, len = sizeof_tfm_crypto_pack_iovec cfg\<rparr>,
                           \<lparr>base = input, len = input_length\<rparr>,
                           \<lparr>base = salt, len = salt_length\<rparr>];
                 out_vec = [\<lparr>base = output, len = output_size\<rparr>];
                 (status, out_vec, w) =
                   (if defined (TFM_PSA_API cfg)
                    then
                      let in_len = ARRAY_SIZE in_vec;
                          in_len = (if salt = NULL then in_len - 1 else in_len)
                      in psa_call chan in_vec in_len out_vec (ARRAY_SIZE out_vec) w
                    else API_DISPATCH cfg chan in_vec out_vec w);
                 w = store_size output_length (len (out_vec ! 0)) w
             in (Returned status, w))"

definition psa_asymmetric_decrypt ::
  "build_config \<Rightarrow> 's channel \<Rightarrow> psa_key_id_t \<Rightarrow> psa_algorithm_t \<Rightarrow> ptr \<Rightarrow> size_t \<Rightarrow> ptr \<Rightarrow> size_t
   \<Rightarrow> ptr \<Rightarrow> size_t \<Rightarrow> addr \<Rightarrow> 's world
   \<Rightarrow> outcome \<times> 's world" where
  "psa_asymmetric_decrypt cfg chan key_id alg input input_length salt salt_length
     output output_size output_length w =
     (if defined (TFM_CRYPTO_ASYM_ENCRYPT_MODULE_DISABLED cfg)
      then (Returned PSA_ERROR_NOT_SUPPORTED, w)
      else
        let iov = (iov_init cfg TFM_CRYPTO_ASYMMETRIC_DECRYPT_SID)
                  \<lparr>key_id_C := key_id, alg_C := alg\<rparr>
        in if salt = NULL \<and> salt_length \<noteq> 0
           then (Returned PSA_ERROR_INVALID_ARGUMENT, w)
           else
             let in_vec = [\<lparr>base = Stack_iov iov, len = sizeof_tfm_crypto_pack_iovec cfg\<rparr>,
                           \<lparr>base = input, len = input_length\<rparr>,
                           \<lparr>base = salt, len = salt_length\<rparr>];
                 out_vec = [\<lparr>base = output, len = output_size\<rparr>];
                 (status, out_vec, w) =
                   (if defined (TFM_PSA_API cfg)
                    then
                      let in_len = ARRAY_SIZE in_vec;
                          in_len = (if salt = NULL then in_len - 1 else in_len)
                      in psa_call chan in_vec in_len out_vec (ARRAY_SIZE out_vec) w
                    else API_DISPATCH cfg chan in_vec out_vec w);
                 w = store_size output_length (len (out_vec ! 0)) w
             in (Returned status, w))"

definition psa_key_derivation_get_capacity ::
  "build_config \<Rightarrow> 's channel \<Rightarrow> addr \<Rightarrow> ptr \<Rightarrow> 's world
   \<Rightarrow> outcome \<times> 's world" where
  "psa_key_derivation_get_capacity cfg chan operation capacity w =
     (if defined (TFM_CRYPTO_KEY_DERIVATION_MODULE_DISABLED cfg) then (Returned PSA_ERROR_NOT_SUPPORTED, w)
      else
        let iov = (iov_init cfg TFM_CRYPTO_KEY_DERIVATION_GET_CAPACITY_SID)
                  \<lparr>op_handle_C := handle_of (mem w) operation\<rparr>;
            in_vec = [\<lparr>base = Stack_iov iov, len = sizeof_tfm_crypto_pack_iovec cfg\<rparr>];
            out_vec = [\<lparr>base = Ptr operation, len = sizeof_uint32_t\<rparr>,
                       \<lparr>base = capacity, len = sizeof_size_t\<rparr>];
            (status, out_vec, w) = API_DISPATCH cfg chan in_vec out_vec w
        in (Returned status, w))"

definition psa_key_derivation_output_bytes ::
  "build_config \<Rightarrow> 's channel \<Rightarrow> addr \<Rightarrow> ptr \<Rightarrow> size_t \<Rightarrow> 's world
   \<Rightarrow> outcome \<times> 's world" where
  "psa_key_derivation_output_bytes cfg chan operation output output_length w =
     (if defined (TFM_CRYPTO_KEY_DERIVATION_MODULE_DISABLED cfg) then (Returned PSA_ERROR_NOT_SUPPORTED, w)
      else
        let iov = (iov_init cfg TFM_CRYPTO_KEY_DERIVATION_OUTPUT_BYTES_SID)
                  \<lparr>op_handle_C := handle_of (mem w) operation\<rparr>;
            in_vec = [\<lparr>base = Stack_iov iov, len = sizeof_tfm_crypto_pack_iovec cfg\<rparr>];
            out_vec = [\<lparr>base = output, len = output_length\<rparr>];
            (status, out_vec, w) = API_DISPATCH cfg chan in_vec out_vec w
        in (Returned status, w))"

definition psa_key_derivation_input_key ::
  "build_config \<Rightarrow> 's channel \<Rightarrow> addr \<Rightarrow> psa_key_derivation_step_t \<Rightarrow> psa_key_id_t \<Rightarrow> 's world
   \<Rightarrow> outcome \<times> 's world" where
  "psa_key_derivation_input_key cfg chan operation step key_id w =
     (if defined (TFM_CRYPTO_KEY_DERIVATION_MODULE_DISABLED cfg) then (Returned PSA_ERROR_NOT_SUPPORTED, w)
      else
        let iov = (iov_init cfg TFM_CRYPTO_KEY_DERIVATION_INPUT_KEY_SID)
                  \<lparr>key_id_C := key_id, step_C := step, op_handle_C := handle_of (mem w) operation\<rparr>;
            in_vec = [\<lparr>base = Stack_iov iov, len = sizeof_tfm_crypto_pack_iovec cfg\<rparr>];
            out_vec = [\<lparr>base = Ptr operation, len = sizeof_uint32_t\<rparr>];
            (status, out_vec, w) = API_DISPATCH cfg chan in_vec out_vec w
        in (Returned status, w))"

definition psa_key_derivation_abort ::
  "build_config \<Rightarrow> 's channel \<Rightarrow> addr \<Rightarrow> 's world
   \<Rightarrow> outcome \<times> 's world" where
  "psa_key_derivation_abort cfg chan operation w =
     (if defined (TFM_CRYPTO_KEY_DERIVATION_MODULE_DISABLED cfg) then (Returned PSA_ERROR_NOT_SUPPORTED, w)
      else
        let iov = (iov_init cfg TFM_CRYPTO_KEY_DERIVATION_ABORT_SID)
                  \<lparr>op_handle_C := handle_of (mem w) operation\<rparr>;
            in_vec = [\<lparr>base = Stack_iov iov, len = sizeof_tfm_crypto_pack_iovec cfg\<rparr>];
            out_vec = [\<lparr>base = Ptr operation, len = sizeof_uint32_t\<rparr>];
            (status, out_vec, w) = API_DISPATCH cfg chan in_vec out_vec w
        in (Returned status, w))"

definition psa_key_derivation_key_agreement ::
  "build_config \<Rightarrow> 's channel \<Rightarrow> addr \<Rightarrow> psa_key_derivation_step_t \<Rightarrow> psa_key_id_t \<Rightarrow> ptr \<Rightarrow> size_t \<Rightarrow> 's world
   \<Rightarrow> outcome \<times> 's world" where
  "psa_key_derivation_key_agreement cfg chan operation step private_key peer_key peer_key_length w =
     (if defined (TFM_CRYPTO_KEY_DERIVATION_MODULE_DISABLED cfg) then (Returned PSA_ERROR_NOT_SUPPORTED, w)
      else
        let iov = (iov_init cfg TFM_CRYPTO_KEY_DERIVATION_KEY_AGREEMENT_SID)
                  \<lparr>key_id_C := private_key, step_C := step, op_handle_C := handle_of (mem w) operation\<rparr>;
            in_vec = [\<lparr>base = Stack_iov iov, len = sizeof_tfm_crypto_pack_iovec cfg\<rparr>,
                      \<lparr>base = peer_key, len = peer_key_length\<rparr>];
            out_vec = [\<lparr>base = Ptr operation, len = sizeof_uint32_t\<rparr>];
            (status, out_vec, w) = API_DISPATCH cfg chan in_vec out_vec w
        in (Returned status, w))"

definition psa_generate_random ::
  "build_config \<Rightarrow> 's channel \<Rightarrow> ptr \<Rightarrow> size_t \<Rightarrow> 's world
   \<Rightarrow> outcome \<times> 's world" where
  "psa_generate_random cfg chan output output_size w =
     (if defined (TFM_CRYPTO_RNG_MODULE_DISABLED cfg) then (Returned PSA_ERROR_NOT_SUPPORTED, w)
      else
        let iov = iov_init cfg TFM_CRYPTO_GENERATE_RANDOM_SID;
            in_vec = [\<lparr>base = Stack_iov iov, len = sizeof_tfm_crypto_pack_iovec cfg\<rparr>];
            out_vec = [\<lparr>base = output, len = output_size\<rparr>]
        in if output_size = 0 then (Returned PSA_SUCCESS, w)
           else
             let (status, out_vec, w) = API_DISPATCH cfg chan in_vec out_vec w
             in (Returned status, w))"

definition psa_generate_key ::
  "build_config \<Rightarrow> 's channel \<Rightarrow> ptr \<Rightarrow> ptr \<Rightarrow> 's world
   \<Rightarrow> outcome \<times> 's world" where
  "psa_generate_key cfg chan attributes key_id w =
     (if defined (TFM_CRYPTO_KEY_MODULE_DISABLED cfg) then (Returned PSA_ERROR_NOT_SUPPORTED, w)
      else
        let iov = iov_init cfg TFM_CRYPTO_GENERATE_KEY_SID;
            in_vec = [\<lparr>base = Stack_iov iov, len = sizeof_tfm_crypto_pack_iovec cfg\<rparr>,
                      \<lparr>base = attributes, len = sizeof_psa_key_attributes_t cfg\<rparr>];
            out_vec = [\<lparr>base = key_id, len = sizeof_psa_key_id_t\<rparr>];
            (status, out_vec, w) = API_DISPATCH cfg chan in_vec out_vec w
        in (Returned status, w))"

definition psa_mac_compute ::
  "build_config \<Rightarrow> 's channel \<Rightarrow> psa_key_id_t \<Rightarrow> psa_algorithm_t \<Rightarrow> ptr \<Rightarrow> size_t \<Rightarrow> ptr \<Rightarrow> size_t \<Rightarrow> addr \<Rightarrow> 's world
   \<Rightarrow> outcome \<times> 's world" where
  "psa_mac_compute cfg chan key_id alg input input_length mac mac_size mac_length w =
     (if defined (TFM_CRYPTO_MAC_MODULE_DISABLED cfg) then (Returned PSA_ERROR_NOT_SUPPORTED, w)
      else
        let iov = (iov_init cfg TFM_CRYPTO_MAC_COMPUTE_SID)
                  \<lparr>key_id_C := key_id, alg_C := alg\<rparr>;
            in_vec = [\<lparr>base = Stack_iov iov, len = sizeof_tfm_crypto_pack_iovec cfg\<rparr>,
                      \<lparr>base = input, len = input_length\<rparr>];
            out_vec = [\<lparr>base = mac, len = mac_size\<rparr>];
            (status, out_vec, w) = API_DISPATCH cfg chan in_vec out_vec w;
            w = store_size mac_length (len (out_vec ! 0)) w
        in (Returned status, w))"

definition psa_mac_verify ::
  "build_config \<Rightarrow> 's channel \<Rightarrow> psa_key_id_t \<Rightarrow> psa_algorithm_t \<Rightarrow> ptr \<Rightarrow> size_t \<Rightarrow> ptr \<Rightarrow> size_t \<Rightarrow> 's world
   \<Rightarrow> outcome \<times> 's world" where
  "psa_mac_verify cfg chan key_id alg input input_length mac mac_length w =
     (if defined (TFM_CRYPTO_MAC_MODULE_DISABLED cfg) then (Returned PSA_ERROR_NOT_SUPPORTED, w)
      else
        let iov = (iov_init cfg TFM_CRYPTO_MAC_VERIFY_SID)
                  \<lparr>key_id_C := key_id, alg_C := alg\<rparr>;
            in_vec = [\<lparr>base = Stack_iov iov, len = sizeof_tfm_crypto_pack_iovec cfg\<rparr>,
                      \<lparr>base = input, len = input_length\<rparr>,
                      \<lparr>base = mac, len = mac_length\<rparr>];
            (status, w) = API_DISPATCH_NO_OUTVEC cfg chan in_vec w
        in (Returned status, w))"

definition psa_cipher_encrypt ::
  "build_config \<Rightarrow> 's channel \<Rightarrow> psa_key_id_t \<Rightarrow> psa_algorithm_t \<Rightarrow> ptr \<Rightarrow> size_t \<Rightarrow> ptr \<Rightarrow> size_t \<Rightarrow> addr \<Rightarrow> 's world
   \<Rightarrow> outcome \<times> 's world" where
  "psa_cipher_encrypt cfg chan key_id alg input input_length output output_size output_length w =
     (if defined (TFM_CRYPTO_CIPHER_MODULE_DISABLED cfg) then (Returned PSA_ERROR_NOT_SUPPORTED, w)
      else
        let iov = (iov_init cfg TFM_CRYPTO_CIPHER_ENCRYPT_SID)
                  \<lparr>key_id_C := key_id, alg_C := alg\<rparr>;
            in_vec = [\<lparr>base = Stack_iov iov, len = sizeof_tfm_crypto_pack_iovec cfg\<rparr>,
                      \<lparr>base = input, len = input_length\<rparr>];
            out_vec = [\<lparr>base = output, len = output_size\<rparr>];
            (status, out_vec, w) = API_DISPATCH cfg chan in_vec out_vec w;
            w = store_size output_length (len (out_vec ! 0)) w
        in (Returned status, w))"

definition psa_cipher_decrypt ::
  "build_config \<Rightarrow> 's channel \<Rightarrow> psa_key_id_t \<Rightarrow> psa_algorithm_t \<Rightarrow> ptr \<Rightarrow> size_t \<Rightarrow> ptr \<Rightarrow> size_t \<Rightarrow> addr \<Rightarrow> 's world
   \<Rightarrow> outcome \<times> 's world" where
  "psa_cipher_decrypt cfg chan key_id alg input input_length output output_size output_length w =
     (if defined (TFM_CRYPTO_CIPHER_MODULE_DISABLED cfg) then (Returned PSA_ERROR_NOT_SUPPORTED, w)
      else
        let iov = (iov_init cfg TFM_CRYPTO_CIPHER_DECRYPT_SID)
                  \<lparr>key_id_C := key_id, alg_C := alg\<rparr>;
            in_vec = [\<lparr>base = Stack_iov iov, len = sizeof_tfm_crypto_pack_iovec cfg\<rparr>,
                      \<lparr>base = input, len = input_length\<rparr>];
            out_vec = [\<lparr>base = output, len = output_size\<rparr>];
            (status, out_vec, w) = API_DISPATCH cfg chan in_vec out_vec w;
            w = store_size output_length (len (out_vec ! 0)) w
        in (Returned status, w))"

definition psa_raw_key_agreement ::
  "build_config \<Rightarrow> 's channel \<Rightarrow> psa_algorithm_t \<Rightarrow> psa_key_id_t \<Rightarrow> ptr \<Rightarrow> size_t \<Rightarrow> ptr \<Rightarrow> size_t \<Rightarrow> addr \<Rightarrow> 's world
   \<Rightarrow> outcome \<times> 's world" where
  "psa_raw_key_agreement cfg chan alg private_key peer_key peer_key_length output output_size output_length w =
     (if defined (TFM_CRYPTO_KEY_DERIVATION_MODULE_DISABLED cfg) then (Returned PSA_ERROR_NOT_SUPPORTED, w)
      else
        let iov = (iov_init cfg TFM_CRYPTO_RAW_KEY_AGREEMENT_SID)
                  \<lparr>alg_C := alg, key_id_C := private_key\<rparr>;
            in_vec = [\<lparr>base = Stack_iov iov, len = sizeof_tfm_crypto_pack_iovec cfg\<rparr>,
                      \<lparr>base = peer_key, len = peer_key_length\<rparr>];
            out_vec = [\<lparr>base = output, len = output_size\<rparr>];
            (status, out_vec, w) = API_DISPATCH cfg chan in_vec out_vec w;
            w = store_size output_length (len (out_vec ! 0)) w
        in (Returned status, w))"

definition psa_key_derivation_setup ::
  "build_config \<Rightarrow> 's channel \<Rightarrow> addr \<Rightarrow> psa_algorithm_t \<Rightarrow> 's world
   \<Rightarrow> outcome \<times> 's world" where
  "psa_key_derivation_setup cfg chan operation alg w =
     (if defined (TFM_CRYPTO_KEY_DERIVATION_MODULE_DISABLED cfg) then (Returned PSA_ERROR_NOT_SUPPORTED, w)
      else
        let iov = (iov_init cfg TFM_CRYPTO_KEY_DERIVATION_SETUP_SID)
                  \<lparr>alg_C := alg, op_handle_C := handle_of (mem w) operation\<rparr>;
            in_vec = [\<lparr>base = Stack_iov iov, len = sizeof_tfm_crypto_pack_iovec cfg\<rparr>];
            out_vec = [\<lparr>base = Ptr operation, len = sizeof_uint32_t\<rparr>];
            (status, out_vec, w) = API_DISPATCH cfg chan in_vec out_vec w
        in (Returned status, w))"

definition psa_key_derivation_set_capacity ::
  "build_config \<Rightarrow> 's channel \<Rightarrow> addr \<Rightarrow> size_t \<Rightarrow> 's world
   \<Rightarrow> outcome \<times> 's world" where
  "psa_key_derivation_set_capacity cfg chan operation capacity w =
     (if defined (TFM_CRYPTO_KEY_DERIVATION_MODULE_DISABLED cfg) then (Returned PSA_ERROR_NOT_SUPPORTED, w)
      else
        let iov = (iov_init cfg TFM_CRYPTO_KEY_DERIVATION_SET_CAPACITY_SID)
                  \<lparr>capacity_C := capacity, op_handle_C := handle_of (mem w) operation\<rparr>;
            in_vec = [\<lparr>base = Stack_iov iov, len = sizeof_tfm_crypto_pack_iovec cfg\<rparr>];
            out_vec = [\<lparr>base = Ptr operation, len = sizeof_uint32_t\<rparr>];
            (status, out_vec, w) = API_DISPATCH cfg chan in_vec out_vec w
        in (Returned status, w))"

definition psa_key_derivation_input_bytes ::
  "build_config \<Rightarrow> 's channel \<Rightarrow> addr \<Rightarrow> psa_key_derivation_step_t \<Rightarrow> ptr \<Rightarrow> size_t \<Rightarrow> 's world
   \<Rightarrow> outcome \<times> 's world" where
  "psa_key_derivation_input_bytes cfg chan operation step data data_length w =
     (if defined (TFM_CRYPTO_KEY_DERIVATION_MODULE_DISABLED cfg) then (Returned PSA_ERROR_NOT_SUPPORTED, w)
      else
        let iov = (iov_init cfg TFM_CRYPTO_KEY_DERIVATION_INPUT_BYTES_SID)
                  \<lparr>step_C := step, op_handle_C := handle_of (mem w) operation\<rparr>;
            in_vec = [\<lparr>base = Stack_iov iov, len = sizeof_tfm_crypto_pack_iovec cfg\<rparr>,
                      \<lparr>base = data, len = data_length\<rparr>];
            out_vec = [\<lparr>base = Ptr operation, len = sizeof_uint32_t\<rparr>];
            (status, out_vec, w) = API_DISPATCH cfg chan in_vec out_vec w
        in (Returned status, w))"

definition psa_key_derivation_output_key ::
  "build_config \<Rightarrow> 's channel \<Rightarrow> ptr \<Rightarrow> addr \<Rightarrow> ptr \<Rightarrow> 's world
   \<Rightarrow> outcome \<times> 's world" where
  "psa_key_derivation_output_key cfg chan attributes operation key_id w =
     (if defined (TFM_CRYPTO_KEY_DERIVATION_MODULE_DISABLED cfg) then (Returned PSA_ERROR_NOT_SUPPORTED, w)
      else
        let iov = (iov_init cfg TFM_CRYPTO_KEY_DERIVATION_OUTPUT_KEY_SID)
                  \<lparr>op_handle_C := handle_of (mem w) operation\<rparr>;
            in_vec = [\<lparr>base = Stack_iov iov, len = sizeof_tfm_crypto_pack_iovec cfg\<rparr>,
                      \<lparr>base = attributes, len = sizeof_psa_key_attributes_t cfg\<rparr>];
            out_vec = [\<lparr>base = Ptr operation, len = sizeof_uint32_t\<rparr>,
                       \<lparr>base = key_id, len = sizeof_psa_key_id_t\<rparr>];
            (status, out_vec, w) = API_DISPATCH cfg chan in_vec out_vec w
        in (Returned status, w))"

section \<open>Observing calls\<close>

text \<open>
  \<^verbatim>\<open>psa_call\<close> does not return when \<^verbatim>\<open>in_num + out_num > PSA_MAX_IOVEC\<close>
  (\<^verbatim>\<open>secure_fw/spm/ffm/psa_api.h\<close>); the limit is 4.
\<close>

definition PSA_MAX_IOVEC :: nat where
  "PSA_MAX_IOVEC = 4"

text \<open>
  The dispatches a call adds to the log, and the request envelope a dispatch carries:
  the object the first input descriptor points at.
\<close>

definition new_dispatches :: "'s world \<Rightarrow> 's world \<Rightarrow> dispatch list" where
  "new_dispatches w w' = drop (length (trace w)) (trace w')"

definition dispatched :: "('s world \<Rightarrow> outcome \<times> 's world) \<Rightarrow> 's world \<Rightarrow> dispatch list" where
  "dispatched f w = new_dispatches w (snd (f w))"

definition envelope :: "dispatch \<Rightarrow> tfm_crypto_pack_iovec option" where
  "envelope d =
     (case in_vecs d of
        [] \<Rightarrow> None
      | v # vs \<Rightarrow> (case base v of Stack_iov iov \<Rightarrow> Some iov | _ \<Rightarrow> None))"

definition within_max_iovec :: "dispatch \<Rightarrow> bool" where
  "within_max_iovec d = (length (in_vecs d) + length (out_vecs d) \<le> PSA_MAX_IOVEC)"

text \<open>
  \<open>copies_length f p i w\<close>: the call \<open>f\<close> dispatches once, returns the status the
  channel answered, and leaves in \<^verbatim>\<open>*p\<close> the length the channel wrote into output
  descriptor \<open>i\<close>.
\<close>

definition copies_length ::
  "('s world \<Rightarrow> outcome \<times> 's world) \<Rightarrow> addr \<Rightarrow> nat \<Rightarrow> 's world \<Rightarrow> bool" where
  "copies_length f p i w =
     (length (dispatched f w) = 1 \<and>
      i < length (ret_out_vecs (last (dispatched f w))) \<and>
      fst (f w) = Returned (ret_status (last (dispatched f w))) \<and>
      size_at (mem (snd (f w))) p = len (ret_out_vecs (last (dispatched f w)) ! i))"





text \<open>
  One call on the operation object at \<open>operation\<close>, which holds the handle \<open>h\<close> when
  the call starts. \<open>call_threads_handle operation h reaches returns_handle f w\<close>: if
  the call reaches the channel, it dispatches exactly once, the envelope of that dispatch
  carries \<open>h\<close>, the first output descriptor is \<^verbatim>\<open>{&operation->handle, sizeof(uint32_t)}\<close>
  (for a function that passes one: \<open>returns_handle\<close>), and after the call the object
  holds the handle the channel left in it; if the call does not reach the channel, it
  dispatches nothing and the object still holds \<open>h\<close>.
\<close>

definition call_threads_handle ::
  "addr \<Rightarrow> uint32_t \<Rightarrow> bool \<Rightarrow> bool \<Rightarrow> ('s world \<Rightarrow> outcome \<times> 's world) \<Rightarrow> 's world \<Rightarrow> bool" where
  "call_threads_handle operation h reaches returns_handle f w =
     (if reaches
      then length (dispatched f w) = 1 \<and>
           map_option op_handle_C (envelope (last (dispatched f w))) = Some h \<and>
           (\<not> returns_handle \<or>
            take 1 (out_vecs (last (dispatched f w))) =
              [\<lparr>base = Ptr operation, len = sizeof_uint32_t\<rparr>]) \<and>
           handle_of (mem (snd (f w))) operation =
             handle_of (ret_mem (last (dispatched f w))) operation
      else dispatched f w = [] \<and> handle_of (mem (snd (f w))) operation = h)"

text \<open>
  A run of calls on one operation object, each with its two flags.
  \<open>handles_threaded operation h fs w\<close>: the object holds \<open>h\<close>, every call of the run
  threads the handle as above, and the next call starts from the handle the object holds
  after this one.
\<close>

fun handles_threaded ::
  "addr \<Rightarrow> uint32_t \<Rightarrow> (bool \<times> bool \<times> ('s world \<Rightarrow> outcome \<times> 's world)) list \<Rightarrow> 's world
   \<Rightarrow> bool" where
  "handles_threaded operation h [] w = True"
| "handles_threaded operation h ((reaches, returns_handle, f) # fs) w =
     (call_threads_handle operation h reaches returns_handle f w \<and>
      handles_threaded operation (handle_of (mem (snd (f w))) operation) fs (snd (f w)))"

fun run_calls ::
  "(bool \<times> bool \<times> ('s world \<Rightarrow> outcome \<times> 's world)) list \<Rightarrow> 's world \<Rightarrow> 's world" where
  "run_calls [] w = w"
| "run_calls ((reaches, returns_handle, f) # fs) w = run_calls fs (snd (f w))"

text \<open>
  \<open>carries_nonce m nonce nonce_length d\<close>: the envelope of the dispatch \<open>d\<close> holds the
  caller's nonce in full: for a null \<open>nonce\<close> the inline length is 0 and the array is
  all zero, otherwise the inline length is \<open>nonce_length\<close> and the first
  \<open>nonce_length\<close> bytes of the array are the caller's bytes, read from \<open>m\<close>.
\<close>

definition carries_nonce :: "memory \<Rightarrow> ptr \<Rightarrow> size_t \<Rightarrow> dispatch \<Rightarrow> bool" where
  "carries_nonce m nonce nonce_length d =
     (case envelope d of
        None \<Rightarrow> False
      | Some iov \<Rightarrow>
          (if nonce = NULL
           then nonce_length_C (aead_in_C iov) = 0 \<and>
                nonce_C (aead_in_C iov) = replicate (length (nonce_C (aead_in_C iov))) 0
           else nonce_length_C (aead_in_C iov) = nonce_length \<and>
                take (unat nonce_length) (nonce_C (aead_in_C iov)) =
                  map (load_byte m nonce) [0..<unat nonce_length]))"


text \<open>
  Every API function of the file, applied to arguments; and the API functions that work
  on the operation object at \<open>operation\<close> (for \<^verbatim>\<open>psa_hash_clone\<close>, the source), each
  with two facts read off its body. The first is the condition under which the call,
  started in the world \<open>w\<close>, reaches the channel: the module is enabled and no local test
  returns early. The second says whether the function passes
  \<^verbatim>\<open>{&operation->handle, sizeof(uint32_t)}\<close> as its first output descriptor: all do
  but \<^verbatim>\<open>psa_key_derivation_output_bytes\<close>, whose only output descriptor is the output
  buffer, and \<^verbatim>\<open>psa_hash_clone\<close>, whose only output descriptor is the target object.
\<close>
inductive api_function ::
  "build_config \<Rightarrow> 's channel \<Rightarrow> ('s world \<Rightarrow> outcome \<times> 's world) \<Rightarrow> bool"
  for cfg :: build_config and chan :: "'s channel" where
    crypto_init: "api_function cfg chan psa_crypto_init"
  | open_key: "api_function cfg chan (psa_open_key cfg chan id' key_id)"
  | close_key: "api_function cfg chan (psa_close_key cfg chan key_id)"
  | import_key: "api_function cfg chan (psa_import_key cfg chan attributes data data_length key_id)"
  | destroy_key: "api_function cfg chan (psa_destroy_key cfg chan key_id)"
  | get_key_attributes: "api_function cfg chan (psa_get_key_attributes cfg chan key_id attributes)"
  | reset_key_attributes: "api_function cfg chan (psa_reset_key_attributes cfg chan attributes)"
  | export_key: "api_function cfg chan (psa_export_key cfg chan key_id data data_size data_length)"
  | export_public_key: "api_function cfg chan (psa_export_public_key cfg chan key_id data data_size data_length)"
  | purge_key: "api_function cfg chan (psa_purge_key cfg chan key_id)"
  | copy_key: "api_function cfg chan (psa_copy_key cfg chan source_key_id attributes target_key_id)"
  | cipher_generate_iv: "api_function cfg chan (psa_cipher_generate_iv cfg chan operation iv iv_size iv_length)"
  | cipher_set_iv: "api_function cfg chan (psa_cipher_set_iv cfg chan operation iv iv_length)"
  | cipher_encrypt_setup: "api_function cfg chan (psa_cipher_encrypt_setup cfg chan operation key_id alg)"
  | cipher_decrypt_setup: "api_function cfg chan (psa_cipher_decrypt_setup cfg chan operation key_id alg)"
  | cipher_update: "api_function cfg chan (psa_cipher_update cfg chan operation input input_length output output_size output_length)"
  | cipher_abort: "api_function cfg chan (psa_cipher_abort cfg chan operation)"
  | cipher_finish: "api_function cfg chan (psa_cipher_finish cfg chan operation output output_size output_length)"
  | hash_setup: "api_function cfg chan (psa_hash_setup cfg chan operation alg)"
  | hash_update: "api_function cfg chan (psa_hash_update cfg chan operation input input_length)"
  | hash_finish: "api_function cfg chan (psa_hash_finish cfg chan operation hash hash_size hash_length)"
  | hash_verify: "api_function cfg chan (psa_hash_verify cfg chan operation hash hash_length)"
  | hash_abort: "api_function cfg chan (psa_hash_abort cfg chan operation)"
  | hash_clone: "api_function cfg chan (psa_hash_clone cfg chan source_operation target_operation)"
  | hash_compute: "api_function cfg chan (psa_hash_compute cfg chan alg input input_length hash hash_size hash_length)"
  | hash_compare: "api_function cfg chan (psa_hash_compare cfg chan alg input input_length hash hash_length)"
  | mac_sign_setup: "api_function cfg chan (psa_mac_sign_setup cfg chan operation key_id alg)"
  | mac_verify_setup: "api_function cfg chan (psa_mac_verify_setup cfg chan operation key_id alg)"
  | mac_update: "api_function cfg chan (psa_mac_update cfg chan operation input input_length)"
  | mac_sign_finish: "api_function cfg chan (psa_mac_sign_finish cfg chan operation mac mac_size mac_length)"
  | mac_verify_finish: "api_function cfg chan (psa_mac_verify_finish cfg chan operation mac mac_length)"
  | mac_abort: "api_function cfg chan (psa_mac_abort cfg chan operation)"
  | aead_encrypt: "api_function cfg chan (psa_aead_encrypt cfg chan key_id alg nonce nonce_length additional_data additional_data_length plaintext plaintext_length ciphertext ciphertext_size ciphertext_length)"
  | aead_decrypt: "api_function cfg chan (psa_aead_decrypt cfg chan key_id alg nonce nonce_length additional_data additional_data_length ciphertext ciphertext_length plaintext plaintext_size plaintext_length)"
  | aead_encrypt_setup: "api_function cfg chan (psa_aead_encrypt_setup cfg chan operation key alg)"
  | aead_decrypt_setup: "api_function cfg chan (psa_aead_decrypt_setup cfg chan operation key alg)"
  | aead_generate_nonce: "api_function cfg chan (psa_aead_generate_nonce cfg chan operation nonce nonce_size nonce_length)"
  | aead_set_nonce: "api_function cfg chan (psa_aead_set_nonce cfg chan operation nonce nonce_length)"
  | aead_set_lengths: "api_function cfg chan (psa_aead_set_lengths cfg chan operation ad_length plaintext_length)"
  | aead_update_ad: "api_function cfg chan (psa_aead_update_ad cfg chan operation input input_length)"
  | aead_update: "api_function cfg chan (psa_aead_update cfg chan operation input input_length output output_size output_length)"
  | aead_finish: "api_function cfg chan (psa_aead_finish cfg chan operation ciphertext ciphertext_size ciphertext_length tag tag_size tag_length)"
  | aead_verify: "api_function cfg chan (psa_aead_verify cfg chan operation plaintext plaintext_size plaintext_length tag tag_length)"
  | aead_abort: "api_function cfg chan (psa_aead_abort cfg chan operation)"
  | sign_message: "api_function cfg chan (psa_sign_message cfg chan key_id alg input input_length signature signature_size signature_length)"
  | verify_message: "api_function cfg chan (psa_verify_message cfg chan key_id alg input input_length signature signature_length)"
  | sign_hash: "api_function cfg chan (psa_sign_hash cfg chan key_id alg hash hash_length signature signature_size signature_length)"
  | verify_hash: "api_function cfg chan (psa_verify_hash cfg chan key_id alg hash hash_length signature signature_length)"
  | asymmetric_encrypt: "api_function cfg chan (psa_asymmetric_encrypt cfg chan key_id alg input input_length salt salt_length output output_size output_length)"
  | asymmetric_decrypt: "api_function cfg chan (psa_asymmetric_decrypt cfg chan key_id alg input input_length salt salt_length output output_size output_length)"
  | key_derivation_get_capacity: "api_function cfg chan (psa_key_derivation_get_capacity cfg chan operation capacity)"
  | key_derivation_output_bytes: "api_function cfg chan (psa_key_derivation_output_bytes cfg chan operation output output_length)"
  | key_derivation_input_key: "api_function cfg chan (psa_key_derivation_input_key cfg chan operation step key_id)"
  | key_derivation_abort: "api_function cfg chan (psa_key_derivation_abort cfg chan operation)"
  | key_derivation_key_agreement: "api_function cfg chan (psa_key_derivation_key_agreement cfg chan operation step private_key peer_key peer_key_length)"
  | generate_random: "api_function cfg chan (psa_generate_random cfg chan output output_size)"
  | generate_key: "api_function cfg chan (psa_generate_key cfg chan attributes key_id)"
  | mac_compute: "api_function cfg chan (psa_mac_compute cfg chan key_id alg input input_length mac mac_size mac_length)"
  | mac_verify: "api_function cfg chan (psa_mac_verify cfg chan key_id alg input input_length mac mac_length)"
  | cipher_encrypt: "api_function cfg chan (psa_cipher_encrypt cfg chan key_id alg input input_length output output_size output_length)"
  | cipher_decrypt: "api_function cfg chan (psa_cipher_decrypt cfg chan key_id alg input input_length output output_size output_length)"
  | raw_key_agreement: "api_function cfg chan (psa_raw_key_agreement cfg chan alg private_key peer_key peer_key_length output output_size output_length)"
  | key_derivation_setup: "api_function cfg chan (psa_key_derivation_setup cfg chan operation alg)"
  | key_derivation_set_capacity: "api_function cfg chan (psa_key_derivation_set_capacity cfg chan operation capacity)"
  | key_derivation_input_bytes: "api_function cfg chan (psa_key_derivation_input_bytes cfg chan operation step data data_length)"
  | key_derivation_output_key: "api_function cfg chan (psa_key_derivation_output_key cfg chan attributes operation key_id)"

inductive streaming_step ::
  "build_config \<Rightarrow> 's channel \<Rightarrow> addr \<Rightarrow> 's world \<Rightarrow> bool \<Rightarrow> bool
   \<Rightarrow> ('s world \<Rightarrow> outcome \<times> 's world) \<Rightarrow> bool"
  for cfg :: build_config and chan :: "'s channel" and operation :: addr
    and w :: "'s world" where
    cipher_generate_iv:
      "streaming_step cfg chan operation w
        (\<not> defined (TFM_CRYPTO_CIPHER_MODULE_DISABLED cfg)) True
        (psa_cipher_generate_iv cfg chan operation iv iv_size iv_length)"
  | cipher_set_iv:
      "streaming_step cfg chan operation w
        (\<not> defined (TFM_CRYPTO_CIPHER_MODULE_DISABLED cfg)) True
        (psa_cipher_set_iv cfg chan operation iv iv_length)"
  | cipher_encrypt_setup:
      "streaming_step cfg chan operation w
        (\<not> defined (TFM_CRYPTO_CIPHER_MODULE_DISABLED cfg)) True
        (psa_cipher_encrypt_setup cfg chan operation key_id alg)"
  | cipher_decrypt_setup:
      "streaming_step cfg chan operation w
        (\<not> defined (TFM_CRYPTO_CIPHER_MODULE_DISABLED cfg)) True
        (psa_cipher_decrypt_setup cfg chan operation key_id alg)"
  | cipher_update:
      "streaming_step cfg chan operation w
        (\<not> defined (TFM_CRYPTO_CIPHER_MODULE_DISABLED cfg)) True
        (psa_cipher_update cfg chan operation input input_length output output_size output_length)"
  | cipher_abort:
      "streaming_step cfg chan operation w
        (\<not> defined (TFM_CRYPTO_CIPHER_MODULE_DISABLED cfg)) True
        (psa_cipher_abort cfg chan operation)"
  | cipher_finish:
      "streaming_step cfg chan operation w
        (\<not> defined (TFM_CRYPTO_CIPHER_MODULE_DISABLED cfg)) True
        (psa_cipher_finish cfg chan operation output output_size output_length)"
  | hash_setup:
      "streaming_step cfg chan operation w
        (\<not> defined (TFM_CRYPTO_HASH_MODULE_DISABLED cfg)) True
        (psa_hash_setup cfg chan operation alg)"
  | hash_update:
      "streaming_step cfg chan operation w
        (\<not> defined (TFM_CRYPTO_HASH_MODULE_DISABLED cfg)) True
        (psa_hash_update cfg chan operation input input_length)"
  | hash_finish:
      "streaming_step cfg chan operation w
        (\<not> defined (TFM_CRYPTO_HASH_MODULE_DISABLED cfg)) True
        (psa_hash_finish cfg chan operation hash hash_size hash_length)"
  | hash_verify:
      "streaming_step cfg chan operation w
        (\<not> defined (TFM_CRYPTO_HASH_MODULE_DISABLED cfg)) True
        (psa_hash_verify cfg chan operation hash hash_length)"
  | hash_abort:
      "streaming_step cfg chan operation w
        (\<not> defined (TFM_CRYPTO_HASH_MODULE_DISABLED cfg)) True
        (psa_hash_abort cfg chan operation)"
  | hash_clone:
      "streaming_step cfg chan operation w
        (\<not> defined (TFM_CRYPTO_HASH_MODULE_DISABLED cfg) \<and>
         \<not> (target_operation \<noteq> NULL \<and> handle_at (mem w) target_operation \<noteq> 0)) False
        (psa_hash_clone cfg chan operation target_operation)"
  | mac_sign_setup:
      "streaming_step cfg chan operation w
        (\<not> defined (TFM_CRYPTO_MAC_MODULE_DISABLED cfg)) True
        (psa_mac_sign_setup cfg chan operation key_id alg)"
  | mac_verify_setup:
      "streaming_step cfg chan operation w
        (\<not> defined (TFM_CRYPTO_MAC_MODULE_DISABLED cfg)) True
        (psa_mac_verify_setup cfg chan operation key_id alg)"
  | mac_update:
      "streaming_step cfg chan operation w
        (\<not> defined (TFM_CRYPTO_MAC_MODULE_DISABLED cfg)) True
        (psa_mac_update cfg chan operation input input_length)"
  | mac_sign_finish:
      "streaming_step cfg chan operation w
        (\<not> defined (TFM_CRYPTO_MAC_MODULE_DISABLED cfg)) True
        (psa_mac_sign_finish cfg chan operation mac mac_size mac_length)"
  | mac_verify_finish:
      "streaming_step cfg chan operation w
        (\<not> defined (TFM_CRYPTO_MAC_MODULE_DISABLED cfg)) True
        (psa_mac_verify_finish cfg chan operation mac mac_length)"
  | mac_abort:
      "streaming_step cfg chan operation w
        (\<not> defined (TFM_CRYPTO_MAC_MODULE_DISABLED cfg)) True
        (psa_mac_abort cfg chan operation)"
  | aead_encrypt_setup:
      "streaming_step cfg chan operation w
        (\<not> defined (TFM_CRYPTO_AEAD_MODULE_DISABLED cfg)) True
        (psa_aead_encrypt_setup cfg chan operation key alg)"
  | aead_decrypt_setup:
      "streaming_step cfg chan operation w
        (\<not> defined (TFM_CRYPTO_AEAD_MODULE_DISABLED cfg)) True
        (psa_aead_decrypt_setup cfg chan operation key alg)"
  | aead_generate_nonce:
      "streaming_step cfg chan operation w
        (\<not> defined (TFM_CRYPTO_AEAD_MODULE_DISABLED cfg)) True
        (psa_aead_generate_nonce cfg chan operation nonce nonce_size nonce_length)"
  | aead_set_nonce:
      "streaming_step cfg chan operation w
        (\<not> defined (TFM_CRYPTO_AEAD_MODULE_DISABLED cfg)) True
        (psa_aead_set_nonce cfg chan operation nonce nonce_length)"
  | aead_set_lengths:
      "streaming_step cfg chan operation w
        (\<not> defined (TFM_CRYPTO_AEAD_MODULE_DISABLED cfg)) True
        (psa_aead_set_lengths cfg chan operation ad_length plaintext_length)"
  | aead_update_ad:
      "streaming_step cfg chan operation w
        (\<not> defined (TFM_CRYPTO_AEAD_MODULE_DISABLED cfg) \<and>
         \<not> (input = NULL \<and> input_length \<noteq> 0)) True
        (psa_aead_update_ad cfg chan operation input input_length)"
  | aead_update:
      "streaming_step cfg chan operation w
        (\<not> defined (TFM_CRYPTO_AEAD_MODULE_DISABLED cfg) \<and>
         \<not> (input = NULL \<and> input_length \<noteq> 0)) True
        (psa_aead_update cfg chan operation input input_length output output_size output_length)"
  | aead_finish:
      "streaming_step cfg chan operation w
        (\<not> defined (TFM_CRYPTO_AEAD_MODULE_DISABLED cfg) \<and>
         \<not> (ciphertext = NULL \<and> ciphertext_size \<noteq> 0) \<and>
         \<not> (defined (TFM_PSA_API cfg) \<and> \<not> (ciphertext = NULL \<or> ciphertext_size = 0) \<and>
            ciphertext_length = NULL)) True
        (psa_aead_finish cfg chan operation ciphertext ciphertext_size ciphertext_length tag tag_size tag_length)"
  | aead_verify:
      "streaming_step cfg chan operation w
        (\<not> defined (TFM_CRYPTO_AEAD_MODULE_DISABLED cfg) \<and>
         \<not> (plaintext = NULL \<and> plaintext_size \<noteq> 0) \<and>
         \<not> (defined (TFM_PSA_API cfg) \<and> \<not> (plaintext = NULL \<or> plaintext_size = 0) \<and>
            plaintext_length = NULL)) True
        (psa_aead_verify cfg chan operation plaintext plaintext_size plaintext_length tag tag_length)"
  | aead_abort:
      "streaming_step cfg chan operation w
        (\<not> defined (TFM_CRYPTO_AEAD_MODULE_DISABLED cfg)) True
        (psa_aead_abort cfg chan operation)"
  | key_derivation_get_capacity:
      "streaming_step cfg chan operation w
        (\<not> defined (TFM_CRYPTO_KEY_DERIVATION_MODULE_DISABLED cfg)) True
        (psa_key_derivation_get_capacity cfg chan operation capacity)"
  | key_derivation_output_bytes:
      "streaming_step cfg chan operation w
        (\<not> defined (TFM_CRYPTO_KEY_DERIVATION_MODULE_DISABLED cfg)) False
        (psa_key_derivation_output_bytes cfg chan operation output output_length)"
  | key_derivation_input_key:
      "streaming_step cfg chan operation w
        (\<not> defined (TFM_CRYPTO_KEY_DERIVATION_MODULE_DISABLED cfg)) True
        (psa_key_derivation_input_key cfg chan operation step key_id)"
  | key_derivation_abort:
      "streaming_step cfg chan operation w
        (\<not> defined (TFM_CRYPTO_KEY_DERIVATION_MODULE_DISABLED cfg)) True
        (psa_key_derivation_abort cfg chan operation)"
  | key_derivation_key_agreement:
      "streaming_step cfg chan operation w
        (\<not> defined (TFM_CRYPTO_KEY_DERIVATION_MODULE_DISABLED cfg)) True
        (psa_key_derivation_key_agreement cfg chan operation step private_key peer_key peer_key_length)"
  | key_derivation_setup:
      "streaming_step cfg chan operation w
        (\<not> defined (TFM_CRYPTO_KEY_DERIVATION_MODULE_DISABLED cfg)) True
        (psa_key_derivation_setup cfg chan operation alg)"
  | key_derivation_set_capacity:
      "streaming_step cfg chan operation w
        (\<not> defined (TFM_CRYPTO_KEY_DERIVATION_MODULE_DISABLED cfg)) True
        (psa_key_derivation_set_capacity cfg chan operation capacity)"
  | key_derivation_input_bytes:
      "streaming_step cfg chan operation w
        (\<not> defined (TFM_CRYPTO_KEY_DERIVATION_MODULE_DISABLED cfg)) True
        (psa_key_derivation_input_bytes cfg chan operation step data data_length)"
  | key_derivation_output_key:
      "streaming_step cfg chan operation w
        (\<not> defined (TFM_CRYPTO_KEY_DERIVATION_MODULE_DISABLED cfg)) True
        (psa_key_derivation_output_key cfg chan attributes operation key_id)"

text \<open>
  A run of calls on the operation object at \<open>operation\<close>: each element is an API
  function on that object with its two flags, the first evaluated in the world the call
  starts in.
\<close>

fun streaming_run ::
  "build_config \<Rightarrow> 's channel \<Rightarrow> addr
   \<Rightarrow> (bool \<times> bool \<times> ('s world \<Rightarrow> outcome \<times> 's world)) list \<Rightarrow> 's world \<Rightarrow> bool" where
  "streaming_run cfg chan operation [] w = True"
| "streaming_run cfg chan operation ((reaches, returns_handle, f) # fs) w =
     (streaming_step cfg chan operation w reaches returns_handle f \<and>
      streaming_run cfg chan operation fs (snd (f w)))"

subsection \<open>Sample builds, services and memories\<close>

text \<open>
  A build with \<^verbatim>\<open>TFM_PSA_API\<close> and every module enabled, and the same build without
  \<^verbatim>\<open>TFM_PSA_API\<close>.
\<close>

definition ipc_config :: build_config where
  "ipc_config =
     \<lparr>TFM_PSA_API = Some 1,
      TFM_CRYPTO_KEY_MODULE_DISABLED = None,
      TFM_CRYPTO_CIPHER_MODULE_DISABLED = None,
      TFM_CRYPTO_HASH_MODULE_DISABLED = None,
      TFM_CRYPTO_MAC_MODULE_DISABLED = None,
      TFM_CRYPTO_AEAD_MODULE_DISABLED = None,
      TFM_CRYPTO_ASYM_SIGN_MODULE_DISABLED = None,
      TFM_CRYPTO_ASYM_ENCRYPT_MODULE_DISABLED = None,
      TFM_CRYPTO_KEY_DERIVATION_MODULE_DISABLED = None,
      TFM_CRYPTO_RNG_MODULE_DISABLED = None,
      TFM_CRYPTO_MAX_NONCE_LENGTH = 16,
      sizeof_tfm_crypto_pack_iovec = 52,
      sizeof_psa_key_attributes_t = 28,
      sizeof_psa_hash_operation_t = 4\<rparr>"

definition library_config :: build_config where
  "library_config = ipc_config\<lparr>TFM_PSA_API := None\<rparr>"

text \<open>
  A service that succeeds, reports every output buffer as filled, and writes a fresh
  handle (its call counter) through the first output descriptor.
\<close>

definition counting_service :: "nat channel" where
  "counting_service s ins outs m =
     \<lparr>r_status = PSA_SUCCESS,
      r_lens = map len outs,
      r_mem = (case outs of
                 [] \<Rightarrow> m
               | v # vs \<Rightarrow>
                   (case base v of
                      Ptr a \<Rightarrow> m\<lparr>handle_of := (handle_of m)(a := of_nat (s + 1))\<rparr>
                    | _ \<Rightarrow> m)),
      r_srv = s + 1\<rparr>"

text \<open>
  A service that fails with \<^verbatim>\<open>PSA_ERROR_BAD_STATE\<close> after reporting 7 bytes for every
  output descriptor.
\<close>

definition failing_service :: "nat channel" where
  "failing_service s ins outs m =
     \<lparr>r_status = PSA_ERROR_BAD_STATE, r_lens = map (\<lambda>v. 7) outs, r_mem = m, r_srv = s\<rparr>"

text \<open>
  A world whose operation objects are initialised (handle 0) and whose \<^verbatim>\<open>size_t\<close>
  objects all hold 99; and the same world with a hash operation at address 2 already
  bound to handle 5.
\<close>

definition fresh_world :: "nat world" where
  "fresh_world =
     \<lparr>mem = \<lparr>handle_of = (\<lambda>a. 0), size_at = (\<lambda>a. 99), byte_at = (\<lambda>a. 0)\<rparr>,
      srv = 0, trace = []\<rparr>"

definition bound_world :: "nat world" where
  "bound_world =
     fresh_world\<lparr>mem := (mem fresh_world)\<lparr>handle_of := (\<lambda>a. if a = 2 then 5 else 0)\<rparr>\<rparr>"

text \<open>
  A cipher operation on the object at address 1, against the counting service: setup,
  two updates, finish.
\<close>

definition scenario_c :: "(bool \<times> bool \<times> (nat world \<Rightarrow> outcome \<times> nat world)) list" where
  "scenario_c =
     [(\<not> defined (TFM_CRYPTO_CIPHER_MODULE_DISABLED ipc_config), True,
       psa_cipher_encrypt_setup ipc_config counting_service 1 7 9),
      (\<not> defined (TFM_CRYPTO_CIPHER_MODULE_DISABLED ipc_config), True,
       psa_cipher_update ipc_config counting_service 1 (Ptr 30) 16 (Ptr 40) 16 50),
      (\<not> defined (TFM_CRYPTO_CIPHER_MODULE_DISABLED ipc_config), True,
       psa_cipher_update ipc_config counting_service 1 (Ptr 30) 16 (Ptr 40) 16 50),
      (\<not> defined (TFM_CRYPTO_CIPHER_MODULE_DISABLED ipc_config), True,
       psa_cipher_finish ipc_config counting_service 1 (Ptr 40) 16 50)]"
section \<open>Properties\<close>

subsection \<open>The channel primitive\<close>

lemma channel_call_status [simp]:
  "fst (channel_call b chan iv il ov ol w) =
     r_status (chan (srv w) (take il iv) (take ol ov) (mem w))"
  by (simp add: channel_call_def Let_def)

lemma channel_call_out [simp]:
  "fst (snd (channel_call b chan iv il ov ol w)) =
     write_lens (take ol (r_lens (chan (srv w) (take il iv) (take ol ov) (mem w)))) ov"
  by (simp add: channel_call_def Let_def)

lemma channel_call_trace [simp]:
  "trace (snd (snd (channel_call b chan iv il ov ol w))) =
     trace w @
       [\<lparr>via = b, in_vecs = take il iv, out_vecs = take ol ov,
         ret_status = r_status (chan (srv w) (take il iv) (take ol ov) (mem w)),
         ret_out_vecs =
           take ol (write_lens
             (take ol (r_lens (chan (srv w) (take il iv) (take ol ov) (mem w)))) ov),
         ret_mem = r_mem (chan (srv w) (take il iv) (take ol ov) (mem w))\<rparr>]"
  by (simp add: channel_call_def Let_def)

lemma channel_call_mem [simp]:
  "mem (snd (snd (channel_call b chan iv il ov ol w))) =
     r_mem (chan (srv w) (take il iv) (take ol ov) (mem w))"
  by (simp add: channel_call_def Let_def)

lemma store_size_trace [simp]: "trace (store_size p v w) = trace w"
  by (simp add: store_size_def)

lemma store_size_at [simp]: "size_at (mem (store_size p v w)) = (size_at (mem w))(p := v)"
  by (simp add: store_size_def)

lemma store_size_handle [simp]: "handle_of (mem (store_size p v w)) = handle_of (mem w)"
  by (simp add: store_size_def)

lemma length_write_lens [simp]: "length (write_lens ls vs) = length vs"
  by (induction ls vs rule: write_lens.induct) simp_all

lemma write_lens_eq_Nil [simp]: "write_lens ls vs = [] \<longleftrightarrow> vs = []"
  by (induction ls vs rule: write_lens.induct) simp_all

lemma len_write_lens:
  "len (write_lens ls vs ! i) =
     (if i < length ls \<and> i < length vs then ls ! i else len (vs ! i))"
proof (induction ls vs arbitrary: i rule: write_lens.induct)
  case (1 l ls v vs)
  then show ?case by (cases i) simp_all
qed simp_all

lemmas dispatch_defs = API_DISPATCH_def API_DISPATCH_NO_OUTVEC_def psa_call_def veneer_def
  ARRAY_SIZE_def dispatched_def new_dispatches_def split_beta Let_def

lemmas api_defs = psa_crypto_init_def psa_open_key_def psa_close_key_def psa_import_key_def
  psa_destroy_key_def psa_get_key_attributes_def psa_reset_key_attributes_def
  psa_export_key_def psa_export_public_key_def psa_purge_key_def psa_copy_key_def
  psa_cipher_generate_iv_def psa_cipher_set_iv_def psa_cipher_encrypt_setup_def
  psa_cipher_decrypt_setup_def psa_cipher_update_def psa_cipher_abort_def
  psa_cipher_finish_def psa_hash_setup_def psa_hash_update_def psa_hash_finish_def
  psa_hash_verify_def psa_hash_abort_def psa_hash_clone_def psa_hash_compute_def
  psa_hash_compare_def psa_mac_sign_setup_def psa_mac_verify_setup_def psa_mac_update_def
  psa_mac_sign_finish_def psa_mac_verify_finish_def psa_mac_abort_def psa_aead_encrypt_def
  psa_aead_decrypt_def psa_aead_encrypt_setup_def psa_aead_decrypt_setup_def
  psa_aead_generate_nonce_def psa_aead_set_nonce_def psa_aead_set_lengths_def
  psa_aead_update_ad_def psa_aead_update_def psa_aead_finish_def psa_aead_verify_def
  psa_aead_abort_def psa_sign_message_def psa_verify_message_def psa_sign_hash_def
  psa_verify_hash_def psa_asymmetric_encrypt_def psa_asymmetric_decrypt_def
  psa_key_derivation_get_capacity_def psa_key_derivation_output_bytes_def
  psa_key_derivation_input_key_def psa_key_derivation_abort_def
  psa_key_derivation_key_agreement_def psa_generate_random_def psa_generate_key_def
  psa_mac_compute_def psa_mac_verify_def psa_cipher_encrypt_def psa_cipher_decrypt_def
  psa_raw_key_agreement_def psa_key_derivation_setup_def psa_key_derivation_set_capacity_def
  psa_key_derivation_input_bytes_def psa_key_derivation_output_key_def


lemma envelope_of_dispatch [simp]:
  "envelope \<lparr>via = b, in_vecs = \<lparr>base = Stack_iov iov, len = n\<rparr> # vs, out_vecs = ov,
     ret_status = st, ret_out_vecs = rv, ret_mem = m\<rparr> = Some iov"
  by (simp add: envelope_def)

lemma not_defined_ipc_config [simp]:
  "\<not> defined (TFM_CRYPTO_KEY_MODULE_DISABLED ipc_config)"
  "\<not> defined (TFM_CRYPTO_CIPHER_MODULE_DISABLED ipc_config)"
  "\<not> defined (TFM_CRYPTO_HASH_MODULE_DISABLED ipc_config)"
  "\<not> macro_nonzero (TFM_CRYPTO_HASH_MODULE_DISABLED ipc_config)"
  "\<not> defined (TFM_CRYPTO_MAC_MODULE_DISABLED ipc_config)"
  "\<not> defined (TFM_CRYPTO_AEAD_MODULE_DISABLED ipc_config)"
  "\<not> defined (TFM_CRYPTO_ASYM_SIGN_MODULE_DISABLED ipc_config)"
  "\<not> defined (TFM_CRYPTO_ASYM_ENCRYPT_MODULE_DISABLED ipc_config)"
  "\<not> defined (TFM_CRYPTO_KEY_DERIVATION_MODULE_DISABLED ipc_config)"
  "\<not> defined (TFM_CRYPTO_RNG_MODULE_DISABLED ipc_config)"
  "defined (TFM_PSA_API ipc_config)"
  by (simp_all add: ipc_config_def defined_def macro_nonzero_def)

lemma library_config_simps [simp]:
  "\<not> defined (TFM_PSA_API library_config)"
  "\<not> defined (TFM_CRYPTO_AEAD_MODULE_DISABLED library_config)"
  "\<not> defined (TFM_CRYPTO_ASYM_ENCRYPT_MODULE_DISABLED library_config)"
  by (simp_all add: library_config_def ipc_config_def defined_def)

subsection \<open>Local rejections\<close>

text \<open>
  C8. \<^verbatim>\<open>psa_generate_random\<close> with \<^verbatim>\<open>output_size == 0\<close>, in a build that has the
  RNG module, returns \<^verbatim>\<open>PSA_SUCCESS\<close> at once: the world is unchanged, and no dispatch
  is logged.
\<close>

theorem psa_generate_random_zero_size:
  assumes "\<not> defined (TFM_CRYPTO_RNG_MODULE_DISABLED cfg)"
  shows "psa_generate_random cfg chan output 0 w = (Returned PSA_SUCCESS, w) \<and>
         dispatched (psa_generate_random cfg chan output 0) w = []"
  using assms by (simp add: psa_generate_random_def dispatched_def new_dispatches_def)

theorem psa_generate_random_zero_size_witness:
  "\<not> defined (TFM_CRYPTO_RNG_MODULE_DISABLED ipc_config) \<and>
   psa_generate_random ipc_config counting_service (Ptr 8) 0 fresh_world =
     (Returned PSA_SUCCESS, fresh_world) \<and>
   dispatched (psa_generate_random ipc_config counting_service (Ptr 8) 0) fresh_world = []"
proof -
  have h: "\<not> defined (TFM_CRYPTO_RNG_MODULE_DISABLED ipc_config)"
    by simp
  from psa_generate_random_zero_size [OF h, of counting_service "Ptr 8" fresh_world] h
  show ?thesis by simp
qed

text \<open>
  C7. \<^verbatim>\<open>psa_hash_clone\<close> onto a target operation whose handle is not 0, in a build
  that has the hash module, returns \<^verbatim>\<open>PSA_ERROR_BAD_STATE\<close> with the world unchanged
  (so both operation objects are as they were) and no dispatch logged.
\<close>

theorem psa_hash_clone_bound_target:
  assumes "\<not> defined (TFM_CRYPTO_HASH_MODULE_DISABLED cfg)"
    and "handle_of (mem w) target_operation \<noteq> 0"
  shows "psa_hash_clone cfg chan source_operation (Ptr target_operation) w =
           (Returned PSA_ERROR_BAD_STATE, w) \<and>
         dispatched (psa_hash_clone cfg chan source_operation (Ptr target_operation)) w = []"
  using assms
  by (simp add: psa_hash_clone_def handle_at_def dispatched_def new_dispatches_def Let_def)

theorem psa_hash_clone_bound_target_witness:
  "\<not> defined (TFM_CRYPTO_HASH_MODULE_DISABLED ipc_config) \<and>
   handle_of (mem bound_world) 2 = 5 \<and>
   psa_hash_clone ipc_config counting_service 1 (Ptr 2) bound_world =
     (Returned PSA_ERROR_BAD_STATE, bound_world) \<and>
   dispatched (psa_hash_clone ipc_config counting_service 1 (Ptr 2)) bound_world = []"
proof -
  have h: "\<not> defined (TFM_CRYPTO_HASH_MODULE_DISABLED ipc_config)"
    by simp
  have b: "handle_of (mem bound_world) 2 = 5"
    by (simp add: bound_world_def fresh_world_def)
  then have nz: "handle_of (mem bound_world) 2 \<noteq> 0"
    by simp
  from psa_hash_clone_bound_target [OF h nz, of counting_service 1] h b
  show ?thesis by simp
qed

text \<open>
  C2. Every function with an optional buffer (the additional data of the one-shot AEAD
  functions, the input of \<^verbatim>\<open>psa_aead_update_ad\<close> and \<^verbatim>\<open>psa_aead_update\<close>, the
  ciphertext of \<^verbatim>\<open>psa_aead_finish\<close>, the plaintext of \<^verbatim>\<open>psa_aead_verify\<close>, the salt
  of the asymmetric functions), called with a null buffer and a length that is not 0,
  returns \<^verbatim>\<open>PSA_ERROR_INVALID_ARGUMENT\<close> with the world unchanged, the dispatch log
  included: nothing is sent. This holds in every
  build that has the module, with or without \<^verbatim>\<open>TFM_PSA_API\<close>, and whatever the other
  arguments are: the test comes before the descriptor count is computed.
\<close>

theorem null_optional_with_length_rejected:
  assumes "\<not> defined (TFM_CRYPTO_AEAD_MODULE_DISABLED cfg)"
    and "\<not> defined (TFM_CRYPTO_ASYM_ENCRYPT_MODULE_DISABLED cfg)"
    and "n \<noteq> 0"
  shows
    "psa_aead_encrypt cfg chan key_id alg nonce nonce_length NULL n
       plaintext plaintext_length ciphertext ciphertext_size ciphertext_length w =
       (Returned PSA_ERROR_INVALID_ARGUMENT, w) \<and>
     psa_aead_decrypt cfg chan key_id alg nonce nonce_length NULL n
       ciphertext ciphertext_length' plaintext plaintext_size plaintext_length' w =
       (Returned PSA_ERROR_INVALID_ARGUMENT, w) \<and>
     psa_aead_update_ad cfg chan operation NULL n w =
       (Returned PSA_ERROR_INVALID_ARGUMENT, w) \<and>
     psa_aead_update cfg chan operation NULL n output output_size output_length w =
       (Returned PSA_ERROR_INVALID_ARGUMENT, w) \<and>
     psa_aead_finish cfg chan operation NULL n length_ptr tag tag_size tag_length w =
       (Returned PSA_ERROR_INVALID_ARGUMENT, w) \<and>
     psa_aead_verify cfg chan operation NULL n length_ptr tag tag_length' w =
       (Returned PSA_ERROR_INVALID_ARGUMENT, w) \<and>
     psa_asymmetric_encrypt cfg chan key_id alg input input_length NULL n
       output output_size output_length w =
       (Returned PSA_ERROR_INVALID_ARGUMENT, w) \<and>
     psa_asymmetric_decrypt cfg chan key_id alg input input_length NULL n
       output output_size output_length w =
       (Returned PSA_ERROR_INVALID_ARGUMENT, w)"
  using assms
  by (simp add: psa_aead_encrypt_def psa_aead_decrypt_def psa_aead_update_ad_def
      psa_aead_update_def psa_aead_finish_def psa_aead_verify_def
      psa_asymmetric_encrypt_def psa_asymmetric_decrypt_def Let_def)

theorem null_optional_with_length_rejected_witness:
  "\<not> defined (TFM_CRYPTO_AEAD_MODULE_DISABLED ipc_config) \<and>
   \<not> defined (TFM_CRYPTO_ASYM_ENCRYPT_MODULE_DISABLED ipc_config) \<and>
   (5 :: size_t) \<noteq> 0 \<and>
   psa_aead_encrypt ipc_config counting_service 1 2 (Ptr 10) 12 NULL 5
     (Ptr 30) 3 (Ptr 40) 19 50 fresh_world =
     (Returned PSA_ERROR_INVALID_ARGUMENT, fresh_world) \<and>
   psa_asymmetric_encrypt ipc_config counting_service 1 2 (Ptr 30) 3 NULL 5
     (Ptr 40) 64 50 fresh_world =
     (Returned PSA_ERROR_INVALID_ARGUMENT, fresh_world)"
proof -
  have a: "\<not> defined (TFM_CRYPTO_AEAD_MODULE_DISABLED ipc_config)"
    and b: "\<not> defined (TFM_CRYPTO_ASYM_ENCRYPT_MODULE_DISABLED ipc_config)"
    and c: "(5 :: size_t) \<noteq> 0"
    by simp_all
  show ?thesis
    using a b c by (simp add: null_optional_with_length_rejected [OF a b c])
qed


subsection \<open>The inline nonce\<close>

text \<open>
  The copy loop, run from index \<open>idx\<close>, leaves the array below \<open>idx\<close> and from \<open>n\<close> on
  as it was and fills the indices between with the caller's bytes.
\<close>

lemma nonce_copy_loop_eq:
  "idx \<le> n \<Longrightarrow> n \<le> length arr \<Longrightarrow>
   nonce_copy_loop m p idx n arr =
     take idx arr @ map (load_byte m p) [idx..<n] @ drop n arr"
proof (induction m p idx n arr rule: nonce_copy_loop.induct)
  case (1 m p idx n arr)
  show ?case
  proof (cases "idx < n")
    case True
    let ?arr = "arr[idx := load_byte m p idx]"
    from True "1.prems" have len: "idx < length arr"
      by simp
    from True "1.prems" have
      "nonce_copy_loop m p (idx + 1) n ?arr =
         take (idx + 1) ?arr @ map (load_byte m p) [idx + 1..<n] @ drop n ?arr"
      by (intro "1.IH") simp_all
    moreover have "take (idx + 1) ?arr = take idx arr @ [load_byte m p idx]"
      using len by (simp add: take_Suc_conv_app_nth)
    moreover have "drop n ?arr = drop n arr"
      using True by simp
    moreover have "[idx..<n] = idx # [idx + 1..<n]"
      using True by (simp add: upt_conv_Cons)
    ultimately show ?thesis
      using True by (subst nonce_copy_loop.simps) simp
  next
    case False
    with "1.prems" have "idx = n"
      by simp
    then show ?thesis
      by (subst nonce_copy_loop.simps) simp
  qed
qed

lemma take_nonce_copy_loop:
  "n \<le> length arr \<Longrightarrow> take n (nonce_copy_loop m p 0 n arr) = map (load_byte m p) [0..<n]"
  by (simp add: nonce_copy_loop_eq)

text \<open>
  Whatever the arguments, an envelope the one-shot AEAD functions dispatch holds the
  caller's nonce in full: the functions never send a shortened nonce.
\<close>

lemma psa_aead_encrypt_carries_nonce:
  "list_all (carries_nonce (mem w) nonce nonce_length)
     (dispatched (psa_aead_encrypt cfg chan key_id alg nonce nonce_length additional_data
        additional_data_length plaintext plaintext_length ciphertext ciphertext_size
        ciphertext_length) w)"
  by (simp add: psa_aead_encrypt_def dispatch_defs carries_nonce_def iov_init_def
      take_nonce_copy_loop word_le_nat_alt not_less)

lemma psa_aead_decrypt_carries_nonce:
  "list_all (carries_nonce (mem w) nonce nonce_length)
     (dispatched (psa_aead_decrypt cfg chan key_id alg nonce nonce_length additional_data
        additional_data_length ciphertext ciphertext_length plaintext plaintext_size
        plaintext_length) w)"
  by (simp add: psa_aead_decrypt_def dispatch_defs carries_nonce_def iov_init_def
      take_nonce_copy_loop word_le_nat_alt not_less)

text \<open>
  C6. In a build that has the AEAD module, \<^verbatim>\<open>psa_aead_encrypt\<close> and
  \<^verbatim>\<open>psa_aead_decrypt\<close> called with \<^verbatim>\<open>nonce_length > TFM_CRYPTO_MAX_NONCE_LENGTH\<close>
  return \<^verbatim>\<open>PSA_ERROR_INVALID_ARGUMENT\<close> with the world unchanged: nothing is
  dispatched, so no envelope with a copied or shortened nonce leaves the function.
\<close>

theorem aead_oversize_nonce_rejected:
  assumes "\<not> defined (TFM_CRYPTO_AEAD_MODULE_DISABLED cfg)"
    and "TFM_CRYPTO_MAX_NONCE_LENGTH cfg < nonce_length"
  shows
    "psa_aead_encrypt cfg chan key_id alg nonce nonce_length additional_data
       additional_data_length plaintext plaintext_length ciphertext ciphertext_size
       ciphertext_length w = (Returned PSA_ERROR_INVALID_ARGUMENT, w) \<and>
     psa_aead_decrypt cfg chan key_id alg nonce nonce_length additional_data
       additional_data_length ciphertext ciphertext_length' plaintext plaintext_size
       plaintext_length' w = (Returned PSA_ERROR_INVALID_ARGUMENT, w)"
  using assms by (simp add: psa_aead_encrypt_def psa_aead_decrypt_def Let_def)

theorem aead_oversize_nonce_rejected_witness:
  "\<not> defined (TFM_CRYPTO_AEAD_MODULE_DISABLED ipc_config) \<and>
   TFM_CRYPTO_MAX_NONCE_LENGTH ipc_config < 17 \<and>
   psa_aead_encrypt ipc_config counting_service 1 2 (Ptr 10) 17 (Ptr 20) 4
     (Ptr 30) 3 (Ptr 40) 19 50 fresh_world =
     (Returned PSA_ERROR_INVALID_ARGUMENT, fresh_world) \<and>
   psa_aead_decrypt ipc_config counting_service 1 2 (Ptr 10) 17 (Ptr 20) 4
     (Ptr 40) 19 (Ptr 30) 3 50 fresh_world =
     (Returned PSA_ERROR_INVALID_ARGUMENT, fresh_world)"
proof -
  have a: "\<not> defined (TFM_CRYPTO_AEAD_MODULE_DISABLED ipc_config)"
    by simp
  have b: "TFM_CRYPTO_MAX_NONCE_LENGTH ipc_config < 17"
    by (simp add: ipc_config_def)
  show ?thesis
    using a b by (simp add: aead_oversize_nonce_rejected [OF a b])
qed




subsection \<open>All API functions\<close>

text \<open>
  A call only ever appends to the dispatch log, so \<open>dispatched f w\<close> is all that the
  call \<open>f\<close> sent.
\<close>

lemma api_function_trace:
  "api_function cfg chan f \<Longrightarrow> trace (snd (f w)) = trace w @ dispatched f w"
  by (induct rule: api_function.induct)
     (simp_all add: api_defs dispatch_defs store_size_ptr_def split: ptr.splits)

lemma api_function_within_max_iovec:
  "api_function cfg chan f \<Longrightarrow> list_all within_max_iovec (dispatched f w)"
  by (induct rule: api_function.induct)
     (simp_all add: api_defs dispatch_defs within_max_iovec_def PSA_MAX_IOVEC_def
        store_size_ptr_def split: ptr.splits)

text \<open>
  C4. For every API function of the file, every build and every argument, each dispatch
  the call makes has at most 4 descriptors, inputs and outputs together; and the
  dispatches counted are all the call added to the log.
\<close>

theorem dispatch_within_max_iovec:
  assumes "api_function cfg chan f"
  shows "trace (snd (f w)) = trace w @ dispatched f w \<and>
         list_all (\<lambda>d. length (in_vecs d) + length (out_vecs d) \<le> 4) (dispatched f w)"
proof -
  have "within_max_iovec = (\<lambda>d. length (in_vecs d) + length (out_vecs d) \<le> 4)"
    by (simp add: fun_eq_iff within_max_iovec_def PSA_MAX_IOVEC_def)
  with api_function_trace [OF assms, of w] api_function_within_max_iovec [OF assms, of w]
  show ?thesis by simp
qed

theorem dispatch_within_max_iovec_witness:
  "api_function ipc_config counting_service
     (psa_aead_finish ipc_config counting_service 1 (Ptr 40) 19 (Ptr 50) (Ptr 60) 16 70) \<and>
   list_all (\<lambda>d. length (in_vecs d) + length (out_vecs d) \<le> 4)
     (dispatched
        (psa_aead_finish ipc_config counting_service 1 (Ptr 40) 19 (Ptr 50) (Ptr 60) 16 70)
        fresh_world) \<and>
   map (\<lambda>d. length (in_vecs d) + length (out_vecs d))
     (dispatched
        (psa_aead_finish ipc_config counting_service 1 (Ptr 40) 19 (Ptr 50) (Ptr 60) 16 70)
        fresh_world) = [4]"
proof -
  have a: "api_function ipc_config counting_service
     (psa_aead_finish ipc_config counting_service 1 (Ptr 40) 19 (Ptr 50) (Ptr 60) 16 70)"
    by (rule api_function.aead_finish)
  have "map (\<lambda>d. length (in_vecs d) + length (out_vecs d))
     (dispatched
        (psa_aead_finish ipc_config counting_service 1 (Ptr 40) 19 (Ptr 50) (Ptr 60) 16 70)
        fresh_world) = [4]"
    by (simp add: psa_aead_finish_def dispatch_defs store_size_ptr_def)
  with a dispatch_within_max_iovec [OF a, of fresh_world] show ?thesis
    by simp
qed

subsection \<open>The continuation handle\<close>

text \<open>
  Every API function on an operation object threads the handle, whatever the handle the
  object holds when the call starts.
\<close>

lemma streaming_step_threads_handle:
  "streaming_step cfg chan operation w reaches returns_handle f \<Longrightarrow>
   call_threads_handle operation (handle_of (mem w) operation) reaches returns_handle f w"
  by (induct rule: streaming_step.induct)
     (simp_all add: call_threads_handle_def api_defs dispatch_defs store_size_ptr_def
        split: ptr.splits)

lemma handles_threaded_run:
  "streaming_run cfg chan operation fs w \<Longrightarrow>
   handles_threaded operation (handle_of (mem w) operation) fs w"
proof (induction fs arbitrary: w)
  case Nil
  show ?case by simp
next
  case (Cons x fs)
  obtain reaches returns_handle f where x: "x = (reaches, returns_handle, f)"
    by (cases x) auto
  from Cons.prems x have f: "streaming_step cfg chan operation w reaches returns_handle f"
    and fs: "streaming_run cfg chan operation fs (snd (f w))"
    by simp_all
  have "handles_threaded operation (handle_of (mem (snd (f w))) operation) fs (snd (f w))"
    by (rule Cons.IH [OF fs])
  with streaming_step_threads_handle [OF f] x show ?case
    by simp
qed

text \<open>
  C5, as the code has it. Take any run of API calls on the operation object at
  \<open>operation\<close> (hash, cipher, MAC, AEAD or key derivation), in any build and against any
  service, and let \<open>h\<close> be whatever handle the object holds when the run starts. Every
  call that reaches the channel (its module is enabled and no local test returns early)
  dispatches exactly once; the envelope of that dispatch carries the handle the object
  holds when the call starts; the first output descriptor is
  \<^verbatim>\<open>{&operation->handle, sizeof(uint32_t)}\<close> (except for
  \<^verbatim>\<open>psa_key_derivation_output_bytes\<close> and for the source of \<^verbatim>\<open>psa_hash_clone\<close>, which
  pass no handle descriptor); and after the call the object holds the handle the channel
  left in it. A call that does not reach the channel dispatches nothing and leaves the
  handle of the object as it was. So call N+1 carries the handle the object held after
  call N, and the first call carries \<open>h\<close>, which the layer neither tests nor sets.
\<close>

theorem continuation_handle_threaded:
  assumes "streaming_run cfg chan operation fs w"
    and "handle_of (mem w) operation = h"
  shows "handles_threaded operation h fs w"
  using handles_threaded_run [OF assms(1)] assms(2) by simp

theorem continuation_handle_threaded_witness:
  "streaming_run ipc_config counting_service 1 scenario_c fresh_world \<and>
   handle_of (mem fresh_world) 1 = 0 \<and>
   handles_threaded 1 0 scenario_c fresh_world \<and>
   map (map_option op_handle_C \<circ> envelope) (trace (run_calls scenario_c fresh_world)) =
     [Some 0, Some 1, Some 2, Some 3] \<and>
   map (\<lambda>d. handle_of (ret_mem d) 1) (trace (run_calls scenario_c fresh_world)) = [1, 2, 3, 4]"
proof -
  have a: "streaming_run ipc_config counting_service 1 scenario_c fresh_world"
    unfolding scenario_c_def streaming_run.simps
    by (intro conjI TrueI streaming_step.intros)
  have b: "handle_of (mem fresh_world) 1 = 0"
    by (simp add: fresh_world_def)
  have c: "map (map_option op_handle_C \<circ> envelope) (trace (run_calls scenario_c fresh_world)) =
     [Some 0, Some 1, Some 2, Some 3]"
    "map (\<lambda>d. handle_of (ret_mem d) 1) (trace (run_calls scenario_c fresh_world)) = [1, 2, 3, 4]"
    unfolding scenario_c_def
    by (simp_all add: psa_cipher_encrypt_setup_def psa_cipher_update_def psa_cipher_finish_def
        dispatch_defs channel_call_def store_size_def counting_service_def fresh_world_def)
  from continuation_handle_threaded [OF a b] a b c show ?thesis
    by simp
qed

text \<open>
  C5 as stated fails for the first call. The object at address 2 holds 5, and no call
  has been made: the dispatch log is empty. \<^verbatim>\<open>psa_hash_setup\<close> on that object sends
  an envelope with the handle 5, not 0: it forwards what the object holds.
\<close>

theorem first_call_forwards_object_handle:
  "trace bound_world = [] \<and>
   handle_of (mem bound_world) 2 = 5 \<and>
   map (map_option op_handle_C \<circ> envelope)
     (dispatched (psa_hash_setup ipc_config counting_service 2 9) bound_world) = [Some 5] \<and>
   map (map_option op_handle_C \<circ> envelope)
     (trace (snd (psa_hash_setup ipc_config counting_service 2 9 bound_world))) = [Some 5]"
  by (simp add: psa_hash_setup_def dispatch_defs channel_call_def bound_world_def
      fresh_world_def)

subsection \<open>Output lengths\<close>

lemma library_config_modules [simp]:
  "\<not> defined (TFM_CRYPTO_KEY_MODULE_DISABLED library_config)"
  "\<not> defined (TFM_CRYPTO_CIPHER_MODULE_DISABLED library_config)"
  "\<not> defined (TFM_CRYPTO_HASH_MODULE_DISABLED library_config)"
  "\<not> defined (TFM_CRYPTO_MAC_MODULE_DISABLED library_config)"
  "\<not> defined (TFM_CRYPTO_ASYM_SIGN_MODULE_DISABLED library_config)"
  "\<not> defined (TFM_CRYPTO_KEY_DERIVATION_MODULE_DISABLED library_config)"
  by (simp_all add: library_config_def ipc_config_def defined_def)

lemma not_defined_nonzero: "\<not> defined m \<Longrightarrow> macro_nonzero m = False"
  by (simp add: defined_def macro_nonzero_def)

text \<open>
  The functions that report a length, one lemma each: in a build that has the module
  the call dispatches once, returns the channel's status and stores the descriptor's
  length as the channel left it. Nothing in these lemmas depends on the status.
\<close>

lemma psa_export_key_copies_length:
  "\<not> defined (TFM_CRYPTO_KEY_MODULE_DISABLED cfg) \<Longrightarrow>
   copies_length (psa_export_key cfg chan key_id data data_size data_length) data_length 0
     w"
  by (simp add: psa_export_key_def dispatch_defs copies_length_def not_defined_nonzero)

lemma psa_export_public_key_copies_length:
  "\<not> defined (TFM_CRYPTO_KEY_MODULE_DISABLED cfg) \<Longrightarrow>
   copies_length (psa_export_public_key cfg chan key_id data data_size data_length)
     data_length 0 w"
  by (simp add: psa_export_public_key_def dispatch_defs copies_length_def not_defined_nonzero)

lemma psa_cipher_generate_iv_copies_length:
  "\<not> defined (TFM_CRYPTO_CIPHER_MODULE_DISABLED cfg) \<Longrightarrow>
   copies_length (psa_cipher_generate_iv cfg chan operation iv iv_size iv_length) iv_length
     1 w"
  by (simp add: psa_cipher_generate_iv_def dispatch_defs copies_length_def not_defined_nonzero)

lemma psa_cipher_update_copies_length:
  "\<not> defined (TFM_CRYPTO_CIPHER_MODULE_DISABLED cfg) \<Longrightarrow>
   copies_length (psa_cipher_update cfg chan operation input input_length output
     output_size output_length) output_length 1 w"
  by (simp add: psa_cipher_update_def dispatch_defs copies_length_def not_defined_nonzero)

lemma psa_cipher_finish_copies_length:
  "\<not> defined (TFM_CRYPTO_CIPHER_MODULE_DISABLED cfg) \<Longrightarrow>
   copies_length (psa_cipher_finish cfg chan operation output output_size output_length)
     output_length 1 w"
  by (simp add: psa_cipher_finish_def dispatch_defs copies_length_def not_defined_nonzero)

lemma psa_hash_finish_copies_length:
  "\<not> defined (TFM_CRYPTO_HASH_MODULE_DISABLED cfg) \<Longrightarrow>
   copies_length (psa_hash_finish cfg chan operation hash hash_size hash_length)
     hash_length 1 w"
  by (simp add: psa_hash_finish_def dispatch_defs copies_length_def not_defined_nonzero)

lemma psa_hash_compute_copies_length:
  "\<not> defined (TFM_CRYPTO_HASH_MODULE_DISABLED cfg) \<Longrightarrow>
   copies_length (psa_hash_compute cfg chan alg input input_length hash hash_size
     hash_length) hash_length 0 w"
  by (simp add: psa_hash_compute_def dispatch_defs copies_length_def not_defined_nonzero)

lemma psa_mac_sign_finish_copies_length:
  "\<not> defined (TFM_CRYPTO_MAC_MODULE_DISABLED cfg) \<Longrightarrow>
   copies_length (psa_mac_sign_finish cfg chan operation mac mac_size mac_length)
     mac_length 1 w"
  by (simp add: psa_mac_sign_finish_def dispatch_defs copies_length_def not_defined_nonzero)

lemma psa_aead_generate_nonce_copies_length:
  "\<not> defined (TFM_CRYPTO_AEAD_MODULE_DISABLED cfg) \<Longrightarrow>
   copies_length (psa_aead_generate_nonce cfg chan operation nonce nonce_size nonce_length)
     nonce_length 1 w"
  by (simp add: psa_aead_generate_nonce_def dispatch_defs copies_length_def not_defined_nonzero)

lemma psa_sign_message_copies_length:
  "\<not> defined (TFM_CRYPTO_ASYM_SIGN_MODULE_DISABLED cfg) \<Longrightarrow>
   copies_length (psa_sign_message cfg chan key_id alg input input_length signature
     signature_size signature_length) signature_length 0 w"
  by (simp add: psa_sign_message_def dispatch_defs copies_length_def not_defined_nonzero)

lemma psa_sign_hash_copies_length:
  "\<not> defined (TFM_CRYPTO_ASYM_SIGN_MODULE_DISABLED cfg) \<Longrightarrow>
   copies_length (psa_sign_hash cfg chan key_id alg hash hash_length signature
     signature_size signature_length) signature_length 0 w"
  by (simp add: psa_sign_hash_def dispatch_defs copies_length_def not_defined_nonzero)

lemma psa_mac_compute_copies_length:
  "\<not> defined (TFM_CRYPTO_MAC_MODULE_DISABLED cfg) \<Longrightarrow>
   copies_length (psa_mac_compute cfg chan key_id alg input input_length mac mac_size
     mac_length) mac_length 0 w"
  by (simp add: psa_mac_compute_def dispatch_defs copies_length_def not_defined_nonzero)

lemma psa_cipher_encrypt_copies_length:
  "\<not> defined (TFM_CRYPTO_CIPHER_MODULE_DISABLED cfg) \<Longrightarrow>
   copies_length (psa_cipher_encrypt cfg chan key_id alg input input_length output
     output_size output_length) output_length 0 w"
  by (simp add: psa_cipher_encrypt_def dispatch_defs copies_length_def not_defined_nonzero)

lemma psa_cipher_decrypt_copies_length:
  "\<not> defined (TFM_CRYPTO_CIPHER_MODULE_DISABLED cfg) \<Longrightarrow>
   copies_length (psa_cipher_decrypt cfg chan key_id alg input input_length output
     output_size output_length) output_length 0 w"
  by (simp add: psa_cipher_decrypt_def dispatch_defs copies_length_def not_defined_nonzero)

lemma psa_raw_key_agreement_copies_length:
  "\<not> defined (TFM_CRYPTO_KEY_DERIVATION_MODULE_DISABLED cfg) \<Longrightarrow>
   copies_length (psa_raw_key_agreement cfg chan alg private_key peer_key peer_key_length
     output output_size output_length) output_length 0 w"
  by (simp add: psa_raw_key_agreement_def dispatch_defs copies_length_def not_defined_nonzero)

lemma psa_aead_encrypt_copies_length:
  "\<not> defined (TFM_CRYPTO_AEAD_MODULE_DISABLED cfg) \<Longrightarrow>
   nonce_length \<le> TFM_CRYPTO_MAX_NONCE_LENGTH cfg \<Longrightarrow>
   additional_data \<noteq> NULL \<or> additional_data_length = 0 \<Longrightarrow>
   copies_length (psa_aead_encrypt cfg chan key_id alg nonce nonce_length additional_data
     additional_data_length plaintext plaintext_length ciphertext ciphertext_size
     ciphertext_length) ciphertext_length 0 w"
  by (auto simp add: psa_aead_encrypt_def dispatch_defs copies_length_def not_less)

lemma psa_aead_decrypt_copies_length:
  "\<not> defined (TFM_CRYPTO_AEAD_MODULE_DISABLED cfg) \<Longrightarrow>
   nonce_length \<le> TFM_CRYPTO_MAX_NONCE_LENGTH cfg \<Longrightarrow>
   additional_data \<noteq> NULL \<or> additional_data_length = 0 \<Longrightarrow>
   copies_length (psa_aead_decrypt cfg chan key_id alg nonce nonce_length additional_data
     additional_data_length ciphertext ciphertext_length plaintext plaintext_size
     plaintext_length) plaintext_length 0 w"
  by (auto simp add: psa_aead_decrypt_def dispatch_defs copies_length_def not_less)

lemma psa_aead_update_copies_length:
  "\<not> defined (TFM_CRYPTO_AEAD_MODULE_DISABLED cfg) \<Longrightarrow>
   input \<noteq> NULL \<or> input_length = 0 \<Longrightarrow>
   copies_length (psa_aead_update cfg chan operation input input_length output output_size
     output_length) output_length 1 w"
  by (auto simp add: psa_aead_update_def dispatch_defs copies_length_def)

lemma psa_aead_finish_copies_tag_length:
  "\<not> defined (TFM_CRYPTO_AEAD_MODULE_DISABLED cfg) \<Longrightarrow>
   ciphertext \<noteq> NULL \<or> ciphertext_size = 0 \<Longrightarrow>
   copies_length (psa_aead_finish cfg chan operation ciphertext ciphertext_size (Ptr cl)
     tag tag_size tag_length) tag_length 1 w"
  by (auto simp add: psa_aead_finish_def dispatch_defs copies_length_def store_size_ptr_def)

lemma psa_aead_finish_copies_ciphertext_length:
  "\<not> defined (TFM_CRYPTO_AEAD_MODULE_DISABLED cfg) \<Longrightarrow>
   ciphertext \<noteq> NULL \<Longrightarrow> ciphertext_size \<noteq> 0 \<Longrightarrow> cl \<noteq> tag_length \<Longrightarrow>
   copies_length (psa_aead_finish cfg chan operation ciphertext ciphertext_size (Ptr cl)
     tag tag_size tag_length) cl 2 w"
  by (auto simp add: psa_aead_finish_def dispatch_defs copies_length_def store_size_ptr_def)

lemma psa_aead_verify_copies_length:
  "\<not> defined (TFM_CRYPTO_AEAD_MODULE_DISABLED cfg) \<Longrightarrow>
   plaintext \<noteq> NULL \<Longrightarrow> plaintext_size \<noteq> 0 \<Longrightarrow>
   copies_length (psa_aead_verify cfg chan operation plaintext plaintext_size (Ptr pl)
     tag tag_length) pl 1 w"
  by (auto simp add: psa_aead_verify_def dispatch_defs copies_length_def store_size_ptr_def)

text \<open>
  Without \<^verbatim>\<open>TFM_PSA_API\<close> the optional output of \<^verbatim>\<open>psa_aead_finish\<close> and
  \<^verbatim>\<open>psa_aead_verify\<close> is always dispatched, and its length is copied for every buffer
  that passes the first test, a null one and an empty one included.
\<close>

lemma psa_aead_finish_copies_ciphertext_length_library:
  "\<not> defined (TFM_CRYPTO_AEAD_MODULE_DISABLED cfg) \<Longrightarrow> \<not> defined (TFM_PSA_API cfg) \<Longrightarrow>
   ciphertext \<noteq> NULL \<or> ciphertext_size = 0 \<Longrightarrow> cl \<noteq> tag_length \<Longrightarrow>
   copies_length (psa_aead_finish cfg chan operation ciphertext ciphertext_size (Ptr cl)
     tag tag_size tag_length) cl 2 w"
  by (auto simp add: psa_aead_finish_def dispatch_defs copies_length_def store_size_ptr_def)

lemma psa_aead_verify_copies_length_library:
  "\<not> defined (TFM_CRYPTO_AEAD_MODULE_DISABLED cfg) \<Longrightarrow> \<not> defined (TFM_PSA_API cfg) \<Longrightarrow>
   plaintext \<noteq> NULL \<or> plaintext_size = 0 \<Longrightarrow>
   copies_length (psa_aead_verify cfg chan operation plaintext plaintext_size (Ptr pl)
     tag tag_length) pl 1 w"
  by (auto simp add: psa_aead_verify_def dispatch_defs copies_length_def store_size_ptr_def)

lemma psa_asymmetric_encrypt_copies_length:
  "\<not> defined (TFM_CRYPTO_ASYM_ENCRYPT_MODULE_DISABLED cfg) \<Longrightarrow>
   salt \<noteq> NULL \<or> salt_length = 0 \<Longrightarrow>
   copies_length (psa_asymmetric_encrypt cfg chan key_id alg input input_length salt
     salt_length output output_size output_length) output_length 0 w"
  by (auto simp add: psa_asymmetric_encrypt_def dispatch_defs copies_length_def)

lemma psa_asymmetric_decrypt_copies_length:
  "\<not> defined (TFM_CRYPTO_ASYM_ENCRYPT_MODULE_DISABLED cfg) \<Longrightarrow>
   salt \<noteq> NULL \<or> salt_length = 0 \<Longrightarrow>
   copies_length (psa_asymmetric_decrypt cfg chan key_id alg input input_length salt
     salt_length output output_size output_length) output_length 0 w"
  by (auto simp add: psa_asymmetric_decrypt_def dispatch_defs copies_length_def)

lemmas copies_length_lemmas =
  psa_export_key_copies_length psa_export_public_key_copies_length
  psa_cipher_generate_iv_copies_length psa_cipher_update_copies_length
  psa_cipher_finish_copies_length psa_hash_finish_copies_length
  psa_hash_compute_copies_length psa_mac_sign_finish_copies_length
  psa_aead_generate_nonce_copies_length psa_sign_message_copies_length
  psa_sign_hash_copies_length psa_mac_compute_copies_length
  psa_cipher_encrypt_copies_length psa_cipher_decrypt_copies_length
  psa_raw_key_agreement_copies_length psa_aead_encrypt_copies_length
  psa_aead_decrypt_copies_length psa_aead_update_copies_length
  psa_aead_finish_copies_tag_length psa_aead_finish_copies_ciphertext_length
  psa_aead_verify_copies_length psa_asymmetric_encrypt_copies_length
  psa_asymmetric_decrypt_copies_length psa_aead_finish_copies_ciphertext_length_library
  psa_aead_verify_copies_length_library

text \<open>
  C1, as the code has it. In a build that has every module, each of the 22 functions
  that report a length, given arguments that pass its local tests (no null optional
  buffer with a length that is not 0, a nonce length within the maximum), dispatches
  exactly once, returns the status the channel answered, and stores in the caller's
  \<^verbatim>\<open>*_length\<close> the length the channel left in the output descriptor. The channel and
  so the status are arbitrary: the copy is made after a failure as it is after a
  success. For \<^verbatim>\<open>psa_aead_finish\<close> and \<^verbatim>\<open>psa_aead_verify\<close> the length pointer of
  the optional output is taken not null (and, for \<^verbatim>\<open>psa_aead_finish\<close>, the two length
  objects distinct): \<^verbatim>\<open>*tag_length\<close> receives the length of descriptor 1, and the
  length of the optional output receives the length of its descriptor for a buffer that
  is not null and not empty in every build, and for every buffer in a build without
  \<^verbatim>\<open>TFM_PSA_API\<close>.
\<close>

theorem output_length_copied_whatever_status:
  assumes "\<not> defined (TFM_CRYPTO_KEY_MODULE_DISABLED cfg)"
    and "\<not> defined (TFM_CRYPTO_CIPHER_MODULE_DISABLED cfg)"
    and "\<not> defined (TFM_CRYPTO_HASH_MODULE_DISABLED cfg)"
    and "\<not> defined (TFM_CRYPTO_MAC_MODULE_DISABLED cfg)"
    and "\<not> defined (TFM_CRYPTO_AEAD_MODULE_DISABLED cfg)"
    and "\<not> defined (TFM_CRYPTO_ASYM_SIGN_MODULE_DISABLED cfg)"
    and "\<not> defined (TFM_CRYPTO_ASYM_ENCRYPT_MODULE_DISABLED cfg)"
    and "\<not> defined (TFM_CRYPTO_KEY_DERIVATION_MODULE_DISABLED cfg)"
  shows
    "(\<forall>key_id data data_size data_length.
        copies_length (psa_export_key cfg chan key_id data data_size data_length)
          data_length 0 w) \<and>
     (\<forall>key_id data data_size data_length.
        copies_length (psa_export_public_key cfg chan key_id data data_size data_length)
          data_length 0 w) \<and>
     (\<forall>operation iv iv_size iv_length.
        copies_length (psa_cipher_generate_iv cfg chan operation iv iv_size iv_length)
          iv_length 1 w) \<and>
     (\<forall>operation input input_length output output_size output_length.
        copies_length (psa_cipher_update cfg chan operation input input_length output
          output_size output_length) output_length 1 w) \<and>
     (\<forall>operation output output_size output_length.
        copies_length (psa_cipher_finish cfg chan operation output output_size
          output_length) output_length 1 w) \<and>
     (\<forall>operation hash hash_size hash_length.
        copies_length (psa_hash_finish cfg chan operation hash hash_size hash_length)
          hash_length 1 w) \<and>
     (\<forall>alg input input_length hash hash_size hash_length.
        copies_length (psa_hash_compute cfg chan alg input input_length hash hash_size
          hash_length) hash_length 0 w) \<and>
     (\<forall>operation mac mac_size mac_length.
        copies_length (psa_mac_sign_finish cfg chan operation mac mac_size mac_length)
          mac_length 1 w) \<and>
     (\<forall>operation nonce nonce_size nonce_length.
        copies_length (psa_aead_generate_nonce cfg chan operation nonce nonce_size
          nonce_length) nonce_length 1 w) \<and>
     (\<forall>key_id alg input input_length signature signature_size signature_length.
        copies_length (psa_sign_message cfg chan key_id alg input input_length signature
          signature_size signature_length) signature_length 0 w) \<and>
     (\<forall>key_id alg hash hash_length signature signature_size signature_length.
        copies_length (psa_sign_hash cfg chan key_id alg hash hash_length signature
          signature_size signature_length) signature_length 0 w) \<and>
     (\<forall>key_id alg input input_length mac mac_size mac_length.
        copies_length (psa_mac_compute cfg chan key_id alg input input_length mac mac_size
          mac_length) mac_length 0 w) \<and>
     (\<forall>key_id alg input input_length output output_size output_length.
        copies_length (psa_cipher_encrypt cfg chan key_id alg input input_length output
          output_size output_length) output_length 0 w) \<and>
     (\<forall>key_id alg input input_length output output_size output_length.
        copies_length (psa_cipher_decrypt cfg chan key_id alg input input_length output
          output_size output_length) output_length 0 w) \<and>
     (\<forall>alg private_key peer_key peer_key_length output output_size output_length.
        copies_length (psa_raw_key_agreement cfg chan alg private_key peer_key
          peer_key_length output output_size output_length) output_length 0 w) \<and>
     (\<forall>key_id alg nonce nonce_length additional_data additional_data_length plaintext
        plaintext_length ciphertext ciphertext_size ciphertext_length.
        nonce_length \<le> TFM_CRYPTO_MAX_NONCE_LENGTH cfg \<and>
        (additional_data \<noteq> NULL \<or> additional_data_length = 0) \<longrightarrow>
        copies_length (psa_aead_encrypt cfg chan key_id alg nonce nonce_length
          additional_data additional_data_length plaintext plaintext_length ciphertext
          ciphertext_size ciphertext_length) ciphertext_length 0 w) \<and>
     (\<forall>key_id alg nonce nonce_length additional_data additional_data_length ciphertext
        ciphertext_length plaintext plaintext_size plaintext_length.
        nonce_length \<le> TFM_CRYPTO_MAX_NONCE_LENGTH cfg \<and>
        (additional_data \<noteq> NULL \<or> additional_data_length = 0) \<longrightarrow>
        copies_length (psa_aead_decrypt cfg chan key_id alg nonce nonce_length
          additional_data additional_data_length ciphertext ciphertext_length plaintext
          plaintext_size plaintext_length) plaintext_length 0 w) \<and>
     (\<forall>operation input input_length output output_size output_length.
        input \<noteq> NULL \<or> input_length = 0 \<longrightarrow>
        copies_length (psa_aead_update cfg chan operation input input_length output
          output_size output_length) output_length 1 w) \<and>
     (\<forall>operation ciphertext ciphertext_size cl tag tag_size tag_length.
        ciphertext \<noteq> NULL \<or> ciphertext_size = 0 \<longrightarrow>
        copies_length (psa_aead_finish cfg chan operation ciphertext ciphertext_size
          (Ptr cl) tag tag_size tag_length) tag_length 1 w) \<and>
     (\<forall>operation ciphertext ciphertext_size cl tag tag_size tag_length.
        ciphertext \<noteq> NULL \<and> ciphertext_size \<noteq> 0 \<and> cl \<noteq> tag_length \<longrightarrow>
        copies_length (psa_aead_finish cfg chan operation ciphertext ciphertext_size
          (Ptr cl) tag tag_size tag_length) cl 2 w) \<and>
     (\<forall>operation plaintext plaintext_size pl tag tag_length.
        plaintext \<noteq> NULL \<and> plaintext_size \<noteq> 0 \<longrightarrow>
        copies_length (psa_aead_verify cfg chan operation plaintext plaintext_size
          (Ptr pl) tag tag_length) pl 1 w) \<and>
     (\<forall>operation ciphertext ciphertext_size cl tag tag_size tag_length.
        \<not> defined (TFM_PSA_API cfg) \<and> (ciphertext \<noteq> NULL \<or> ciphertext_size = 0) \<and>
        cl \<noteq> tag_length \<longrightarrow>
        copies_length (psa_aead_finish cfg chan operation ciphertext ciphertext_size
          (Ptr cl) tag tag_size tag_length) cl 2 w) \<and>
     (\<forall>operation plaintext plaintext_size pl tag tag_length.
        \<not> defined (TFM_PSA_API cfg) \<and> (plaintext \<noteq> NULL \<or> plaintext_size = 0) \<longrightarrow>
        copies_length (psa_aead_verify cfg chan operation plaintext plaintext_size
          (Ptr pl) tag tag_length) pl 1 w) \<and>
     (\<forall>key_id alg input input_length salt salt_length output output_size output_length.
        salt \<noteq> NULL \<or> salt_length = 0 \<longrightarrow>
        copies_length (psa_asymmetric_encrypt cfg chan key_id alg input input_length salt
          salt_length output output_size output_length) output_length 0 w) \<and>
     (\<forall>key_id alg input input_length salt salt_length output output_size output_length.
        salt \<noteq> NULL \<or> salt_length = 0 \<longrightarrow>
        copies_length (psa_asymmetric_decrypt cfg chan key_id alg input input_length salt
          salt_length output output_size output_length) output_length 0 w)"
  using assms
  apply (intro conjI allI impI)
  apply ((elim conjE)?, (rule copies_length_lemmas; assumption))+
  done

theorem output_length_copied_whatever_status_witness:
  "copies_length (psa_hash_finish ipc_config failing_service 1 (Ptr 40) 32 50) 50 1 fresh_world \<and>
   fst (psa_hash_finish ipc_config failing_service 1 (Ptr 40) 32 50 fresh_world) =
     Returned PSA_ERROR_BAD_STATE \<and>
   size_at (mem (snd (psa_hash_finish ipc_config failing_service 1 (Ptr 40) 32 50 fresh_world)))
     50 = 7 \<and>
   copies_length (psa_aead_finish library_config failing_service 1 NULL 0 (Ptr 50) (Ptr 60) 16 70)
     50 2 fresh_world \<and>
   size_at (mem (snd (psa_aead_finish library_config failing_service 1 NULL 0 (Ptr 50) (Ptr 60)
     16 70 fresh_world))) 50 = 7"
proof -
  have "copies_length (psa_hash_finish ipc_config failing_service 1 (Ptr 40) 32 50) 50 1
      fresh_world"
    using output_length_copied_whatever_status [of ipc_config failing_service fresh_world]
    by simp
  moreover have
    "copies_length (psa_aead_finish library_config failing_service 1 NULL 0 (Ptr 50) (Ptr 60)
       16 70) 50 2 fresh_world"
    using output_length_copied_whatever_status [of library_config failing_service fresh_world]
    by simp
  moreover have
    "fst (psa_hash_finish ipc_config failing_service 1 (Ptr 40) 32 50 fresh_world) =
       Returned PSA_ERROR_BAD_STATE"
    "size_at (mem (snd (psa_hash_finish ipc_config failing_service 1 (Ptr 40) 32 50
       fresh_world))) 50 = 7"
    by (simp_all add: psa_hash_finish_def dispatch_defs failing_service_def fresh_world_def)
  moreover have
    "size_at (mem (snd (psa_aead_finish library_config failing_service 1 NULL 0 (Ptr 50)
       (Ptr 60) 16 70 fresh_world))) 50 = 7"
    by (simp add: psa_aead_finish_def dispatch_defs store_size_ptr_def failing_service_def
        fresh_world_def)
  ultimately show ?thesis
    by simp
qed

text \<open>
  C1 as stated fails. Against a service that answers \<^verbatim>\<open>PSA_ERROR_BAD_STATE\<close> after
  reporting 7 bytes, \<^verbatim>\<open>psa_hash_finish\<close>, \<^verbatim>\<open>psa_export_key\<close> and
  \<^verbatim>\<open>psa_cipher_update\<close> return the failure and leave 7 in the caller's length, which
  held 99 before the call: neither zero nor untouched.
\<close>

theorem length_copied_after_failure:
  "fst (psa_hash_finish ipc_config failing_service 1 (Ptr 40) 32 50 fresh_world) =
     Returned PSA_ERROR_BAD_STATE \<and>
   fst (psa_export_key ipc_config failing_service 3 (Ptr 40) 32 50 fresh_world) =
     Returned PSA_ERROR_BAD_STATE \<and>
   fst (psa_cipher_update ipc_config failing_service 1 (Ptr 30) 16 (Ptr 40) 32 50 fresh_world) =
     Returned PSA_ERROR_BAD_STATE \<and>
   PSA_ERROR_BAD_STATE \<noteq> PSA_SUCCESS \<and>
   size_at (mem fresh_world) 50 = 99 \<and>
   size_at (mem (snd (psa_hash_finish ipc_config failing_service 1 (Ptr 40) 32 50 fresh_world)))
     50 = 7 \<and>
   size_at (mem (snd (psa_export_key ipc_config failing_service 3 (Ptr 40) 32 50 fresh_world)))
     50 = 7 \<and>
   size_at (mem (snd (psa_cipher_update ipc_config failing_service 1 (Ptr 30) 16 (Ptr 40) 32 50
     fresh_world))) 50 = 7"
  by (simp add: psa_hash_finish_def psa_export_key_def psa_cipher_update_def dispatch_defs
      failing_service_def fresh_world_def PSA_ERROR_BAD_STATE_def PSA_SUCCESS_def)


subsection \<open>Optional descriptors\<close>













subsection \<open>The optional output of psa_aead_finish and psa_aead_verify\<close>

lemma psa_aead_finish_elided:
  "defined (TFM_PSA_API cfg) \<Longrightarrow> \<not> defined (TFM_CRYPTO_AEAD_MODULE_DISABLED cfg) \<Longrightarrow>
   map out_vecs
     (dispatched
        (psa_aead_finish cfg chan operation ciphertext 0 (Ptr cl) tag tag_size tag_length) w) =
     [[\<lparr>base = Ptr operation, len = sizeof_uint32_t\<rparr>, \<lparr>base = tag, len = tag_size\<rparr>]]"
  by (simp add: psa_aead_finish_def dispatch_defs store_size_ptr_def)

lemma psa_aead_finish_elided_length:
  "defined (TFM_PSA_API cfg) \<Longrightarrow> \<not> defined (TFM_CRYPTO_AEAD_MODULE_DISABLED cfg) \<Longrightarrow>
   cl \<noteq> tag_length \<Longrightarrow>
   size_at (mem (snd (psa_aead_finish cfg chan operation ciphertext 0 (Ptr cl)
     tag tag_size tag_length w))) cl = 0"
  by (simp add: psa_aead_finish_def dispatch_defs store_size_ptr_def)

lemma psa_aead_finish_null_length:
  "defined (TFM_PSA_API cfg) \<Longrightarrow> \<not> defined (TFM_CRYPTO_AEAD_MODULE_DISABLED cfg) \<Longrightarrow>
   ciphertext \<noteq> NULL \<Longrightarrow> ciphertext_size \<noteq> 0 \<Longrightarrow>
   psa_aead_finish cfg chan operation ciphertext ciphertext_size NULL tag tag_size
     tag_length w = (Returned PSA_ERROR_INVALID_ARGUMENT, w)"
  by (simp add: psa_aead_finish_def dispatch_defs)

lemma psa_aead_verify_elided:
  "defined (TFM_PSA_API cfg) \<Longrightarrow> \<not> defined (TFM_CRYPTO_AEAD_MODULE_DISABLED cfg) \<Longrightarrow>
   map out_vecs
     (dispatched (psa_aead_verify cfg chan operation plaintext 0 (Ptr pl) tag tag_length) w) =
     [[\<lparr>base = Ptr operation, len = sizeof_uint32_t\<rparr>]]"
  by (simp add: psa_aead_verify_def dispatch_defs store_size_ptr_def)

lemma psa_aead_verify_elided_length:
  "defined (TFM_PSA_API cfg) \<Longrightarrow> \<not> defined (TFM_CRYPTO_AEAD_MODULE_DISABLED cfg) \<Longrightarrow>
   size_at (mem (snd (psa_aead_verify cfg chan operation plaintext 0 (Ptr pl)
     tag tag_length w))) pl = 0"
  by (simp add: psa_aead_verify_def dispatch_defs store_size_ptr_def)

lemma psa_aead_verify_null_length:
  "defined (TFM_PSA_API cfg) \<Longrightarrow> \<not> defined (TFM_CRYPTO_AEAD_MODULE_DISABLED cfg) \<Longrightarrow>
   plaintext \<noteq> NULL \<Longrightarrow> plaintext_size \<noteq> 0 \<Longrightarrow>
   psa_aead_verify cfg chan operation plaintext plaintext_size NULL tag tag_length w =
     (Returned PSA_ERROR_INVALID_ARGUMENT, w)"
  by (simp add: psa_aead_verify_def dispatch_defs)

text \<open>
  When the optional output is elided and the length out-parameter is null as well, the
  functions dispatch and then store 0 through the null pointer.
\<close>

lemma psa_aead_finish_elided_null_length:
  "defined (TFM_PSA_API cfg) \<Longrightarrow> \<not> defined (TFM_CRYPTO_AEAD_MODULE_DISABLED cfg) \<Longrightarrow>
   fst (psa_aead_finish cfg chan operation ciphertext 0 NULL tag tag_size tag_length w) =
     Null_deref \<and>
   length (dispatched
     (psa_aead_finish cfg chan operation ciphertext 0 NULL tag tag_size tag_length) w) = 1"
  by (simp add: psa_aead_finish_def dispatch_defs store_size_ptr_def)

text \<open>
  Without \<^verbatim>\<open>TFM_PSA_API\<close> the two functions dispatch every output descriptor, for any
  length pointer, and then store the length of the last one through the pointer, which
  they have not tested.
\<close>

lemma psa_aead_finish_library_out_vecs:
  "\<not> defined (TFM_PSA_API cfg) \<Longrightarrow> \<not> defined (TFM_CRYPTO_AEAD_MODULE_DISABLED cfg) \<Longrightarrow>
   ciphertext \<noteq> NULL \<or> ciphertext_size = 0 \<Longrightarrow>
   map out_vecs
     (dispatched
        (psa_aead_finish cfg chan operation ciphertext ciphertext_size ciphertext_length
           tag tag_size tag_length) w) =
     [[\<lparr>base = Ptr operation, len = sizeof_uint32_t\<rparr>, \<lparr>base = tag, len = tag_size\<rparr>,
       \<lparr>base = ciphertext, len = ciphertext_size\<rparr>]]"
  by (auto simp add: psa_aead_finish_def dispatch_defs store_size_ptr_def split: ptr.splits)

lemma psa_aead_finish_library_null_length:
  "\<not> defined (TFM_PSA_API cfg) \<Longrightarrow> \<not> defined (TFM_CRYPTO_AEAD_MODULE_DISABLED cfg) \<Longrightarrow>
   ciphertext \<noteq> NULL \<or> ciphertext_size = 0 \<Longrightarrow>
   fst (psa_aead_finish cfg chan operation ciphertext ciphertext_size NULL tag tag_size
     tag_length w) = Null_deref"
  by (auto simp add: psa_aead_finish_def dispatch_defs store_size_ptr_def)

lemma psa_aead_verify_library_out_vecs:
  "\<not> defined (TFM_PSA_API cfg) \<Longrightarrow> \<not> defined (TFM_CRYPTO_AEAD_MODULE_DISABLED cfg) \<Longrightarrow>
   plaintext \<noteq> NULL \<or> plaintext_size = 0 \<Longrightarrow>
   map out_vecs
     (dispatched
        (psa_aead_verify cfg chan operation plaintext plaintext_size plaintext_length
           tag tag_length) w) =
     [[\<lparr>base = Ptr operation, len = sizeof_uint32_t\<rparr>,
       \<lparr>base = plaintext, len = plaintext_size\<rparr>]]"
  by (auto simp add: psa_aead_verify_def dispatch_defs store_size_ptr_def split: ptr.splits)

lemma psa_aead_verify_library_null_length:
  "\<not> defined (TFM_PSA_API cfg) \<Longrightarrow> \<not> defined (TFM_CRYPTO_AEAD_MODULE_DISABLED cfg) \<Longrightarrow>
   plaintext \<noteq> NULL \<or> plaintext_size = 0 \<Longrightarrow>
   fst (psa_aead_verify cfg chan operation plaintext plaintext_size NULL tag tag_length w) =
     Null_deref"
  by (auto simp add: psa_aead_verify_def dispatch_defs store_size_ptr_def)

lemma psa_aead_finish_library_length:
  "\<not> defined (TFM_PSA_API cfg) \<Longrightarrow> \<not> defined (TFM_CRYPTO_AEAD_MODULE_DISABLED cfg) \<Longrightarrow>
   ciphertext \<noteq> NULL \<or> ciphertext_size = 0 \<Longrightarrow> cl \<noteq> tag_length \<Longrightarrow>
   copies_length (psa_aead_finish cfg chan operation ciphertext ciphertext_size (Ptr cl)
     tag tag_size tag_length) cl 2 w"
  by (rule psa_aead_finish_copies_ciphertext_length_library)

lemma psa_aead_verify_library_length:
  "\<not> defined (TFM_PSA_API cfg) \<Longrightarrow> \<not> defined (TFM_CRYPTO_AEAD_MODULE_DISABLED cfg) \<Longrightarrow>
   plaintext \<noteq> NULL \<or> plaintext_size = 0 \<Longrightarrow>
   copies_length (psa_aead_verify cfg chan operation plaintext plaintext_size (Ptr pl)
     tag tag_length) pl 1 w"
  by (rule psa_aead_verify_copies_length_library)

lemmas aead_optional_output_lemmas =
  psa_aead_finish_elided psa_aead_finish_elided_length psa_aead_finish_null_length
  psa_aead_verify_elided psa_aead_verify_elided_length psa_aead_verify_null_length
  psa_aead_finish_library_out_vecs psa_aead_finish_library_length
  psa_aead_finish_library_null_length psa_aead_verify_library_out_vecs
  psa_aead_verify_library_length psa_aead_verify_library_null_length

text \<open>
  C10, as the code has it, in a build that has the AEAD module.

  With \<^verbatim>\<open>TFM_PSA_API\<close>: \<^verbatim>\<open>psa_aead_finish\<close> with \<^verbatim>\<open>ciphertext_size == 0\<close>, whether
  \<^verbatim>\<open>ciphertext\<close> is null or not, and a \<^verbatim>\<open>ciphertext_length\<close> that is not null,
  dispatches the handle and tag descriptors only and leaves 0 in \<^verbatim>\<open>*ciphertext_length\<close>
  (a length object other than \<^verbatim>\<open>*tag_length\<close>); with a ciphertext buffer that is not
  null and not empty and a null \<^verbatim>\<open>ciphertext_length\<close> it returns
  \<^verbatim>\<open>PSA_ERROR_INVALID_ARGUMENT\<close> with the world unchanged. \<^verbatim>\<open>psa_aead_verify\<close> does
  the same for its plaintext output.

  Without \<^verbatim>\<open>TFM_PSA_API\<close>, for every ciphertext buffer that passes the first test (it
  is not null, or its size is 0): \<^verbatim>\<open>psa_aead_finish\<close> dispatches all three output
  descriptors, whatever \<^verbatim>\<open>ciphertext_length\<close> is; with a \<^verbatim>\<open>ciphertext_length\<close> that
  is not null (and is not \<^verbatim>\<open>tag_length\<close>) it dispatches once, returns the channel's
  status and leaves in \<^verbatim>\<open>*ciphertext_length\<close> the length of descriptor 2 as the channel
  left it; with a null \<^verbatim>\<open>ciphertext_length\<close> it does not return: it stores through
  the null pointer after the dispatch. \<^verbatim>\<open>psa_aead_verify\<close> does the same for its
  plaintext output, with two output descriptors and descriptor 1.
\<close>

theorem aead_optional_output_elided:
  assumes "\<not> defined (TFM_CRYPTO_AEAD_MODULE_DISABLED cfg)"
  shows
    "(\<forall>operation ciphertext cl tag tag_size tag_length.
        defined (TFM_PSA_API cfg) \<longrightarrow>
        map out_vecs
          (dispatched
             (psa_aead_finish cfg chan operation ciphertext 0 (Ptr cl) tag tag_size
                tag_length) w) =
          [[\<lparr>base = Ptr operation, len = sizeof_uint32_t\<rparr>, \<lparr>base = tag, len = tag_size\<rparr>]] \<and>
        (cl \<noteq> tag_length \<longrightarrow>
         size_at (mem (snd (psa_aead_finish cfg chan operation ciphertext 0 (Ptr cl)
           tag tag_size tag_length w))) cl = 0)) \<and>
     (\<forall>operation ciphertext ciphertext_size tag tag_size tag_length.
        defined (TFM_PSA_API cfg) \<and> ciphertext \<noteq> NULL \<and> ciphertext_size \<noteq> 0 \<longrightarrow>
        psa_aead_finish cfg chan operation ciphertext ciphertext_size NULL tag tag_size
          tag_length w = (Returned PSA_ERROR_INVALID_ARGUMENT, w)) \<and>
     (\<forall>operation plaintext pl tag tag_length.
        defined (TFM_PSA_API cfg) \<longrightarrow>
        map out_vecs
          (dispatched
             (psa_aead_verify cfg chan operation plaintext 0 (Ptr pl) tag tag_length) w) =
          [[\<lparr>base = Ptr operation, len = sizeof_uint32_t\<rparr>]] \<and>
        size_at (mem (snd (psa_aead_verify cfg chan operation plaintext 0 (Ptr pl)
          tag tag_length w))) pl = 0) \<and>
     (\<forall>operation plaintext plaintext_size tag tag_length.
        defined (TFM_PSA_API cfg) \<and> plaintext \<noteq> NULL \<and> plaintext_size \<noteq> 0 \<longrightarrow>
        psa_aead_verify cfg chan operation plaintext plaintext_size NULL tag tag_length w =
          (Returned PSA_ERROR_INVALID_ARGUMENT, w)) \<and>
     (\<forall>operation ciphertext ciphertext_size ciphertext_length tag tag_size tag_length.
        \<not> defined (TFM_PSA_API cfg) \<and> (ciphertext \<noteq> NULL \<or> ciphertext_size = 0) \<longrightarrow>
        map out_vecs
          (dispatched
             (psa_aead_finish cfg chan operation ciphertext ciphertext_size
                ciphertext_length tag tag_size tag_length) w) =
          [[\<lparr>base = Ptr operation, len = sizeof_uint32_t\<rparr>, \<lparr>base = tag, len = tag_size\<rparr>,
            \<lparr>base = ciphertext, len = ciphertext_size\<rparr>]]) \<and>
     (\<forall>operation ciphertext ciphertext_size cl tag tag_size tag_length.
        \<not> defined (TFM_PSA_API cfg) \<and> (ciphertext \<noteq> NULL \<or> ciphertext_size = 0) \<and>
        cl \<noteq> tag_length \<longrightarrow>
        copies_length (psa_aead_finish cfg chan operation ciphertext ciphertext_size
          (Ptr cl) tag tag_size tag_length) cl 2 w) \<and>
     (\<forall>operation ciphertext ciphertext_size tag tag_size tag_length.
        \<not> defined (TFM_PSA_API cfg) \<and> (ciphertext \<noteq> NULL \<or> ciphertext_size = 0) \<longrightarrow>
        fst (psa_aead_finish cfg chan operation ciphertext ciphertext_size NULL tag
          tag_size tag_length w) = Null_deref) \<and>
     (\<forall>operation plaintext plaintext_size plaintext_length tag tag_length.
        \<not> defined (TFM_PSA_API cfg) \<and> (plaintext \<noteq> NULL \<or> plaintext_size = 0) \<longrightarrow>
        map out_vecs
          (dispatched
             (psa_aead_verify cfg chan operation plaintext plaintext_size plaintext_length
                tag tag_length) w) =
          [[\<lparr>base = Ptr operation, len = sizeof_uint32_t\<rparr>,
            \<lparr>base = plaintext, len = plaintext_size\<rparr>]]) \<and>
     (\<forall>operation plaintext plaintext_size pl tag tag_length.
        \<not> defined (TFM_PSA_API cfg) \<and> (plaintext \<noteq> NULL \<or> plaintext_size = 0) \<longrightarrow>
        copies_length (psa_aead_verify cfg chan operation plaintext plaintext_size
          (Ptr pl) tag tag_length) pl 1 w) \<and>
     (\<forall>operation plaintext plaintext_size tag tag_length.
        \<not> defined (TFM_PSA_API cfg) \<and> (plaintext \<noteq> NULL \<or> plaintext_size = 0) \<longrightarrow>
        fst (psa_aead_verify cfg chan operation plaintext plaintext_size NULL tag
          tag_length w) = Null_deref)"
  using assms
  apply (intro conjI allI impI)
  apply ((elim conjE)?, (rule aead_optional_output_lemmas; assumption))+
  done

theorem aead_optional_output_elided_witness:
  "map out_vecs
     (dispatched
        (psa_aead_finish ipc_config failing_service 1 (Ptr 40) 0 (Ptr 50) (Ptr 60) 16 70)
        fresh_world) =
     [[\<lparr>base = Ptr 1, len = sizeof_uint32_t\<rparr>, \<lparr>base = Ptr 60, len = 16\<rparr>]] \<and>
   size_at (mem (snd (psa_aead_finish ipc_config failing_service 1 (Ptr 40) 0 (Ptr 50)
     (Ptr 60) 16 70 fresh_world))) 50 = 0 \<and>
   size_at (mem fresh_world) 50 = 99 \<and>
   psa_aead_finish ipc_config failing_service 1 (Ptr 40) 19 NULL (Ptr 60) 16 70 fresh_world =
     (Returned PSA_ERROR_INVALID_ARGUMENT, fresh_world) \<and>
   map out_vecs
     (dispatched
        (psa_aead_finish library_config failing_service 1 (Ptr 40) 0 (Ptr 50) (Ptr 60) 16 70)
        fresh_world) =
     [[\<lparr>base = Ptr 1, len = sizeof_uint32_t\<rparr>, \<lparr>base = Ptr 60, len = 16\<rparr>,
       \<lparr>base = Ptr 40, len = 0\<rparr>]] \<and>
   fst (psa_aead_finish library_config failing_service 1 (Ptr 40) 19 NULL (Ptr 60) 16 70
     fresh_world) = Null_deref"
proof -
  have b: "\<not> defined (TFM_CRYPTO_AEAD_MODULE_DISABLED ipc_config)"
    and b': "\<not> defined (TFM_CRYPTO_AEAD_MODULE_DISABLED library_config)"
    by simp_all
  note t = aead_optional_output_elided [OF b, of failing_service fresh_world]
  note u = aead_optional_output_elided [OF b', of failing_service fresh_world]
  have "size_at (mem fresh_world) 50 = 99"
    by (simp add: fresh_world_def)
  with t u show ?thesis
    by simp
qed

text \<open>
  C10 as stated fails in a build without \<^verbatim>\<open>TFM_PSA_API\<close>. There
  \<^verbatim>\<open>psa_aead_finish\<close> with a ciphertext buffer that is not null and has size 0
  dispatches all three output descriptors and copies the channel's length for the third
  (7, from the failing service) into \<^verbatim>\<open>*ciphertext_length\<close>; and with a null
  \<^verbatim>\<open>ciphertext_length\<close> it does not return \<^verbatim>\<open>PSA_ERROR_INVALID_ARGUMENT\<close> but
  dispatches and then stores through the null pointer.
\<close>

theorem library_build_never_elides:
  "map (\<lambda>d. length (out_vecs d))
     (dispatched
        (psa_aead_finish library_config failing_service 1 (Ptr 40) 0 (Ptr 50) (Ptr 60) 16 70)
        fresh_world) = [3] \<and>
   size_at (mem (snd (psa_aead_finish library_config failing_service 1 (Ptr 40) 0 (Ptr 50)
     (Ptr 60) 16 70 fresh_world))) 50 = 7 \<and>
   fst (psa_aead_finish library_config failing_service 1 (Ptr 40) 19 NULL (Ptr 60) 16 70
     fresh_world) = Null_deref \<and>
   map (\<lambda>d. length (out_vecs d))
     (dispatched
        (psa_aead_finish library_config failing_service 1 (Ptr 40) 19 NULL (Ptr 60) 16 70)
        fresh_world) = [3]"
  by (simp add: psa_aead_finish_def dispatch_defs store_size_ptr_def failing_service_def
      fresh_world_def)


end
